theory Spec2Isabelle
  imports Main
begin

section \<open>Python strings\<close>

text \<open>
  A Python \<open>str\<close> is modelled as a \<open>string\<close>: one \<open>char\<close> per code point, for
  the code points below 256. \<open>len\<close> is \<open>length\<close>.

  \<open>str.isspace\<close> on one code point below 256 holds for the ASCII white space
  (9 to 13 and 32), the separators 28 to 31, NEL (133) and the no-break space (160).
  \<open>str.strip()\<close> removes such characters from both ends.
\<close>

definition py_isspace :: "char \<Rightarrow> bool" where
  "py_isspace c =
     ((of_char c :: nat) \<in> set [9, 10, 11, 12, 13, 28, 29, 30, 31, 32, 133, 160])"

definition py_strip :: "string \<Rightarrow> string" where
  "py_strip s = rev (dropWhile py_isspace (rev (dropWhile py_isspace s)))"

text \<open>\<open>s.startswith(pre)\<close> and \<open>s.endswith(suf)\<close>.\<close>

definition startswith :: "string \<Rightarrow> string \<Rightarrow> bool" where
  "startswith s pre = (take (length pre) s = pre)"

definition endswith :: "string \<Rightarrow> string \<Rightarrow> bool" where
  "endswith s suf = (length suf \<le> length s \<and> drop (length s - length suf) s = suf)"

text \<open>\<open>s.split(sep)\<close> for a separator of one character, and \<open>sep.join(xs)\<close>.\<close>

fun split_on :: "char \<Rightarrow> string \<Rightarrow> string list" where
  "split_on sep [] = [[]]"
| "split_on sep (c # cs) =
     (if c = sep then [] # split_on sep cs
      else (c # hd (split_on sep cs)) # tl (split_on sep cs))"

fun join :: "string \<Rightarrow> string list \<Rightarrow> string" where
  "join sep [] = []"
| "join sep [x] = x"
| "join sep (x # y # ys) = x @ sep @ join sep (y # ys)"

text \<open>\<open>sub in s\<close> on strings: \<open>sub\<close> occurs in \<open>s\<close> as a contiguous run.\<close>

fun py_contains :: "string \<Rightarrow> string \<Rightarrow> bool" where
  "py_contains sub [] = (sub = [])"
| "py_contains sub (c # cs) = (startswith (c # cs) sub \<or> py_contains sub cs)"

text \<open>
  \<open>s.replace(old, new)\<close> for a non-empty \<open>old\<close>: every occurrence of \<open>old\<close>,
  found from the left and not overlapping, is replaced. (The source only calls it with
  the two non-empty tools-directory placeholders.)
\<close>

function py_replace :: "string \<Rightarrow> string \<Rightarrow> string \<Rightarrow> string" where
  "py_replace old new s =
     (if s = [] then []
      else if old \<noteq> [] \<and> startswith s old
        then new @ py_replace old new (drop (length old) s)
      else hd s # py_replace old new (tl s))"
  by pat_completeness auto
termination
  by (relation "measure (\<lambda>(old, new, s). length s)") auto

declare py_replace.simps [simp del]

section \<open>The standard library's \<open>pathlib.PurePosixPath\<close>\<close>

text \<open>
  \<open>is_valid_blob_name\<close> builds a \<open>pathlib.PurePosixPath\<close> from the blob name and
  reads \<open>parts\<close>, \<open>is_absolute()\<close> and \<open>as_posix()\<close>. A pure POSIX path is a root
  (\<open>''''\<close>, \<open>''/''\<close> or \<open>''//''\<close>) and the list of its names.

  Parsing one string: the leading slashes are the root (exactly two slashes give the
  root \<open>''//''\<close>, any other positive number the root \<open>''/''\<close>); the rest is split at
  \<open>/\<close>, and the empty names and the names \<open>''.''\<close> are dropped.
  \<open>parts\<close> is the root, when there is one, followed by the names. The string of a
  path is the root followed by the names joined with \<open>/\<close>, and \<open>''.''\<close> for the path
  with neither root nor names.
\<close>

record posix_path =
  pp_root :: string
  pp_names :: "string list"

definition splitroot :: "string \<Rightarrow> string \<times> string" where
  "splitroot part =
     (if part \<noteq> [] \<and> hd part = CHR ''/'' then
        (let stripped_part = dropWhile (\<lambda>c. c = CHR ''/'') part in
         if length part - length stripped_part = 2 then (''//'', stripped_part)
         else (''/'', stripped_part))
      else ('''', part))"

definition PurePosixPath :: "string \<Rightarrow> posix_path" where
  "PurePosixPath s =
     (case splitroot s of (root, rel) \<Rightarrow>
        \<lparr>pp_root = root,
         pp_names = filter (\<lambda>x. x \<noteq> [] \<and> x \<noteq> ''.'') (split_on (CHR ''/'') rel)\<rparr>)"

definition parts :: "posix_path \<Rightarrow> string list" where
  "parts p = (if pp_root p \<noteq> [] then [pp_root p] else []) @ pp_names p"

definition is_absolute :: "posix_path \<Rightarrow> bool" where
  "is_absolute p = (pp_root p \<noteq> [])"

definition as_posix :: "posix_path \<Rightarrow> string" where
  "as_posix p =
     (if pp_root p \<noteq> [] then pp_root p @ join ''/'' (pp_names p)
      else if join ''/'' (pp_names p) = [] then ''.''
      else join ''/'' (pp_names p))"

section \<open>Blob names (\<open>tasks/config.py\<close>)\<close>

definition MIN_LENGTH :: nat where "MIN_LENGTH = 1"
definition MAX_LENGTH :: nat where "MAX_LENGTH = 1024"
definition MAX_PATH_SEGMENTS :: nat where "MAX_PATH_SEGMENTS = 254"

text \<open>\<open>is_valid_blob_name\<close>, check by check in the order of the source.\<close>

definition is_valid_blob_name :: "string \<Rightarrow> bool" where
  "is_valid_blob_name blob_name =
     (let len = length blob_name in
      if blob_name \<noteq> py_strip blob_name then False
      else if len < MIN_LENGTH then False
      else if len > MAX_LENGTH then False
      else
        (let path = PurePosixPath blob_name in
         if length (parts path) > MAX_PATH_SEGMENTS then False
         else if list_ex (\<lambda>part. endswith part ''.'') (parts path) then False
         else if is_absolute path then False
         else if ''.'' \<in> set (parts path) then False
         else if ''..'' \<in> set (parts path) then False
         else blob_name = as_posix path))"

text \<open>
  The rules of the specification, in its words: the length is between 1 and 1024, the
  name equals itself stripped, the name split at forward slashes has at most 254
  segments, no segment ends with a dot, the name has no leading slash, no segment is
  \<open>''.''\<close> or \<open>''..''\<close>, and the name is identical to its normalised form.
\<close>

definition blob_name_rules :: "string \<Rightarrow> bool" where
  "blob_name_rules s =
     (let segments = split_on (CHR ''/'') s in
      1 \<le> length s \<and> length s \<le> 1024
      \<and> s = py_strip s
      \<and> length segments \<le> 254
      \<and> \<not> list_ex (\<lambda>seg. endswith seg ''.'') segments
      \<and> \<not> startswith s ''/''
      \<and> ''.'' \<notin> set segments
      \<and> ''..'' \<notin> set segments
      \<and> s = as_posix (PurePosixPath s))"

section \<open>Task definitions and task configurations\<close>

text \<open>
  The enumerations and models of \<open>onefuzztypes\<close> that \<open>tasks/config.py\<close> reads.
  \<open>Compare\<close> has the three members \<open>check_val\<close> tests. A member of
  \<open>ContainerType\<close> and of \<open>TaskType\<close> is identified by its name
  (\<open>ContainerType.setup\<close> is \<open>ContainerType ''setup''\<close>); \<open>TaskFeature\<close> lists
  the members the source tests.
\<close>

datatype Compare = Equal | AtLeast | AtMost

datatype ContainerPermission = Read | Write | Delete | ListP

datatype container_type = ContainerType (ct_name: string)

datatype task_type = TaskType (tt_name: string)

datatype StorageType = Storage_corpus | Storage_config

datatype TaskFeature =
    supervisor_exe | supervisor_env | supervisor_options | supervisor_input_marker
  | target_exe | target_exe_optional | target_env | target_options
  | target_options_merge | target_workers | target_must_use_input | rename_output
  | generator_exe | generator_env | generator_options | wait_for_files
  | analyzer_exe | analyzer_options | analyzer_env | stats_file | target_timeout
  | check_asan_log | check_debugger | check_retry_count | ensemble_sync_delay
  | check_fuzzer_help | report_list | minimized_stack_depth | expect_crash_on_failure
  | coverage_filter | target_assembly | target_class | target_method

record ContainerDefinition =
  cd_type :: container_type
  cd_compare :: Compare
  cd_value :: int
  cd_permissions :: "ContainerPermission list"

record VmDefinition =
  vd_compare :: Compare
  vd_value :: int

record TaskDefinition =
  td_features :: "TaskFeature list"
  td_vm :: VmDefinition
  td_containers :: "ContainerDefinition list"
  td_monitor_queue :: "container_type option"

text \<open>
  The task body (\<open>config.task\<close>): the fields the source reads, each optional one
  \<open>None\<close> when the user gave no value. A \<open>Dict[str, str]\<close> is an association list.
\<close>

record TaskDetails =
  task_type :: task_type
  task_target_exe :: "string option"
  task_target_env :: "(string \<times> string) list option"
  task_target_options :: "string list option"
  task_target_workers :: "int option"
  task_target_options_merge :: "bool option"
  task_check_asan_log :: "bool option"
  task_check_debugger :: "bool option"
  task_check_retry_count :: "int option"
  task_check_fuzzer_help :: "bool option"
  task_expect_crash_on_failure :: "bool option"
  task_rename_output :: "bool option"
  task_supervisor_exe :: "string option"
  task_supervisor_env :: "(string \<times> string) list option"
  task_supervisor_options :: "string list option"
  task_supervisor_input_marker :: "string option"
  task_generator_exe :: "string option"
  task_generator_env :: "(string \<times> string) list option"
  task_generator_options :: "string list option"
  task_analyzer_exe :: "string option"
  task_analyzer_env :: "(string \<times> string) list option"
  task_analyzer_options :: "string list option"
  task_wait_for_files :: "container_type option"
  task_stats_file :: "string option"
  task_stats_format :: "string option"
  task_target_timeout :: "int option"
  task_ensemble_sync_delay :: "int option"
  task_report_list :: "string list option"
  task_minimized_stack_depth :: "int option"
  task_coverage_filter :: "string option"
  task_target_assembly :: "string option"
  task_target_class :: "string option"
  task_target_method :: "string option"

text \<open>
  The source never reads a field of the legacy VM spec; it only tests its presence
  (an instance of a model class is truthy).
\<close>

datatype TaskVm = TaskVm

record TaskPool =
  tp_count :: int
  tp_pool_name :: string

record TaskContainers =
  tc_type :: container_type
  tc_name :: string

record TaskConfig =
  cfg_task :: TaskDetails
  cfg_vm :: "TaskVm option"
  cfg_pool :: "TaskPool option"
  cfg_containers :: "TaskContainers list"

record JobConfig =
  jc_logs :: "string option"

record Job =
  job_id :: string
  job_config :: JobConfig

record Task =
  task_id :: string
  task_config :: TaskConfig

section \<open>Errors, log lines and collaborators\<close>

text \<open>
  A \<open>TaskConfigError\<close> carries its message; each constructor below is one message of
  the source with the values the source formats into it:
  \<^item> \<open>UnsupportedTaskType\<close>: \<open>unsupported task type: %s\<close>
  \<^item> \<open>VmAndPool\<close>: \<open>either the vm or pool must be specified, but not both\<close>
  \<^item> \<open>MissingContainer\<close>: \<open>missing container: %s\<close>
  \<^item> \<open>ContainerCount\<close>: \<open>container type %s: expected %s %d, got %d\<close>
  \<^item> \<open>UnsupportedContainerType\<close>: \<open>unsupported container type for this task: %s\<close>
  \<^item> \<open>MonitorNotUsed\<close>: \<open>unable to monitor container type as it is not used by this task: %s\<close>
  \<^item> \<open>MissingSupervisorExe\<close>: \<open>missing supervisor_exe\<close>
  \<^item> \<open>InputMustBeUsed\<close>: \<open>{input} must be used in target_env or target_options\<close>
  \<^item> \<open>VmNoLongerSupported\<close>: \<open>specifying task config vm is no longer supported\<close>
  \<^item> \<open>PoolMustBeSpecified\<close>: \<open>pool must be specified\<close>
  \<^item> \<open>InvalidVmCount\<close>: \<open>invalid vm count: expected %s %d, got %s\<close>
  \<^item> \<open>InvalidPool\<close>: \<open>invalid pool: ...\<close>
  \<^item> \<open>MissingTargetExe\<close>: \<open>missing target_exe\<close>
  \<^item> \<open>TargetExeNotCanonical\<close>: \<open>target_exe must be a canonicalized relative path\<close>
  \<^item> \<open>GeneratorExeNotDefined\<close>: \<open>generator_exe is not defined\<close>
  \<^item> \<open>GeneratorExeMissing\<close>: \<open>generator_exe `%s` does not exist in the tools container `%s`\<close>
  \<^item> \<open>StatsFormatRequired\<close>: \<open>using a stats_file requires a stats_format\<close>
  \<^item> \<open>MissingSetupContainer\<close>: \<open>task missing setup container: task_type = %s\<close>

  \<open>IndexError\<close> is what indexing an empty list with \<open>[0]\<close> raises.
\<close>

datatype task_config_msg =
    UnsupportedTaskType task_type
  | VmAndPool
  | MissingContainer string
  | ContainerCount container_type Compare int nat
  | UnsupportedContainerType container_type
  | MonitorNotUsed container_type
  | MissingSupervisorExe
  | InputMustBeUsed
  | VmNoLongerSupported
  | PoolMustBeSpecified
  | InvalidVmCount Compare int int
  | InvalidPool string
  | MissingTargetExe
  | TargetExeNotCanonical
  | GeneratorExeNotDefined
  | GeneratorExeMissing string string
  | StatsFormatRequired
  | MissingSetupContainer task_type

datatype error = TaskConfigError task_config_msg | IndexError

text \<open>
  What the source writes to its logger: an error line with the message of the error
  it raises next, the warning of \<open>check_target_exe\<close> (target_exe, setup container),
  and the warning of \<open>build_task_config\<close> (job id, task id).
\<close>

datatype log_entry =
    LogError task_config_msg
  | LogWarningTargetExe string string
  | LogWarningMissingLogs string string

record queue_perms =
  q_add :: bool
  q_read :: bool
  q_update :: bool
  q_process :: bool

text \<open>
  The collaborators the source imports and the process environment, as parameters:
  the catalogue \<open>TASK_DEFINITIONS\<close>, the storage queries, the pool registry
  (\<open>Pool_get_by_name\<close> holds when \<open>Pool.get_by_name\<close> returns a pool), the issuers
  of access URLs, the instance id and \<open>os.environ\<close>.
\<close>

record env =
  TASK_DEFINITIONS :: "task_type \<Rightarrow> TaskDefinition option"
  container_exists :: "string \<Rightarrow> StorageType \<Rightarrow> bool"
  blob_exists :: "string \<Rightarrow> string \<Rightarrow> StorageType \<Rightarrow> bool"
  Pool_get_by_name :: "string \<Rightarrow> bool"
  get_queue_sas :: "string \<Rightarrow> StorageType \<Rightarrow> queue_perms \<Rightarrow> string"
  get_container_sas_url ::
    "string \<Rightarrow> StorageType \<Rightarrow> bool \<Rightarrow> bool \<Rightarrow> bool \<Rightarrow> bool \<Rightarrow> string"
  add_container_sas_url :: "string \<Rightarrow> string"
  get_instance_id :: string
  environ :: "string \<Rightarrow> string option"

section \<open>Validation (\<open>tasks/config.py\<close>)\<close>

fun check_val :: "Compare \<Rightarrow> int \<Rightarrow> int \<Rightarrow> bool" where
  "check_val Equal expected actual = (expected = actual)"
| "check_val AtLeast expected actual = (expected \<le> actual)"
| "check_val AtMost expected actual = (expected \<ge> actual)"

text \<open>
  The dictionary \<open>containers\<close> of \<open>check_containers\<close> maps a container type to the
  names submitted under it; it is an association list in the order in which its keys
  were first inserted. \<open>dict_get\<close> is \<open>containers.get(key, [])\<close> and \<open>dict_append\<close>
  is the pair of statements that creates the key's list when missing and appends to it.
\<close>

definition dict_get :: "('k \<times> 'v list) list \<Rightarrow> 'k \<Rightarrow> 'v list" where
  "dict_get d k = (case map_of d k of None \<Rightarrow> [] | Some vs \<Rightarrow> vs)"

fun dict_append :: "('k \<times> 'v list) list \<Rightarrow> 'k \<Rightarrow> 'v \<Rightarrow> ('k \<times> 'v list) list" where
  "dict_append [] k v = [(k, [v])]"
| "dict_append ((k', vs) # rest) k v =
     (if k' = k then (k', vs @ [v]) # rest else (k', vs) # dict_append rest k v)"

definition check_container ::
  "Compare \<Rightarrow> int \<Rightarrow> container_type \<Rightarrow> (container_type \<times> string list) list
     \<Rightarrow> error + unit" where
  "check_container compare expected container_type containers =
     (let actual = length (dict_get containers container_type) in
      if \<not> check_val compare expected (int actual)
      then Inl (TaskConfigError (ContainerCount container_type compare expected actual))
      else Inr ())"

text \<open>
  The three loops of \<open>check_containers\<close>: over the submitted containers (with the
  set \<open>checked\<close> and the dictionary \<open>containers\<close> as loop state), over the
  definition's containers, and over the keys of \<open>containers\<close>.
\<close>

fun check_containers_gather ::
  "env \<Rightarrow> TaskContainers list \<Rightarrow> string set \<Rightarrow> (container_type \<times> string list) list
     \<Rightarrow> error + (container_type \<times> string list) list" where
  "check_containers_gather env [] checked containers = Inr containers"
| "check_containers_gather env (container # rest) checked containers =
     (if tc_name container \<notin> checked
      then
        (if \<not> container_exists env (tc_name container) Storage_corpus
         then Inl (TaskConfigError (MissingContainer (tc_name container)))
         else check_containers_gather env rest (insert (tc_name container) checked)
                (dict_append containers (tc_type container) (tc_name container)))
      else check_containers_gather env rest checked
             (dict_append containers (tc_type container) (tc_name container)))"

fun check_containers_defs ::
  "ContainerDefinition list \<Rightarrow> (container_type \<times> string list) list \<Rightarrow> error + unit" where
  "check_containers_defs [] containers = Inr ()"
| "check_containers_defs (container_def # rest) containers =
     (case check_container (cd_compare container_def) (cd_value container_def)
             (cd_type container_def) containers of
        Inl e \<Rightarrow> Inl e
      | Inr _ \<Rightarrow> check_containers_defs rest containers)"

fun check_containers_types ::
  "TaskDefinition \<Rightarrow> container_type list \<Rightarrow> error + unit" where
  "check_containers_types defn [] = Inr ()"
| "check_containers_types defn (container_type # rest) =
     (if container_type \<notin> set (map cd_type (td_containers defn))
      then Inl (TaskConfigError (UnsupportedContainerType container_type))
      else check_containers_types defn rest)"

definition check_containers :: "env \<Rightarrow> TaskDefinition \<Rightarrow> TaskConfig \<Rightarrow> error + unit" where
  "check_containers env defn config =
     (case check_containers_gather env (cfg_containers config) {} [] of
        Inl e \<Rightarrow> Inl e
      | Inr containers \<Rightarrow>
          (case check_containers_defs (td_containers defn) containers of
             Inl e \<Rightarrow> Inl e
           | Inr _ \<Rightarrow>
               (case check_containers_types defn (map fst containers) of
                  Inl e \<Rightarrow> Inl e
                | Inr _ \<Rightarrow>
                    (case td_monitor_queue defn of
                       None \<Rightarrow> Inr ()
                     | Some monitor_queue \<Rightarrow>
                         if monitor_queue \<notin> set (map cd_type (td_containers defn))
                         then Inl (TaskConfigError (MonitorNotUsed monitor_queue))
                         else Inr ()))))"

text \<open>
  The functions below that write to the logger return the lines written with their
  outcome. A list comprehension indexed with \<open>[0]\<close> raises \<open>IndexError\<close> when it is
  empty.
\<close>

definition check_target_exe ::
  "env \<Rightarrow> TaskConfig \<Rightarrow> TaskDefinition \<Rightarrow> log_entry list \<times> (error + unit)" where
  "check_target_exe env config defn =
     (case task_target_exe (cfg_task config) of
        None \<Rightarrow>
          (if target_exe \<in> set (td_features defn)
           then ([], Inl (TaskConfigError MissingTargetExe))
           else if target_exe_optional \<in> set (td_features defn) then ([], Inr ())
           else ([], Inr ()))
      | Some exe \<Rightarrow>
          (if \<not> is_valid_blob_name exe
           then ([], Inl (TaskConfigError TargetExeNotCanonical))
           else
             (case filter (\<lambda>x. tc_type x = ContainerType ''setup'') (cfg_containers config) of
                [] \<Rightarrow> ([], Inl IndexError)
              | container # _ \<Rightarrow>
                  (if \<not> blob_exists env (tc_name container) exe Storage_corpus
                   then ([LogWarningTargetExe exe (tc_name container)], Inr ())
                   else ([], Inr ())))))"

definition target_uses_input :: "TaskConfig \<Rightarrow> bool" where
  "target_uses_input config =
     ((case task_target_options (cfg_task config) of
         None \<Rightarrow> False
       | Some options \<Rightarrow> list_ex (\<lambda>option. py_contains ''{input}'' option) options)
      \<or> (case task_target_env (cfg_task config) of
            None \<Rightarrow> False
          | Some tenv \<Rightarrow> list_ex (\<lambda>v. py_contains ''{input}'' v) (map snd tenv)))"

text \<open>
  \<open>not x\<close> for an optional string: it is \<open>None\<close> or empty.
\<close>

definition py_not_str :: "string option \<Rightarrow> bool" where
  "py_not_str x = (case x of None \<Rightarrow> True | Some s \<Rightarrow> s = [])"

text \<open>
  The block of \<open>check_config\<close> under \<open>TaskFeature.generator_exe\<close> (with its loop
  over \<open>tools_paths\<close>) and the block under \<open>TaskFeature.stats_file\<close>.
\<close>

definition tools_paths :: "string list" where
  "tools_paths = [''{tools_dir}/'', ''{tools_dir}'' @ [CHR 0x5C]]"

fun check_config_tools_paths ::
  "env \<Rightarrow> string \<Rightarrow> string \<Rightarrow> string list \<Rightarrow> log_entry list \<times> (error + unit)" where
  "check_config_tools_paths env container_name gen_exe [] = ([], Inr ())"
| "check_config_tools_paths env container_name gen_exe (tool_path # rest) =
     (if startswith gen_exe tool_path
      then
        (let generator = py_replace tool_path [] gen_exe in
         if \<not> blob_exists env container_name generator Storage_corpus
         then ([LogError (GeneratorExeMissing gen_exe container_name)],
               Inl (TaskConfigError (GeneratorExeMissing gen_exe container_name)))
         else check_config_tools_paths env container_name gen_exe rest)
      else check_config_tools_paths env container_name gen_exe rest)"

definition check_config_generator_exe ::
  "env \<Rightarrow> TaskConfig \<Rightarrow> TaskDefinition \<Rightarrow> log_entry list \<times> (error + unit)" where
  "check_config_generator_exe env config defn =
     (if generator_exe \<in> set (td_features defn)
      then
        (case filter (\<lambda>x. tc_type x = ContainerType ''tools'') (cfg_containers config) of
           [] \<Rightarrow> ([], Inl IndexError)
         | container # _ \<Rightarrow>
             (if py_not_str (task_generator_exe (cfg_task config))
              then ([], Inl (TaskConfigError GeneratorExeNotDefined))
              else check_config_tools_paths env (tc_name container)
                     (the (task_generator_exe (cfg_task config))) tools_paths))
      else ([], Inr ()))"

definition check_config_stats_file ::
  "TaskConfig \<Rightarrow> TaskDefinition \<Rightarrow> log_entry list \<times> (error + unit)" where
  "check_config_stats_file config defn =
     (if stats_file \<in> set (td_features defn)
         \<and> task_stats_file (cfg_task config) \<noteq> None
         \<and> task_stats_format (cfg_task config) = None
      then ([LogError StatsFormatRequired], Inl (TaskConfigError StatsFormatRequired))
      else ([], Inr ()))"

definition check_config :: "env \<Rightarrow> TaskConfig \<Rightarrow> log_entry list \<times> (error + unit)" where
  "check_config env config =
     (case TASK_DEFINITIONS env (task_type (cfg_task config)) of
        None \<Rightarrow>
          ([], Inl (TaskConfigError (UnsupportedTaskType (task_type (cfg_task config)))))
      | Some defn \<Rightarrow>
          if cfg_vm config \<noteq> None \<and> cfg_pool config \<noteq> None
          then ([], Inl (TaskConfigError VmAndPool))
          else
            (case check_containers env defn config of
               Inl e \<Rightarrow> ([], Inl e)
             | Inr _ \<Rightarrow>
                 if supervisor_exe \<in> set (td_features defn)
                    \<and> py_not_str (task_supervisor_exe (cfg_task config))
                 then ([LogError MissingSupervisorExe],
                       Inl (TaskConfigError MissingSupervisorExe))
                 else if target_must_use_input \<in> set (td_features defn)
                    \<and> \<not> target_uses_input config
                 then ([], Inl (TaskConfigError InputMustBeUsed))
                 else if cfg_vm config \<noteq> None
                 then ([], Inl (TaskConfigError VmNoLongerSupported))
                 else
                   (case cfg_pool config of
                      None \<Rightarrow> ([], Inl (TaskConfigError PoolMustBeSpecified))
                    | Some pool \<Rightarrow>
                        if \<not> check_val (vd_compare (td_vm defn)) (vd_value (td_vm defn))
                                 (tp_count pool)
                        then
                          ([LogError (InvalidVmCount (vd_compare (td_vm defn))
                                        (vd_value (td_vm defn)) (tp_count pool))],
                           Inl (TaskConfigError
                                  (InvalidVmCount (vd_compare (td_vm defn))
                                     (vd_value (td_vm defn)) (tp_count pool))))
                        else if \<not> Pool_get_by_name env (tp_pool_name pool)
                        then ([], Inl (TaskConfigError (InvalidPool (tp_pool_name pool))))
                        else
                          (case check_target_exe env config defn of
                             (log1, Inl e) \<Rightarrow> (log1, Inl e)
                           | (log1, Inr _) \<Rightarrow>
                               (case check_config_generator_exe env config defn of
                                  (log2, Inl e) \<Rightarrow> (log1 @ log2, Inl e)
                                | (log2, Inr _) \<Rightarrow>
                                    (case check_config_stats_file config defn of
                                       (log3, r) \<Rightarrow> (log1 @ log2 @ log3, r)))))))"

text \<open>The loop of \<open>get_setup_container\<close> over \<open>config.containers\<close>.\<close>

fun get_setup_container_loop :: "TaskContainers list \<Rightarrow> string option" where
  "get_setup_container_loop [] = None"
| "get_setup_container_loop (container # rest) =
     (if tc_type container = ContainerType ''setup'' then Some (tc_name container)
      else get_setup_container_loop rest)"

definition get_setup_container :: "TaskConfig \<Rightarrow> error + string" where
  "get_setup_container config =
     (case get_setup_container_loop (cfg_containers config) of
        Some name \<Rightarrow> Inr name
      | None \<Rightarrow>
          Inl (TaskConfigError (MissingSetupContainer (task_type (cfg_task config)))))"

section \<open>The unit configuration (\<open>build_task_config\<close>)\<close>

text \<open>
  An entry of a container field is the dictionary with the keys \<open>path\<close> and \<open>url\<close>.
  \<open>build_task_config\<close> assigns the attributes of one object, by keyword in the
  constructor call, by attribute statements and by \<open>setattr\<close> with the name of a
  container type. The unit configuration is therefore the map from the name of an
  attribute to its value: every assignment writes to this one map, so that
  \<open>setattr\<close> with the name of an attribute assigned before it (such as \<open>logs\<close>)
  overwrites that attribute, and a later statement overwrites what \<open>setattr\<close> stored
  under its name. An attribute reads \<open>None\<close> until it is assigned, and when it is
  assigned \<open>None\<close>.
\<close>

record container_entry =
  ce_path :: string
  ce_url :: string

datatype attr_value =
    AStr string
  | ABool bool
  | AInt int
  | AStrs "string list"
  | ADict "(string \<times> string) list"
  | ATaskType task_type
  | AEntry container_entry
  | AEntries "container_entry list"

type_synonym TaskUnitConfig = "string \<Rightarrow> attr_value option"

text \<open>\<open>str(i)\<close> for a natural number: its decimal digits.\<close>

function py_str_nat :: "nat \<Rightarrow> string" where
  "py_str_nat n =
     (if n < 10 then [''0123456789'' ! n]
      else py_str_nat (n div 10) @ [''0123456789'' ! (n mod 10)])"
  by pat_completeness auto
termination
  by (relation "measure (\<lambda>n. n)") auto

declare py_str_nat.simps [simp del]

text \<open>
  \<open>x or d\<close> for an optional \<open>x\<close>: \<open>d\<close> when \<open>x\<close> is \<open>None\<close> or falsy, else \<open>x\<close>.
\<close>

definition py_or :: "('a \<Rightarrow> bool) \<Rightarrow> 'a option \<Rightarrow> 'a \<Rightarrow> 'a" where
  "py_or truthy x d = (case x of None \<Rightarrow> d | Some v \<Rightarrow> if truthy v then v else d)"

text \<open>
  The statements before the container loop: the constructor call, the assignment of
  \<open>logs\<close> when the job has a log container, and the assignment of \<open>input_queue\<close>
  when the definition has a monitor queue.
\<close>

definition build_task_config_base ::
  "env \<Rightarrow> Job \<Rightarrow> Task \<Rightarrow> TaskDefinition \<Rightarrow> TaskUnitConfig" where
  "build_task_config_base env job task defn =
     (let config = (\<lambda>name. None)
            (''job_id'' := Some (AStr (job_id job)),
             ''task_id'' := Some (AStr (task_id task)),
             ''task_type'' := Some (ATaskType (task_type (cfg_task (task_config task)))),
             ''instance_telemetry_key'' :=
               map_option AStr (environ env ''APPINSIGHTS_INSTRUMENTATIONKEY''),
             ''microsoft_telemetry_key'' := map_option AStr (environ env ''ONEFUZZ_TELEMETRY''),
             ''heartbeat_queue'' :=
               Some (AStr (get_queue_sas env ''task-heartbeat'' Storage_config
                 \<lparr>q_add = True, q_read = False, q_update = False, q_process = False\<rparr>)),
             ''instance_id'' := Some (AStr (get_instance_id env)));
          config =
            (if \<not> py_not_str (jc_logs (job_config job))
             then config(''logs'' :=
                    Some (AStr (add_container_sas_url env (the (jc_logs (job_config job))))))
             else config);
          config =
            (if td_monitor_queue defn \<noteq> None
             then config(''input_queue'' :=
                    Some (AStr (get_queue_sas env (task_id task) Storage_corpus
                      \<lparr>q_add = True, q_read = True, q_update = True, q_process = True\<rparr>)))
             else config)
      in config)"

text \<open>
  The inner loop of the container projection: the entries of the submitted containers
  of the definition's type, each with its index in \<open>task_config.containers\<close>.
\<close>

definition build_task_config_entries ::
  "env \<Rightarrow> ContainerDefinition \<Rightarrow> TaskContainers list \<Rightarrow> container_entry list" where
  "build_task_config_entries env container_def submitted =
     map (\<lambda>(i, container).
            \<lparr>ce_path = join ''_'' [''task'', ct_name (cd_type container_def), py_str_nat i],
             ce_url = get_container_sas_url env (tc_name container) Storage_corpus
                        (Read \<in> set (cd_permissions container_def))
                        (Write \<in> set (cd_permissions container_def))
                        (Delete \<in> set (cd_permissions container_def))
                        (ListP \<in> set (cd_permissions container_def))\<rparr>)
         (filter (\<lambda>(i, container). tc_type container = cd_type container_def)
            (enumerate 0 submitted))"

text \<open>
  The outer loop, over \<open>definition.containers\<close>, on the configuration built so far:
  \<open>setattr\<close> assigns the attribute named after the container type.
\<close>

fun build_task_config_containers ::
  "env \<Rightarrow> ContainerDefinition list \<Rightarrow> TaskContainers list
     \<Rightarrow> TaskUnitConfig \<Rightarrow> TaskUnitConfig" where
  "build_task_config_containers env [] submitted config = config"
| "build_task_config_containers env (container_def # rest) submitted config =
     (if cd_type container_def = ContainerType ''setup''
      then build_task_config_containers env rest submitted config
      else
        (let containers = build_task_config_entries env container_def submitted in
         if containers = [] then build_task_config_containers env rest submitted config
         else if cd_compare container_def \<in> set [Equal, AtMost] \<and> cd_value container_def = 1
         then build_task_config_containers env rest submitted
                (config(ct_name (cd_type container_def) := Some (AEntry (hd containers))))
         else build_task_config_containers env rest submitted
                (config(ct_name (cd_type container_def) := Some (AEntries containers)))))"

text \<open>
  The statements after the container loop, in the order of the source. \<open>assign_if\<close>
  is one \<open>if\<close> statement with one attribute assignment in its body; the statement
  under \<open>stats_file\<close> has two assignments, and \<open>target_exe\<close> is assigned by two
  statements.
\<close>

definition assign_if ::
  "bool \<Rightarrow> string \<Rightarrow> attr_value option \<Rightarrow> TaskUnitConfig \<Rightarrow> TaskUnitConfig" where
  "assign_if condition name v config = (if condition then config(name := v) else config)"

definition build_task_config_features ::
  "TaskDefinition \<Rightarrow> TaskDetails \<Rightarrow> TaskUnitConfig \<Rightarrow> TaskUnitConfig" where
  "build_task_config_features defn t config =
     (let fs = set (td_features defn);
          config = assign_if (supervisor_exe \<in> fs) ''supervisor_exe''
                     (map_option AStr (task_supervisor_exe t)) config;
          config = assign_if (supervisor_env \<in> fs) ''supervisor_env''
                     (Some (ADict (py_or (\<lambda>v. v \<noteq> []) (task_supervisor_env t) []))) config;
          config = assign_if (supervisor_options \<in> fs) ''supervisor_options''
                     (Some (AStrs (py_or (\<lambda>v. v \<noteq> []) (task_supervisor_options t) []))) config;
          config = assign_if (supervisor_input_marker \<in> fs) ''supervisor_input_marker''
                     (map_option AStr (task_supervisor_input_marker t)) config;
          config = assign_if (target_exe \<in> fs) ''target_exe''
                     (map_option AStr (task_target_exe t)) config;
          config = assign_if (target_exe_optional \<in> fs \<and> \<not> py_not_str (task_target_exe t))
                     ''target_exe'' (map_option AStr (task_target_exe t)) config;
          config = assign_if (target_env \<in> fs) ''target_env''
                     (Some (ADict (py_or (\<lambda>v. v \<noteq> []) (task_target_env t) []))) config;
          config = assign_if (target_options \<in> fs) ''target_options''
                     (Some (AStrs (py_or (\<lambda>v. v \<noteq> []) (task_target_options t) []))) config;
          config = assign_if (target_options_merge \<in> fs) ''target_options_merge''
                     (Some (ABool (py_or (\<lambda>b. b) (task_target_options_merge t) False))) config;
          config = assign_if (target_workers \<in> fs) ''target_workers''
                     (map_option AInt (task_target_workers t)) config;
          config = assign_if (rename_output \<in> fs) ''rename_output''
                     (Some (ABool (py_or (\<lambda>b. b) (task_rename_output t) False))) config;
          config = assign_if (generator_exe \<in> fs) ''generator_exe''
                     (map_option AStr (task_generator_exe t)) config;
          config = assign_if (generator_env \<in> fs) ''generator_env''
                     (Some (ADict (py_or (\<lambda>v. v \<noteq> []) (task_generator_env t) []))) config;
          config = assign_if (generator_options \<in> fs) ''generator_options''
                     (Some (AStrs (py_or (\<lambda>v. v \<noteq> []) (task_generator_options t) []))) config;
          config = assign_if (wait_for_files \<in> fs \<and> task_wait_for_files t \<noteq> None)
                     ''wait_for_files''
                     (map_option (\<lambda>container_type. AStr (ct_name container_type))
                        (task_wait_for_files t)) config;
          config = assign_if (analyzer_exe \<in> fs) ''analyzer_exe''
                     (map_option AStr (task_analyzer_exe t)) config;
          config = assign_if (analyzer_options \<in> fs) ''analyzer_options''
                     (Some (AStrs (py_or (\<lambda>v. v \<noteq> []) (task_analyzer_options t) []))) config;
          config = assign_if (analyzer_env \<in> fs) ''analyzer_env''
                     (Some (ADict (py_or (\<lambda>v. v \<noteq> []) (task_analyzer_env t) []))) config;
          config = assign_if (stats_file \<in> fs) ''stats_file''
                     (map_option AStr (task_stats_file t)) config;
          config = assign_if (stats_file \<in> fs) ''stats_format''
                     (map_option AStr (task_stats_format t)) config;
          config = assign_if (target_timeout \<in> fs) ''target_timeout''
                     (map_option AInt (task_target_timeout t)) config;
          config = assign_if (check_asan_log \<in> fs) ''check_asan_log''
                     (map_option ABool (task_check_asan_log t)) config;
          config = assign_if (check_debugger \<in> fs) ''check_debugger''
                     (map_option ABool (task_check_debugger t)) config;
          config = assign_if (check_retry_count \<in> fs) ''check_retry_count''
                     (Some (AInt (py_or (\<lambda>n. n \<noteq> 0) (task_check_retry_count t) 0))) config;
          config = assign_if (ensemble_sync_delay \<in> fs) ''ensemble_sync_delay''
                     (map_option AInt (task_ensemble_sync_delay t)) config;
          config = assign_if (check_fuzzer_help \<in> fs) ''check_fuzzer_help''
                     (Some (ABool (case task_check_fuzzer_help t of
                                     None \<Rightarrow> True
                                   | Some b \<Rightarrow> b))) config;
          config = assign_if (report_list \<in> fs) ''report_list''
                     (map_option AStrs (task_report_list t)) config;
          config = assign_if (minimized_stack_depth \<in> fs) ''minimized_stack_depth''
                     (map_option AInt (task_minimized_stack_depth t)) config;
          config = assign_if (expect_crash_on_failure \<in> fs) ''expect_crash_on_failure''
                     (Some (ABool (case task_expect_crash_on_failure t of
                                     None \<Rightarrow> True
                                   | Some b \<Rightarrow> b))) config;
          config = assign_if (coverage_filter \<in> fs \<and> task_coverage_filter t \<noteq> None)
                     ''coverage_filter'' (map_option AStr (task_coverage_filter t)) config;
          config = assign_if (target_assembly \<in> fs) ''target_assembly''
                     (map_option AStr (task_target_assembly t)) config;
          config = assign_if (target_class \<in> fs) ''target_class''
                     (map_option AStr (task_target_class t)) config;
          config = assign_if (target_method \<in> fs) ''target_method''
                     (map_option AStr (task_target_method t)) config
      in config)"

text \<open>
  The names of the attributes that the statements before the container loop assign,
  and of those that the statements after it assign.
\<close>

definition base_fields :: "string list" where
  "base_fields =
     [''job_id'', ''task_id'', ''task_type'', ''instance_telemetry_key'',
      ''microsoft_telemetry_key'', ''heartbeat_queue'', ''instance_id'', ''logs'',
      ''input_queue'']"

definition feature_fields :: "string list" where
  "feature_fields =
     [''supervisor_exe'', ''supervisor_env'', ''supervisor_options'',
      ''supervisor_input_marker'', ''target_exe'', ''target_env'', ''target_options'',
      ''target_options_merge'', ''target_workers'', ''rename_output'', ''generator_exe'',
      ''generator_env'', ''generator_options'', ''wait_for_files'', ''analyzer_exe'',
      ''analyzer_options'', ''analyzer_env'', ''stats_file'', ''stats_format'',
      ''target_timeout'', ''check_asan_log'', ''check_debugger'', ''check_retry_count'',
      ''ensemble_sync_delay'', ''check_fuzzer_help'', ''report_list'',
      ''minimized_stack_depth'', ''expect_crash_on_failure'', ''coverage_filter'',
      ''target_assembly'', ''target_class'', ''target_method'']"

text \<open>
  \<open>build_task_config\<close>: the statements in the order of the source, with the warning
  logged when the job has no log container.
\<close>

definition build_task_config ::
  "env \<Rightarrow> Job \<Rightarrow> Task \<Rightarrow> log_entry list \<times> (error + TaskUnitConfig)" where
  "build_task_config env job task =
     (let t = cfg_task (task_config task) in
      case TASK_DEFINITIONS env (task_type t) of
        None \<Rightarrow> ([], Inl (TaskConfigError (UnsupportedTaskType (task_type t))))
      | Some defn \<Rightarrow>
         (let config = build_task_config_base env job task defn;
              config = build_task_config_containers env (td_containers defn)
                         (cfg_containers (task_config task)) config;
              config = build_task_config_features defn t config
          in (if py_not_str (jc_logs (job_config job))
              then [LogWarningMissingLogs (job_id job) (task_id task)] else [],
              Inr config)))"

section \<open>The instance configuration (\<open>deploylib/configuration.py\<close>)\<close>

text \<open>
  The raw configuration is a parsed JSON document (its numbers are the integers
  here; the source treats every number alike, as a value that is not a string, a list
  or a dictionary). A dictionary is the list of its items; \<open>key in d\<close> and
  \<open>d[key]\<close> are \<open>map_of\<close>.
\<close>

datatype json =
    JNull | JBool bool | JNum int | JStr string
  | JList "json list" | JDict "(string \<times> json) list"

definition isinstance_str :: "json \<Rightarrow> bool" where
  "isinstance_str v = (case v of JStr s \<Rightarrow> True | _ \<Rightarrow> False)"

text \<open>
  The messages of the exceptions \<open>Config\<close> raises, in the order of the source:
  \<^item> \<open>NotADictionary\<close>: \<open>Configuration is not a Dictionary. ...\<close>
  \<^item> \<open>EmptyConfiguration\<close>: \<open>Empty Configuration File Provided. ...\<close>
  \<^item> \<open>NoProxyNsgConfig\<close>: \<open>proxy_nsg_config not provided as valid key. ...\<close>
  \<^item> \<open>InnerNotADictionary\<close>: \<open>Inner Configuration is not a Dictionary. ...\<close>
  \<^item> \<open>EmptyInnerConfiguration\<close>: \<open>Empty Inner Configuration File Provided. ...\<close>
  \<^item> \<open>AllowedNotProvided\<close>: \<open>allowed_ips and allowed_service_tags not provided. ...\<close>
  \<^item> \<open>AllowedNotAList\<close>: \<open>allowed_ips and allowed_service_tags are not a list. ...\<close>
  \<^item> \<open>AllowedNotStrings\<close>: \<open>allowed_ips and allowed_service_tags are not a list of strings. ...\<close>
  \<^item> \<open>NoCliClientId\<close>: \<open>CLI client_id not provided as valid key. ...\<close>
  \<^item> \<open>ClientIdNotAString\<close>: \<open>client_id is not a string. ...\<close>
  \<^item> \<open>ClientIdNotAUuid\<close>: \<open>client_id is not a valid UUID. ...\<close>
  \<^item> \<open>NoTenantId\<close>: \<open>tenant_id not provided as valid key. ...\<close>
  \<^item> \<open>TenantIdNotAString\<close>: \<open>tenant_id is not a string. ...\<close>
  \<^item> \<open>NoTenantDomain\<close>: \<open>tenant_domain not provided as valid key. ...\<close>
  \<^item> \<open>TenantDomainNotAString\<close>: \<open>tenant_domain is not a string. ...\<close>
  \<^item> \<open>NoMultiTenantDomain\<close>: \<open>multi_tenant_domain not provided as valid key. ...\<close>
  \<^item> \<open>MultiTenantDomainNotAString\<close>: \<open>multi_tenant_domain is not a string. ...\<close>
\<close>

datatype config_msg =
    NotADictionary | EmptyConfiguration | NoProxyNsgConfig | InnerNotADictionary
  | EmptyInnerConfiguration | AllowedNotProvided | AllowedNotAList | AllowedNotStrings
  | NoCliClientId | ClientIdNotAString | ClientIdNotAUuid | NoTenantId
  | TenantIdNotAString | NoTenantDomain | TenantDomainNotAString
  | NoMultiTenantDomain | MultiTenantDomainNotAString

text \<open>
  The standard library's parsers, as parameters: each holds of the strings on which
  the parser returns, and fails on those on which it raises \<open>ValueError\<close>
  (\<open>uuid.UUID(s)\<close>, \<open>ipaddress.ip_address(s)\<close>, \<open>ipaddress.ip_network(s, False)\<close>).
\<close>

record pylib =
  uuid_parses :: "string \<Rightarrow> bool"
  ip_address_parses :: "string \<Rightarrow> bool"
  ip_network_parses :: "string \<Rightarrow> bool"

record Config =
  cli_client_id :: string
  tenant_id :: string
  tenant_domain :: string
  multi_tenant_domain :: string
  allowed_ips :: "json list"
  allowed_service_tags :: "json list"

text \<open>
  \<open>parse_nsg_json\<close> returns the two lists it stores in the object. It leaves the test
  of the length of \<open>allowed_ips\<close> in both halves of its last condition, as the source
  has it.
\<close>

definition parse_nsg_json :: "json \<Rightarrow> config_msg + (json list \<times> json list)" where
  "parse_nsg_json config =
     (case config of
        JDict items \<Rightarrow>
          (if length items = 0 then Inl EmptyConfiguration
           else
             (case map_of items ''proxy_nsg_config'' of
                None \<Rightarrow> Inl NoProxyNsgConfig
              | Some (JDict proxy_config) \<Rightarrow>
                  (if length proxy_config = 0 then Inl EmptyInnerConfiguration
                   else
                     (case (map_of proxy_config ''allowed_ips'',
                            map_of proxy_config ''allowed_service_tags'') of
                        (Some ips, Some tags) \<Rightarrow>
                          (case (ips, tags) of
                             (JList ips_list, JList tags_list) \<Rightarrow>
                               (if (length ips_list \<noteq> 0
                                      \<and> \<not> list_all isinstance_str ips_list)
                                   \<or> (length ips_list \<noteq> 0
                                      \<and> \<not> list_all isinstance_str tags_list)
                                then Inl AllowedNotStrings
                                else Inr (ips_list, tags_list))
                           | _ \<Rightarrow> Inl AllowedNotAList)
                      | _ \<Rightarrow> Inl AllowedNotProvided))
              | Some _ \<Rightarrow> Inl InnerNotADictionary))
      | _ \<Rightarrow> Inl NotADictionary)"

text \<open>
  \<open>parse_endpoint_json\<close> runs after \<open>parse_nsg_json\<close> has accepted the
  configuration, so on a dictionary: it takes the dictionary's items and returns the
  four strings it stores.
\<close>

definition parse_endpoint_json ::
  "pylib \<Rightarrow> (string \<times> json) list \<Rightarrow> config_msg + (string \<times> string \<times> string \<times> string)" where
  "parse_endpoint_json lib items =
     (case map_of items ''cli_client_id'' of
        None \<Rightarrow> Inl NoCliClientId
      | Some (JStr client_id) \<Rightarrow>
          (if client_id = [] then Inl ClientIdNotAString
           else if \<not> uuid_parses lib client_id then Inl ClientIdNotAUuid
           else
             (case map_of items ''tenant_id'' of
                None \<Rightarrow> Inl NoTenantId
              | Some (JStr tenant) \<Rightarrow>
                  (if tenant = [] then Inl TenantIdNotAString
                   else
                     (case map_of items ''tenant_domain'' of
                        None \<Rightarrow> Inl NoTenantDomain
                      | Some (JStr domain) \<Rightarrow>
                          (if domain = [] then Inl TenantDomainNotAString
                           else
                             (case map_of items ''multi_tenant_domain'' of
                                None \<Rightarrow> Inl NoMultiTenantDomain
                              | Some (JStr multi) \<Rightarrow>
                                  Inr (client_id, tenant, domain, multi)
                              | Some _ \<Rightarrow> Inl MultiTenantDomainNotAString))
                      | Some _ \<Rightarrow> Inl TenantDomainNotAString))
              | Some _ \<Rightarrow> Inl TenantIdNotAString))
      | Some _ \<Rightarrow> Inl ClientIdNotAString)"

text \<open>The constructor \<open>Config(config)\<close>.\<close>

definition Config_init :: "pylib \<Rightarrow> json \<Rightarrow> config_msg + Config" where
  "Config_init lib config =
     (case parse_nsg_json config of
        Inl e \<Rightarrow> Inl e
      | Inr (ips, tags) \<Rightarrow>
          (case parse_endpoint_json lib (case config of JDict items \<Rightarrow> items | _ \<Rightarrow> []) of
             Inl e \<Rightarrow> Inl e
           | Inr (client_id, tenant, domain, multi) \<Rightarrow>
               Inr \<lparr>cli_client_id = client_id, tenant_id = tenant, tenant_domain = domain,
                    multi_tenant_domain = multi, allowed_ips = ips,
                    allowed_service_tags = tags\<rparr>))"

section \<open>Network rules (\<open>deploylib/configuration.py\<close>)\<close>

record NsgRule =
  rule :: string
  is_tag :: bool

text \<open>
  The errors of rule parsing: the \<open>ValueError\<close> of \<open>NsgRule\<close> (\<open>Invalid rule. ...\<close>)
  and the two of \<open>parse_rules\<close>, which carry the offending entry
  (\<open>One or more input ips was invalid\<close>, \<open>One or more input tags was invalid\<close>).
\<close>

datatype rule_error = InvalidRule | InvalidIps json | InvalidTags json

text \<open>
  \<open>check_rule\<close> returns the flag \<open>is_tag\<close> it leaves in the object. On a value that
  is not a string it raises: on \<open>None\<close> by its own test, on any other value because
  the value has no \<open>strip\<close>. \<open>NsgRule\<close> turns every exception into its own.
\<close>

definition check_rule :: "pylib \<Rightarrow> json \<Rightarrow> rule_error + bool" where
  "check_rule lib v =
     (case v of
        JStr s \<Rightarrow>
          (if length (py_strip s) = 0 then Inl InvalidRule
           else if s = ''*'' then Inr False
           else if ip_address_parses lib s then Inr False
           else if ip_network_parses lib s then Inr False
           else Inr True)
      | _ \<Rightarrow> Inl InvalidRule)"

definition NsgRule_init :: "pylib \<Rightarrow> json \<Rightarrow> rule_error + NsgRule" where
  "NsgRule_init lib v =
     (case check_rule lib v of
        Inl e \<Rightarrow> Inl InvalidRule
      | Inr tag \<Rightarrow> Inr \<lparr>rule = (case v of JStr s \<Rightarrow> s | _ \<Rightarrow> []), is_tag = tag\<rparr>)"

text \<open>
  The two loops of \<open>parse_rules\<close>, each appending to \<open>nsg_rules\<close>; \<open>wrap\<close> is the
  error the loop raises for the entry that failed.
\<close>

fun parse_rules_loop ::
  "pylib \<Rightarrow> (json \<Rightarrow> rule_error) \<Rightarrow> json list \<Rightarrow> NsgRule list \<Rightarrow> rule_error + NsgRule list"
  where
  "parse_rules_loop lib wrap [] nsg_rules = Inr nsg_rules"
| "parse_rules_loop lib wrap (r # rest) nsg_rules =
     (case NsgRule_init lib r of
        Inl e \<Rightarrow> Inl (wrap r)
      | Inr nsg_rule \<Rightarrow> parse_rules_loop lib wrap rest (nsg_rules @ [nsg_rule]))"

definition parse_rules :: "pylib \<Rightarrow> Config \<Rightarrow> rule_error + NsgRule list" where
  "parse_rules lib proxy_config =
     (if JStr ''*'' \<in> set (allowed_ips proxy_config)
      then
        (case NsgRule_init lib (JStr ''*'') of
           Inl e \<Rightarrow> Inl e
         | Inr nsg_rule \<Rightarrow> Inr [nsg_rule])
      else if length (allowed_ips proxy_config) + length (allowed_service_tags proxy_config) = 0
      then Inr []
      else
        (case parse_rules_loop lib InvalidIps (allowed_ips proxy_config) [] of
           Inl e \<Rightarrow> Inl e
         | Inr nsg_rules \<Rightarrow>
             parse_rules_loop lib InvalidTags (allowed_service_tags proxy_config) nsg_rules))"

section \<open>Example inputs\<close>

text \<open>
  Inputs on which the theorems below are instantiated: a task body with no optional
  field set, a definition with a VM rule of at least one, a catalogue with the one
  task type \<open>example\<close>, a configuration with a pool of one worker and no legacy VM
  spec, and collaborators with fixed answers (every container but \<open>absent\<close>
  exists, the blobs \<open>fuzz.exe\<close> and \<open>gen.exe\<close> exist in every container, the one
  pool is \<open>pool\<close>, and an access URL spells out the container and the permissions
  it was asked for).
\<close>

definition task_details :: "task_type \<Rightarrow> TaskDetails" where
  "task_details ty =
     \<lparr>task_type = ty, task_target_exe = None, task_target_env = None,
      task_target_options = None, task_target_workers = None,
      task_target_options_merge = None, task_check_asan_log = None,
      task_check_debugger = None, task_check_retry_count = None,
      task_check_fuzzer_help = None, task_expect_crash_on_failure = None,
      task_rename_output = None, task_supervisor_exe = None, task_supervisor_env = None,
      task_supervisor_options = None, task_supervisor_input_marker = None,
      task_generator_exe = None, task_generator_env = None, task_generator_options = None,
      task_analyzer_exe = None, task_analyzer_env = None, task_analyzer_options = None,
      task_wait_for_files = None, task_stats_file = None, task_stats_format = None,
      task_target_timeout = None, task_ensemble_sync_delay = None, task_report_list = None,
      task_minimized_stack_depth = None, task_coverage_filter = None,
      task_target_assembly = None, task_target_class = None, task_target_method = None\<rparr>"

definition ex_definition :: "TaskFeature list \<Rightarrow> ContainerDefinition list \<Rightarrow> TaskDefinition" where
  "ex_definition fs cds =
     \<lparr>td_features = fs, td_vm = \<lparr>vd_compare = AtLeast, vd_value = 1\<rparr>,
      td_containers = cds, td_monitor_queue = None\<rparr>"

definition ex_env :: "TaskDefinition \<Rightarrow> env" where
  "ex_env defn =
     \<lparr>TASK_DEFINITIONS = (\<lambda>ty. if ty = TaskType ''example'' then Some defn else None),
      container_exists = (\<lambda>name st. name \<noteq> ''absent''),
      blob_exists = (\<lambda>container blob st. blob = ''fuzz.exe'' \<or> blob = ''gen.exe''),
      Pool_get_by_name = (\<lambda>name. name = ''pool''),
      get_queue_sas = (\<lambda>queue st perms. ''queue:'' @ queue),
      get_container_sas_url =
        (\<lambda>name st r w d l.
           ''url:'' @ name @ '':'' @ (if r then ''r'' else []) @ (if w then ''w'' else [])
             @ (if d then ''d'' else []) @ (if l then ''l'' else [])),
      add_container_sas_url = (\<lambda>name. ''url:'' @ name),
      get_instance_id = ''instance'',
      environ = (\<lambda>key. None)\<rparr>"

definition ex_config :: "TaskContainers list \<Rightarrow> TaskDetails \<Rightarrow> TaskConfig" where
  "ex_config cs t =
     \<lparr>cfg_task = t, cfg_vm = None,
      cfg_pool = Some \<lparr>tp_count = 1, tp_pool_name = ''pool''\<rparr>,
      cfg_containers = cs\<rparr>"

text \<open>
  A stand-in for the standard library's parsers that knows the strings of the
  examples: one UUID, one address and one network.
\<close>

definition ex_pylib :: pylib where
  "ex_pylib =
     \<lparr>uuid_parses = (\<lambda>s. s = ''72f988bf-86f1-41af-91ab-2d7cd011db47''),
      ip_address_parses = (\<lambda>s. s = ''10.0.0.1''),
      ip_network_parses = (\<lambda>s. s = ''10.0.0.1'' \<or> s = ''10.0.0.0/24'')\<rparr>"

section \<open>Blob names: what \<open>is_valid_blob_name\<close> accepts\<close>

lemma split_on_not_Nil: "split_on sep s \<noteq> []"
  by (induction s) auto

lemma split_on_no_sep: "x \<in> set (split_on sep s) \<Longrightarrow> sep \<notin> set x"
proof (induction s arbitrary: x)
  case Nil
  then show ?case by simp
next
  case (Cons c cs)
  show ?case
  proof (cases "c = sep")
    case True
    with Cons show ?thesis by auto
  next
    case False
    obtain y ys where "split_on sep cs = y # ys"
      using split_on_not_Nil[of sep cs] by (cases "split_on sep cs") auto
    with Cons False show ?thesis by auto
  qed
qed

lemma split_on_sepfree: "sep \<notin> set x \<Longrightarrow> split_on sep x = [x]"
  by (induction x) auto

lemma split_on_append_sep:
  "sep \<notin> set x \<Longrightarrow> split_on sep (x @ sep # rest) = x # split_on sep rest"
  by (induction x) auto

lemma split_on_join:
  "xs \<noteq> [] \<Longrightarrow> (\<And>x. x \<in> set xs \<Longrightarrow> sep \<notin> set x) \<Longrightarrow>
   split_on sep (join [sep] xs) = xs"
proof (induction "[sep]" xs rule: join.induct)
  case 1
  then show ?case by simp
next
  case (2 x)
  then show ?case by (simp add: split_on_sepfree)
next
  case (3 x y ys)
  then show ?case by (simp add: split_on_append_sep)
qed

lemma splitroot_relative: "\<not> startswith s ''/'' \<Longrightarrow> splitroot s = ('''', s)"
  by (cases s) (auto simp: splitroot_def startswith_def)

lemma splitroot_absolute: "startswith s ''/'' \<Longrightarrow> fst (splitroot s) \<noteq> []"
  by (cases s) (auto simp: splitroot_def startswith_def Let_def)

lemma join_names_split:
  assumes "ns = filter (\<lambda>x. x \<noteq> [] \<and> x \<noteq> ''.'') (split_on (CHR ''/'') s)"
    and "join ''/'' ns \<noteq> []"
  shows "split_on (CHR ''/'') (join ''/'' ns) = ns"
proof -
  have "ns \<noteq> []" using assms(2) by auto
  moreover have "\<And>x. x \<in> set ns \<Longrightarrow> CHR ''/'' \<notin> set x"
    using assms(1) split_on_no_sep by auto
  ultimately show ?thesis using split_on_join[of ns "CHR ''/''"] by simp
qed

text \<open>
  The validator agrees with the rules of the specification on every name but one:
  it accepts the name \<open>''.''\<close>, which the rules reject. (A path made of the single
  name \<open>''.''\<close> has no parts, so no test on the parts sees it, and its string is
  \<open>''.''\<close> again.)
\<close>

lemma is_valid_blob_name_iff:
  "is_valid_blob_name s \<longleftrightarrow> blob_name_rules s \<or> s = ''.''"
proof (cases "s = ''.''")
  case True
  then show ?thesis
    by (simp add: is_valid_blob_name_def py_strip_def py_isspace_def MIN_LENGTH_def
        MAX_LENGTH_def MAX_PATH_SEGMENTS_def PurePosixPath_def splitroot_def parts_def
        is_absolute_def as_posix_def)
next
  case nd: False
  show ?thesis
  proof (cases "startswith s ''/''")
    case True
    then have "is_absolute (PurePosixPath s)"
      using splitroot_absolute[of s]
      by (auto simp: is_absolute_def PurePosixPath_def split: prod.splits)
    then have "\<not> is_valid_blob_name s"
      by (simp add: is_valid_blob_name_def Let_def)
    moreover have "\<not> blob_name_rules s"
      using True by (simp add: blob_name_rules_def Let_def)
    ultimately show ?thesis using nd by simp
  next
    case rel: False
    define ns where "ns = filter (\<lambda>x. x \<noteq> [] \<and> x \<noteq> ''.'') (split_on (CHR ''/'') s)"
    have pp: "PurePosixPath s = \<lparr>pp_root = [], pp_names = ns\<rparr>"
      using splitroot_relative[OF rel] by (simp add: PurePosixPath_def ns_def)
    have parts: "parts (PurePosixPath s) = ns" by (simp add: pp parts_def)
    have abs: "\<not> is_absolute (PurePosixPath s)" by (simp add: pp is_absolute_def)
    have nodot: "''.'' \<notin> set ns" by (simp add: ns_def)
    show ?thesis
    proof (cases "s = as_posix (PurePosixPath s)")
      case False
      then show ?thesis using nd
        by (simp add: is_valid_blob_name_def blob_name_rules_def Let_def)
    next
      case True
      have "join ''/'' ns \<noteq> []"
        using True nd by (auto simp: pp as_posix_def split: if_splits)
      then have seg: "split_on (CHR ''/'') s = ns"
        using True join_names_split[OF ns_def] by (auto simp: pp as_posix_def)
      have ne: "(length s < Suc 0) = (s = [])" "(Suc 0 \<le> length s) = (s \<noteq> [])"
        by (cases s; simp)+
      have code: "is_valid_blob_name s \<longleftrightarrow>
          s = py_strip s \<and> s \<noteq> [] \<and> length s \<le> 1024 \<and> length ns \<le> 254
          \<and> \<not> list_ex (\<lambda>part. endswith part ''.'') ns \<and> ''..'' \<notin> set ns"
        unfolding is_valid_blob_name_def Let_def parts MIN_LENGTH_def MAX_LENGTH_def
          MAX_PATH_SEGMENTS_def
        using True abs nodot by (auto simp: ne not_less)
      have rules: "blob_name_rules s \<longleftrightarrow>
          s = py_strip s \<and> s \<noteq> [] \<and> length s \<le> 1024 \<and> length ns \<le> 254
          \<and> \<not> list_ex (\<lambda>part. endswith part ''.'') ns \<and> ''..'' \<notin> set ns"
        unfolding blob_name_rules_def Let_def seg
        using True rel nodot by (auto simp: ne)
      show ?thesis using code rules nd by simp
    qed
  qed
qed

text \<open>
  The examples of the specification: the two canonical relative names are accepted;
  a name with a leading or trailing space, a \<open>''..''\<close> segment, a segment ending in a
  dot, a leading slash, a doubled slash or a \<open>''.''\<close> segment before another name is
  rejected, and so is the empty name.
\<close>

lemma is_valid_blob_name_examples:
  "is_valid_blob_name ''foo/bar''" "is_valid_blob_name ''a.b/c''"
  "\<not> is_valid_blob_name ''foo//bar''" "\<not> is_valid_blob_name '' foo''"
  "\<not> is_valid_blob_name ''foo ''" "\<not> is_valid_blob_name ''foo/../bar''"
  "\<not> is_valid_blob_name ''foo./bar''" "\<not> is_valid_blob_name ''/foo''"
  "\<not> is_valid_blob_name ''./foo''" "\<not> is_valid_blob_name ''''"
  by (simp_all add: is_valid_blob_name_def py_strip_def py_isspace_def MIN_LENGTH_def
      MAX_LENGTH_def MAX_PATH_SEGMENTS_def PurePosixPath_def splitroot_def parts_def
      is_absolute_def as_posix_def endswith_def)

text \<open>
  Claim C1. The specification has \<open>is_valid_blob_name\<close> true exactly when all its
  rules hold, among them that no segment ends with a dot and that no segment is
  \<open>''.''\<close>. On the name \<open>''.''\<close> the validator returns true although the rules fail
  (the one segment of \<open>''.''\<close> is \<open>''.''\<close>).
\<close>

theorem is_valid_blob_name_accepts_dot:
  "is_valid_blob_name ''.'' \<and> \<not> blob_name_rules ''.''"
  by (simp add: is_valid_blob_name_def blob_name_rules_def py_strip_def py_isspace_def
      MIN_LENGTH_def MAX_LENGTH_def MAX_PATH_SEGMENTS_def PurePosixPath_def splitroot_def
      parts_def is_absolute_def as_posix_def endswith_def startswith_def)

section \<open>The setup container of a configuration\<close>

lemma get_setup_container_loop_filter:
  "get_setup_container_loop cs =
     (case filter (\<lambda>c. tc_type c = ContainerType ''setup'') cs of
        [] \<Rightarrow> None
      | c # _ \<Rightarrow> Some (tc_name c))"
  by (induction cs) auto

lemma get_setup_container_loop_prefix:
  "\<forall>x \<in> set pre. tc_type x \<noteq> ContainerType ''setup'' \<Longrightarrow>
   get_setup_container_loop (pre @ rest) = get_setup_container_loop rest"
  by (induction pre) auto

text \<open>
  Claim C10. \<open>get_setup_container\<close> returns the name of the first submitted container
  of type setup: the head of the submitted containers filtered by that type, which is
  the container that no setup container precedes. It raises \<open>TaskConfigError\<close> when
  the configuration holds no container of type setup, and only then. (The function is
  a value of its argument alone: the model has no state for it to change.)
\<close>

theorem get_setup_container_first:
  "get_setup_container config =
     (case filter (\<lambda>c. tc_type c = ContainerType ''setup'') (cfg_containers config) of
        [] \<Rightarrow> Inl (TaskConfigError (MissingSetupContainer (task_type (cfg_task config))))
      | c # _ \<Rightarrow> Inr (tc_name c))
   \<and> (cfg_containers config = pre @ c # post \<and> tc_type c = ContainerType ''setup''
        \<and> list_all (\<lambda>x. tc_type x \<noteq> ContainerType ''setup'') pre
      \<longrightarrow> get_setup_container config = Inr (tc_name c))
   \<and> ((\<exists>e. get_setup_container config = Inl e)
        = list_all (\<lambda>c. tc_type c \<noteq> ContainerType ''setup'') (cfg_containers config))
   \<and> (get_setup_container config = Inl e
      \<longrightarrow> e = TaskConfigError (MissingSetupContainer (task_type (cfg_task config))))"
proof -
  have a: "get_setup_container config =
     (case filter (\<lambda>c. tc_type c = ContainerType ''setup'') (cfg_containers config) of
        [] \<Rightarrow> Inl (TaskConfigError (MissingSetupContainer (task_type (cfg_task config))))
      | c # _ \<Rightarrow> Inr (tc_name c))"
    by (simp add: get_setup_container_def get_setup_container_loop_filter split: list.splits)
  have b: "get_setup_container config = Inr (tc_name c)"
    if "cfg_containers config = pre @ c # post" "tc_type c = ContainerType ''setup''"
      "list_all (\<lambda>x. tc_type x \<noteq> ContainerType ''setup'') pre"
    using that
    by (simp add: get_setup_container_def get_setup_container_loop_prefix list_all_iff)
  have c: "(\<exists>e. get_setup_container config = Inl e)
        = list_all (\<lambda>c. tc_type c \<noteq> ContainerType ''setup'') (cfg_containers config)"
  proof -
    have "(filter (\<lambda>c. tc_type c = ContainerType ''setup'') (cfg_containers config) = [])
        = list_all (\<lambda>c. tc_type c \<noteq> ContainerType ''setup'') (cfg_containers config)"
      by (simp add: filter_empty_conv list_all_iff)
    then show ?thesis
      unfolding a
      by (cases "filter (\<lambda>c. tc_type c = ContainerType ''setup'') (cfg_containers config)")
        simp_all
  qed
  have d: "e = TaskConfigError (MissingSetupContainer (task_type (cfg_task config)))"
    if "get_setup_container config = Inl e"
    using that unfolding a by (auto split: list.splits)
  show ?thesis
  proof (intro conjI impI)
    show "get_setup_container config =
     (case filter (\<lambda>c. tc_type c = ContainerType ''setup'') (cfg_containers config) of
        [] \<Rightarrow> Inl (TaskConfigError (MissingSetupContainer (task_type (cfg_task config))))
      | c # _ \<Rightarrow> Inr (tc_name c))"
      by (rule a)
  next
    assume "cfg_containers config = pre @ c # post \<and> tc_type c = ContainerType ''setup''
        \<and> list_all (\<lambda>x. tc_type x \<noteq> ContainerType ''setup'') pre"
    then show "get_setup_container config = Inr (tc_name c)" using b by blast
  next
    show "(\<exists>e. get_setup_container config = Inl e)
        = list_all (\<lambda>c. tc_type c \<noteq> ContainerType ''setup'') (cfg_containers config)"
      by (rule c)
  next
    assume "get_setup_container config = Inl e"
    then show "e = TaskConfigError (MissingSetupContainer (task_type (cfg_task config)))"
      by (rule d)
  qed
qed

theorem get_setup_container_first_witness:
  "get_setup_container
     (ex_config [\<lparr>tc_type = ContainerType ''inputs'', tc_name = ''i''\<rparr>,
                 \<lparr>tc_type = ContainerType ''setup'', tc_name = ''s1''\<rparr>,
                 \<lparr>tc_type = ContainerType ''setup'', tc_name = ''s2''\<rparr>]
        (task_details (TaskType ''example''))) = Inr ''s1''
   \<and> get_setup_container
     (ex_config [\<lparr>tc_type = ContainerType ''inputs'', tc_name = ''i''\<rparr>]
        (task_details (TaskType ''example'')))
     = Inl (TaskConfigError (MissingSetupContainer (TaskType ''example'')))"
proof
  show "get_setup_container
     (ex_config [\<lparr>tc_type = ContainerType ''inputs'', tc_name = ''i''\<rparr>,
                 \<lparr>tc_type = ContainerType ''setup'', tc_name = ''s1''\<rparr>,
                 \<lparr>tc_type = ContainerType ''setup'', tc_name = ''s2''\<rparr>]
        (task_details (TaskType ''example''))) = Inr ''s1''"
    using get_setup_container_first
      [of "ex_config [\<lparr>tc_type = ContainerType ''inputs'', tc_name = ''i''\<rparr>,
                      \<lparr>tc_type = ContainerType ''setup'', tc_name = ''s1''\<rparr>,
                      \<lparr>tc_type = ContainerType ''setup'', tc_name = ''s2''\<rparr>]
             (task_details (TaskType ''example''))"
          "[\<lparr>tc_type = ContainerType ''inputs'', tc_name = ''i''\<rparr>]"
          "\<lparr>tc_type = ContainerType ''setup'', tc_name = ''s1''\<rparr>"
          "[\<lparr>tc_type = ContainerType ''setup'', tc_name = ''s2''\<rparr>]",
        THEN conjunct2, THEN conjunct1]
    by (simp add: ex_config_def)
  show "get_setup_container
     (ex_config [\<lparr>tc_type = ContainerType ''inputs'', tc_name = ''i''\<rparr>]
        (task_details (TaskType ''example'')))
     = Inl (TaskConfigError (MissingSetupContainer (TaskType ''example'')))"
    using get_setup_container_first
      [of "ex_config [\<lparr>tc_type = ContainerType ''inputs'', tc_name = ''i''\<rparr>]
             (task_details (TaskType ''example''))",
        THEN conjunct1]
    by (simp add: ex_config_def task_details_def)
qed

section \<open>Container checks\<close>

lemma dict_get_append:
  "dict_get (dict_append d k v) k' = (if k' = k then dict_get d k @ [v] else dict_get d k')"
  by (induction d k v rule: dict_append.induct) (auto simp: dict_get_def)

lemma keys_dict_append: "fst ` set (dict_append d k v) = insert k (fst ` set d)"
  by (induction d k v rule: dict_append.induct) auto

text \<open>
  When the first loop of \<open>check_containers\<close> ends, the dictionary holds, under each
  type, the names submitted under it in order, and its keys are the submitted types.
\<close>

lemma gather_Inr:
  "check_containers_gather env cs checked d = Inr d' \<Longrightarrow>
     (\<forall>k. dict_get d' k = dict_get d k @ map tc_name (filter (\<lambda>c. tc_type c = k) cs))
     \<and> fst ` set d' = fst ` set d \<union> tc_type ` set cs"
proof (induction cs arbitrary: checked d)
  case Nil
  then show ?case by simp
next
  case (Cons c cs)
  from Cons.prems obtain checked' where
    "check_containers_gather env cs checked' (dict_append d (tc_type c) (tc_name c)) = Inr d'"
    by (auto split: if_splits)
  from Cons.IH[OF this] show ?case
    by (auto simp: dict_get_append keys_dict_append)
qed

lemma gather_ok_iff:
  "\<forall>n \<in> checked. container_exists env n Storage_corpus \<Longrightarrow>
   (\<exists>d'. check_containers_gather env cs checked d = Inr d')
     = list_all (\<lambda>c. container_exists env (tc_name c) Storage_corpus) cs"
proof (induction cs arbitrary: checked d)
  case Nil
  then show ?case by simp
next
  case (Cons c cs)
  show ?case
  proof (cases "container_exists env (tc_name c) Storage_corpus")
    case True
    have a: "\<forall>n \<in> insert (tc_name c) checked. container_exists env n Storage_corpus"
      using True Cons.prems by simp
    show ?thesis
      using True Cons.IH[OF a, of "dict_append d (tc_type c) (tc_name c)"]
        Cons.IH[OF Cons.prems, of "dict_append d (tc_type c) (tc_name c)"]
      by simp
  next
    case False
    then have "tc_name c \<notin> checked" using Cons.prems by auto
    with False show ?thesis by simp
  qed
qed

lemma gather_Inl:
  "check_containers_gather env cs checked d = Inl e \<Longrightarrow>
     \<exists>c \<in> set cs. e = TaskConfigError (MissingContainer (tc_name c))
        \<and> \<not> container_exists env (tc_name c) Storage_corpus"
  by (induction cs arbitrary: checked d) (auto split: if_splits)

lemma defs_find:
  "check_containers_defs defs d =
     (case find (\<lambda>cd. \<not> check_val (cd_compare cd) (cd_value cd)
                         (int (length (dict_get d (cd_type cd))))) defs of
        None \<Rightarrow> Inr ()
      | Some cd \<Rightarrow>
          Inl (TaskConfigError (ContainerCount (cd_type cd) (cd_compare cd) (cd_value cd)
                 (length (dict_get d (cd_type cd))))))"
  by (induction defs) (auto simp: check_container_def Let_def)

lemma defs_ok_iff:
  "(check_containers_defs defs d = Inr ())
     = list_all (\<lambda>cd. check_val (cd_compare cd) (cd_value cd)
                         (int (length (dict_get d (cd_type cd))))) defs"
  by (induction defs) (auto simp: check_container_def Let_def split: sum.splits)

lemma defs_Inl:
  "check_containers_defs defs d = Inl e \<Longrightarrow> \<exists>m. e = TaskConfigError m"
  unfolding defs_find by (auto split: option.splits)

lemma types_find:
  "check_containers_types defn ks =
     (case find (\<lambda>k. k \<notin> set (map cd_type (td_containers defn))) ks of
        None \<Rightarrow> Inr ()
      | Some k \<Rightarrow> Inl (TaskConfigError (UnsupportedContainerType k)))"
  by (induction ks) auto

lemma types_ok_iff:
  "(check_containers_types defn ks = Inr ())
     = list_all (\<lambda>k. k \<in> set (map cd_type (td_containers defn))) ks"
  by (induction ks) auto

lemma types_Inl:
  "check_containers_types defn ks = Inl e \<Longrightarrow> \<exists>m. e = TaskConfigError m"
  unfolding types_find by (auto split: option.splits)

lemma check_containers_Inl:
  "check_containers env defn config = Inl e \<Longrightarrow> \<exists>m. e = TaskConfigError m"
  unfolding check_containers_def
  by (auto split: sum.splits option.splits if_splits
      dest!: gather_Inl defs_Inl types_Inl)

lemma check_containers_missing:
  assumes "\<not> list_all (\<lambda>c. container_exists env (tc_name c) Storage_corpus)
               (cfg_containers config)"
  shows "\<exists>c \<in> set (cfg_containers config).
      check_containers env defn config = Inl (TaskConfigError (MissingContainer (tc_name c)))
      \<and> \<not> container_exists env (tc_name c) Storage_corpus"
proof -
  obtain e where e: "check_containers_gather env (cfg_containers config) {} [] = Inl e"
    using assms gather_ok_iff[of "{}" env "cfg_containers config" "[]"]
    by (cases "check_containers_gather env (cfg_containers config) {} []") auto
  from gather_Inl[OF e] e show ?thesis by (auto simp: check_containers_def)
qed

lemma check_containers_gathered:
  assumes "list_all (\<lambda>c. container_exists env (tc_name c) Storage_corpus)
             (cfg_containers config)"
  shows "\<exists>d. check_containers_gather env (cfg_containers config) {} [] = Inr d
     \<and> (\<forall>k. dict_get d k
           = map tc_name (filter (\<lambda>c. tc_type c = k) (cfg_containers config)))
     \<and> fst ` set d = tc_type ` set (cfg_containers config)"
proof -
  obtain d where d: "check_containers_gather env (cfg_containers config) {} [] = Inr d"
    using gather_ok_iff[of "{}" env "cfg_containers config" "[]"] assms by auto
  from gather_Inr[OF d] have
    "(\<forall>k. dict_get d k
           = map tc_name (filter (\<lambda>c. tc_type c = k) (cfg_containers config)))
     \<and> fst ` set d = tc_type ` set (cfg_containers config)"
    by (simp add: dict_get_def)
  with d show ?thesis by (intro exI[of _ d]) simp
qed

lemma check_containers_count:
  assumes "list_all (\<lambda>c. container_exists env (tc_name c) Storage_corpus)
             (cfg_containers config)"
    and "find (\<lambda>cd. \<not> check_val (cd_compare cd) (cd_value cd)
            (int (length (filter (\<lambda>c. tc_type c = cd_type cd) (cfg_containers config)))))
          (td_containers defn) = Some cd"
  shows "check_containers env defn config =
        Inl (TaskConfigError (ContainerCount (cd_type cd) (cd_compare cd) (cd_value cd)
              (length (filter (\<lambda>c. tc_type c = cd_type cd) (cfg_containers config)))))"
proof -
  from check_containers_gathered[OF assms(1)] obtain d where
    d: "check_containers_gather env (cfg_containers config) {} [] = Inr d"
    and g: "\<forall>k. dict_get d k
           = map tc_name (filter (\<lambda>c. tc_type c = k) (cfg_containers config))"
    by (elim exE conjE)
  have "check_containers_defs (td_containers defn) d =
        Inl (TaskConfigError (ContainerCount (cd_type cd) (cd_compare cd) (cd_value cd)
              (length (filter (\<lambda>c. tc_type c = cd_type cd) (cfg_containers config)))))"
    unfolding defs_find using assms(2) by (simp add: g)
  then show ?thesis by (simp add: check_containers_def d)
qed

lemma check_containers_ok_iff:
  "check_containers env defn config = Inr () \<longleftrightarrow>
     list_all (\<lambda>c. container_exists env (tc_name c) Storage_corpus) (cfg_containers config)
     \<and> list_all (\<lambda>cd. check_val (cd_compare cd) (cd_value cd)
                        (int (length (filter (\<lambda>c. tc_type c = cd_type cd)
                                        (cfg_containers config)))))
          (td_containers defn)
     \<and> list_all (\<lambda>c. tc_type c \<in> set (map cd_type (td_containers defn)))
          (cfg_containers config)
     \<and> (case td_monitor_queue defn of
           None \<Rightarrow> True
         | Some m \<Rightarrow> m \<in> set (map cd_type (td_containers defn)))"
proof (cases "list_all (\<lambda>c. container_exists env (tc_name c) Storage_corpus)
                (cfg_containers config)")
  case False
  from check_containers_missing[OF False, of defn] False show ?thesis by auto
next
  case ex: True
  from check_containers_gathered[OF ex] obtain d where
    d: "check_containers_gather env (cfg_containers config) {} [] = Inr d"
    and g: "\<forall>k. dict_get d k
           = map tc_name (filter (\<lambda>c. tc_type c = k) (cfg_containers config))"
    and k: "fst ` set d = tc_type ` set (cfg_containers config)"
    by (elim exE conjE)
  have t: "list_all (\<lambda>k. k \<in> set (map cd_type (td_containers defn))) (map fst d)
        = list_all (\<lambda>c. tc_type c \<in> set (map cd_type (td_containers defn)))
            (cfg_containers config)"
    using k unfolding list_all_iff by auto
  have dl: "(check_containers_defs (td_containers defn) d = Inr ())
      = list_all (\<lambda>cd. check_val (cd_compare cd) (cd_value cd)
           (int (length (filter (\<lambda>c. tc_type c = cd_type cd) (cfg_containers config)))))
          (td_containers defn)"
    by (simp add: defs_ok_iff g)
  have tl: "(check_containers_types defn (map fst d) = Inr ())
      = list_all (\<lambda>c. tc_type c \<in> set (map cd_type (td_containers defn)))
          (cfg_containers config)"
    by (simp only: types_ok_iff t)
  show ?thesis
  proof (cases "check_containers_defs (td_containers defn) d")
    case (Inl e)
    then show ?thesis using d dl by (simp add: check_containers_def)
  next
    case defs: (Inr u)
    show ?thesis
    proof (cases "check_containers_types defn (map fst d)")
      case (Inl e)
      then show ?thesis using d defs tl by (simp add: check_containers_def)
    next
      case types: (Inr u')
      show ?thesis
        using d defs types ex dl tl
        by (simp add: check_containers_def split: option.splits)
    qed
  qed
qed

text \<open>
  The outcome of \<open>check_config\<close> without its log lines, for a registered task type:
  the checks in the order of the source, each stopping the function at its error.
\<close>

lemma check_config_stages:
  assumes "TASK_DEFINITIONS env (task_type (cfg_task config)) = Some defn"
  shows "snd (check_config env config) =
     (if cfg_vm config \<noteq> None \<and> cfg_pool config \<noteq> None then Inl (TaskConfigError VmAndPool)
      else
        (case check_containers env defn config of
           Inl e \<Rightarrow> Inl e
         | Inr _ \<Rightarrow>
             if supervisor_exe \<in> set (td_features defn)
                \<and> py_not_str (task_supervisor_exe (cfg_task config))
             then Inl (TaskConfigError MissingSupervisorExe)
             else if target_must_use_input \<in> set (td_features defn)
                \<and> \<not> target_uses_input config
             then Inl (TaskConfigError InputMustBeUsed)
             else if cfg_vm config \<noteq> None then Inl (TaskConfigError VmNoLongerSupported)
             else
               (case cfg_pool config of
                  None \<Rightarrow> Inl (TaskConfigError PoolMustBeSpecified)
                | Some pool \<Rightarrow>
                    if \<not> check_val (vd_compare (td_vm defn)) (vd_value (td_vm defn))
                             (tp_count pool)
                    then Inl (TaskConfigError (InvalidVmCount (vd_compare (td_vm defn))
                                (vd_value (td_vm defn)) (tp_count pool)))
                    else if \<not> Pool_get_by_name env (tp_pool_name pool)
                    then Inl (TaskConfigError (InvalidPool (tp_pool_name pool)))
                    else
                      (case snd (check_target_exe env config defn) of
                         Inl e \<Rightarrow> Inl e
                       | Inr _ \<Rightarrow>
                           (case snd (check_config_generator_exe env config defn) of
                              Inl e \<Rightarrow> Inl e
                            | Inr _ \<Rightarrow> snd (check_config_stats_file config defn))))))"
  unfolding check_config_def assms
  by (simp add: if_distrib[of snd] option.case_distrib[of snd] sum.case_distrib[of snd]
      prod.case_distrib[of snd] case_prod_beta
      cong: if_cong option.case_cong sum.case_cong)

lemma check_config_containers_fail:
  assumes "TASK_DEFINITIONS env (task_type (cfg_task config)) = Some defn"
    and "check_containers env defn config = Inl e"
  shows "\<exists>m. snd (check_config env config) = Inl (TaskConfigError m)"
proof -
  from check_containers_Inl[OF assms(2)] obtain m where "e = TaskConfigError m" by blast
  with assms(2) show ?thesis
    unfolding check_config_stages[OF assms(1)] by simp
qed

lemma check_config_ok_containers:
  assumes "TASK_DEFINITIONS env (task_type (cfg_task config)) = Some defn"
    and "snd (check_config env config) = Inr ()"
  shows "check_containers env defn config = Inr ()"
proof (cases "check_containers env defn config")
  case (Inl e)
  from check_config_containers_fail[OF assms(1) Inl] assms(2) show ?thesis by simp
next
  case (Inr u)
  then show ?thesis by simp
qed

text \<open>
  Claim C3. \<open>check_val\<close> compares as the comparator says. \<open>check_containers\<close>
  succeeds exactly when every submitted container exists, every container definition's
  comparator and count accept the number of submitted containers of its role, every
  submitted role is a role of the definition, and the monitor role, if any, is a role
  of the definition; otherwise it raises \<open>TaskConfigError\<close>. When all submitted
  containers exist, the first container definition whose comparison fails gives the
  error, which carries the role, the comparator, the expected count and the number
  submitted. \<open>check_config\<close> of a registered task type applies these rules: it fails
  with \<open>TaskConfigError\<close> when they fail and succeeds only when they hold.
\<close>

theorem check_containers_cardinality:
  "check_val Equal expected actual = (expected = actual)
   \<and> check_val AtLeast expected actual = (expected \<le> actual)
   \<and> check_val AtMost expected actual = (expected \<ge> actual)
   \<and> (check_containers env defn config = Inr () \<longleftrightarrow>
        list_all (\<lambda>c. container_exists env (tc_name c) Storage_corpus)
          (cfg_containers config)
        \<and> list_all (\<lambda>cd. check_val (cd_compare cd) (cd_value cd)
                        (int (length (filter (\<lambda>c. tc_type c = cd_type cd)
                                        (cfg_containers config)))))
            (td_containers defn)
        \<and> list_all (\<lambda>c. tc_type c \<in> set (map cd_type (td_containers defn)))
            (cfg_containers config)
        \<and> (case td_monitor_queue defn of
              None \<Rightarrow> True
            | Some m \<Rightarrow> m \<in> set (map cd_type (td_containers defn))))
   \<and> (check_containers env defn config = Inl e \<longrightarrow> (\<exists>m. e = TaskConfigError m))
   \<and> (list_all (\<lambda>c. container_exists env (tc_name c) Storage_corpus)
          (cfg_containers config)
        \<and> find (\<lambda>cd. \<not> check_val (cd_compare cd) (cd_value cd)
                    (int (length (filter (\<lambda>c. tc_type c = cd_type cd)
                                    (cfg_containers config)))))
            (td_containers defn) = Some cd
      \<longrightarrow> check_containers env defn config =
            Inl (TaskConfigError (ContainerCount (cd_type cd) (cd_compare cd) (cd_value cd)
                   (length (filter (\<lambda>c. tc_type c = cd_type cd) (cfg_containers config))))))
   \<and> (TASK_DEFINITIONS env (task_type (cfg_task config)) = Some defn
        \<and> check_containers env defn config = Inl e
      \<longrightarrow> (\<exists>m. snd (check_config env config) = Inl (TaskConfigError m)))
   \<and> (TASK_DEFINITIONS env (task_type (cfg_task config)) = Some defn
        \<and> snd (check_config env config) = Inr ()
      \<longrightarrow> check_containers env defn config = Inr ())"
proof -
  have v: "check_val Equal expected actual = (expected = actual)"
    "check_val AtLeast expected actual = (expected \<le> actual)"
    "check_val AtMost expected actual = (expected \<ge> actual)"
    by simp_all
  note ok = check_containers_ok_iff[of env defn config]
  have err: "check_containers env defn config = Inl e \<longrightarrow> (\<exists>m. e = TaskConfigError m)"
    using check_containers_Inl by blast
  have cnt: "list_all (\<lambda>c. container_exists env (tc_name c) Storage_corpus)
          (cfg_containers config)
        \<and> find (\<lambda>cd. \<not> check_val (cd_compare cd) (cd_value cd)
                    (int (length (filter (\<lambda>c. tc_type c = cd_type cd)
                                    (cfg_containers config)))))
            (td_containers defn) = Some cd
      \<longrightarrow> check_containers env defn config =
            Inl (TaskConfigError (ContainerCount (cd_type cd) (cd_compare cd) (cd_value cd)
                   (length (filter (\<lambda>c. tc_type c = cd_type cd) (cfg_containers config)))))"
    using check_containers_count by blast
  have fail: "TASK_DEFINITIONS env (task_type (cfg_task config)) = Some defn
        \<and> check_containers env defn config = Inl e
      \<longrightarrow> (\<exists>m. snd (check_config env config) = Inl (TaskConfigError m))"
    using check_config_containers_fail by blast
  have pass: "TASK_DEFINITIONS env (task_type (cfg_task config)) = Some defn
        \<and> snd (check_config env config) = Inr ()
      \<longrightarrow> check_containers env defn config = Inr ()"
    using check_config_ok_containers by blast
  from v ok err cnt fail pass show ?thesis by (intro conjI)
qed

text \<open>
  The example of the specification: a task type that requires exactly one setup
  container is rejected with zero and with two setup containers, and with one the
  container checks pass.
\<close>

theorem check_containers_cardinality_witness:
  "check_containers
     (ex_env (ex_definition []
        [\<lparr>cd_type = ContainerType ''setup'', cd_compare = Equal, cd_value = 1,
          cd_permissions = [Read, ListP]\<rparr>]))
     (ex_definition []
        [\<lparr>cd_type = ContainerType ''setup'', cd_compare = Equal, cd_value = 1,
          cd_permissions = [Read, ListP]\<rparr>])
     (ex_config [] (task_details (TaskType ''example'')))
     = Inl (TaskConfigError (ContainerCount (ContainerType ''setup'') Equal 1 0))
   \<and> check_containers
     (ex_env (ex_definition []
        [\<lparr>cd_type = ContainerType ''setup'', cd_compare = Equal, cd_value = 1,
          cd_permissions = [Read, ListP]\<rparr>]))
     (ex_definition []
        [\<lparr>cd_type = ContainerType ''setup'', cd_compare = Equal, cd_value = 1,
          cd_permissions = [Read, ListP]\<rparr>])
     (ex_config [\<lparr>tc_type = ContainerType ''setup'', tc_name = ''s1''\<rparr>,
                 \<lparr>tc_type = ContainerType ''setup'', tc_name = ''s2''\<rparr>]
        (task_details (TaskType ''example'')))
     = Inl (TaskConfigError (ContainerCount (ContainerType ''setup'') Equal 1 2))
   \<and> check_containers
     (ex_env (ex_definition []
        [\<lparr>cd_type = ContainerType ''setup'', cd_compare = Equal, cd_value = 1,
          cd_permissions = [Read, ListP]\<rparr>]))
     (ex_definition []
        [\<lparr>cd_type = ContainerType ''setup'', cd_compare = Equal, cd_value = 1,
          cd_permissions = [Read, ListP]\<rparr>])
     (ex_config [\<lparr>tc_type = ContainerType ''setup'', tc_name = ''s1''\<rparr>]
        (task_details (TaskType ''example'')))
     = Inr ()"
proof -
  define cd where "cd = \<lparr>cd_type = ContainerType ''setup'', cd_compare = Equal,
    cd_value = 1, cd_permissions = [Read, ListP]\<rparr>"
  define defn where "defn = ex_definition [] [cd]"
  define t where "t = task_details (TaskType ''example'')"
  have zero: "check_containers (ex_env defn) defn (ex_config [] t)
     = Inl (TaskConfigError (ContainerCount (ContainerType ''setup'') Equal 1 0))"
    using check_containers_cardinality[of _ _ "ex_env defn" defn "ex_config [] t" _ cd]
    by (simp add: defn_def cd_def ex_definition_def ex_config_def)
  have two: "check_containers (ex_env defn) defn
       (ex_config [\<lparr>tc_type = ContainerType ''setup'', tc_name = ''s1''\<rparr>,
                   \<lparr>tc_type = ContainerType ''setup'', tc_name = ''s2''\<rparr>] t)
     = Inl (TaskConfigError (ContainerCount (ContainerType ''setup'') Equal 1 2))"
    using check_containers_cardinality[of _ _ "ex_env defn" defn
        "ex_config [\<lparr>tc_type = ContainerType ''setup'', tc_name = ''s1''\<rparr>,
                    \<lparr>tc_type = ContainerType ''setup'', tc_name = ''s2''\<rparr>] t" _ cd]
    by (simp add: defn_def cd_def ex_definition_def ex_config_def ex_env_def)
  have one: "check_containers (ex_env defn) defn
       (ex_config [\<lparr>tc_type = ContainerType ''setup'', tc_name = ''s1''\<rparr>] t) = Inr ()"
    using check_containers_cardinality[of _ _ "ex_env defn" defn
        "ex_config [\<lparr>tc_type = ContainerType ''setup'', tc_name = ''s1''\<rparr>] t"]
    by (simp add: defn_def cd_def ex_definition_def ex_config_def ex_env_def)
  from zero two one show ?thesis
    unfolding defn_def cd_def t_def by (intro conjI)
qed

section \<open>The order of the checks of \<open>check_config\<close>\<close>

lemma check_config_unregistered:
  "TASK_DEFINITIONS env (task_type (cfg_task config)) = None \<Longrightarrow>
   check_config env config =
     ([], Inl (TaskConfigError (UnsupportedTaskType (task_type (cfg_task config)))))"
  by (simp add: check_config_def)

lemma check_config_vm_and_pool:
  "TASK_DEFINITIONS env (task_type (cfg_task config)) = Some defn \<Longrightarrow>
   cfg_vm config \<noteq> None \<Longrightarrow> cfg_pool config \<noteq> None \<Longrightarrow>
   check_config env config = ([], Inl (TaskConfigError VmAndPool))"
  by (simp add: check_config_def)

lemma check_config_vm_alone:
  assumes "TASK_DEFINITIONS env (task_type (cfg_task config)) = Some defn"
    and "cfg_vm config \<noteq> None" and "cfg_pool config = None"
  shows "snd (check_config env config) =
     (case check_containers env defn config of
        Inl e \<Rightarrow> Inl e
      | Inr _ \<Rightarrow>
          if supervisor_exe \<in> set (td_features defn)
             \<and> py_not_str (task_supervisor_exe (cfg_task config))
          then Inl (TaskConfigError MissingSupervisorExe)
          else if target_must_use_input \<in> set (td_features defn)
             \<and> \<not> target_uses_input config
          then Inl (TaskConfigError InputMustBeUsed)
          else Inl (TaskConfigError VmNoLongerSupported))"
  unfolding check_config_stages[OF assms(1)] using assms(2,3)
  by (simp cong: sum.case_cong)

lemma check_config_vm_rejected:
  assumes "TASK_DEFINITIONS env (task_type (cfg_task config)) = Some defn"
    and "cfg_vm config \<noteq> None"
  shows "\<exists>m. snd (check_config env config) = Inl (TaskConfigError m)"
proof (cases "cfg_pool config")
  case (Some pool)
  then show ?thesis using check_config_vm_and_pool[OF assms] by simp
next
  case None
  show ?thesis
  proof (cases "check_containers env defn config")
    case (Inl e)
    then show ?thesis using check_config_containers_fail[OF assms(1)] by blast
  next
    case (Inr u)
    then show ?thesis unfolding check_config_vm_alone[OF assms None] by simp
  qed
qed

lemma check_config_missing_container:
  assumes "TASK_DEFINITIONS env (task_type (cfg_task config)) = Some defn"
    and "\<not> (cfg_vm config \<noteq> None \<and> cfg_pool config \<noteq> None)"
    and "\<not> list_all (\<lambda>c. container_exists env (tc_name c) Storage_corpus)
             (cfg_containers config)"
  shows "\<exists>c \<in> set (cfg_containers config).
     snd (check_config env config) = Inl (TaskConfigError (MissingContainer (tc_name c)))"
proof -
  from check_containers_missing[OF assms(3), of defn] obtain c where
    c: "c \<in> set (cfg_containers config)"
    "check_containers env defn config = Inl (TaskConfigError (MissingContainer (tc_name c)))"
    by blast
  have "snd (check_config env config) = Inl (TaskConfigError (MissingContainer (tc_name c)))"
    unfolding check_config_stages[OF assms(1)] using assms(2) c(2) by simp
  with c(1) show ?thesis by blast
qed

lemma check_config_pool_checks:
  assumes "TASK_DEFINITIONS env (task_type (cfg_task config)) = Some defn"
    and "cfg_vm config = None"
    and "check_containers env defn config = Inr ()"
    and "\<not> (supervisor_exe \<in> set (td_features defn)
             \<and> py_not_str (task_supervisor_exe (cfg_task config)))"
    and "\<not> (target_must_use_input \<in> set (td_features defn) \<and> \<not> target_uses_input config)"
  shows "cfg_pool config = None
      \<longrightarrow> snd (check_config env config) = Inl (TaskConfigError PoolMustBeSpecified)"
    and "cfg_pool config = Some pool
        \<and> \<not> check_val (vd_compare (td_vm defn)) (vd_value (td_vm defn)) (tp_count pool)
      \<longrightarrow> snd (check_config env config) =
            Inl (TaskConfigError (InvalidVmCount (vd_compare (td_vm defn))
                   (vd_value (td_vm defn)) (tp_count pool)))"
    and "cfg_pool config = Some pool
        \<and> check_val (vd_compare (td_vm defn)) (vd_value (td_vm defn)) (tp_count pool)
        \<and> \<not> Pool_get_by_name env (tp_pool_name pool)
      \<longrightarrow> snd (check_config env config) =
            Inl (TaskConfigError (InvalidPool (tp_pool_name pool)))"
proof -
  have s: "(supervisor_exe \<in> set (td_features defn)
             \<and> py_not_str (task_supervisor_exe (cfg_task config))) = False"
    using assms(4) by simp
  have i: "(target_must_use_input \<in> set (td_features defn)
             \<and> \<not> target_uses_input config) = False"
    using assms(5) by simp
  have r: "snd (check_config env config) =
     (case cfg_pool config of
        None \<Rightarrow> Inl (TaskConfigError PoolMustBeSpecified)
      | Some pool \<Rightarrow>
          if \<not> check_val (vd_compare (td_vm defn)) (vd_value (td_vm defn)) (tp_count pool)
          then Inl (TaskConfigError (InvalidVmCount (vd_compare (td_vm defn))
                      (vd_value (td_vm defn)) (tp_count pool)))
          else if \<not> Pool_get_by_name env (tp_pool_name pool)
          then Inl (TaskConfigError (InvalidPool (tp_pool_name pool)))
          else
            (case snd (check_target_exe env config defn) of
               Inl e \<Rightarrow> Inl e
             | Inr _ \<Rightarrow>
                 (case snd (check_config_generator_exe env config defn) of
                    Inl e \<Rightarrow> Inl e
                  | Inr _ \<Rightarrow> snd (check_config_stats_file config defn))))"
    unfolding check_config_stages[OF assms(1)]
    by (simp only: s i assms(2) assms(3) if_False sum.case simp_thms)
  show "cfg_pool config = None
      \<longrightarrow> snd (check_config env config) = Inl (TaskConfigError PoolMustBeSpecified)"
    unfolding r by simp
  show "cfg_pool config = Some pool
        \<and> \<not> check_val (vd_compare (td_vm defn)) (vd_value (td_vm defn)) (tp_count pool)
      \<longrightarrow> snd (check_config env config) =
            Inl (TaskConfigError (InvalidVmCount (vd_compare (td_vm defn))
                   (vd_value (td_vm defn)) (tp_count pool)))"
    unfolding r by simp
  show "cfg_pool config = Some pool
        \<and> check_val (vd_compare (td_vm defn)) (vd_value (td_vm defn)) (tp_count pool)
        \<and> \<not> Pool_get_by_name env (tp_pool_name pool)
      \<longrightarrow> snd (check_config env config) =
            Inl (TaskConfigError (InvalidPool (tp_pool_name pool)))"
    unfolding r by simp
qed

text \<open>
  The errors of \<open>check_containers\<close> in the order of its loops: the first submitted
  container that does not exist; then the first container definition whose comparison
  fails (lemma \<open>check_containers_count\<close>); then the first submitted container of a
  type the definition lacks; then the monitor queue.
\<close>

lemma find_snoc:
  "find P (xs @ [x]) = (case find P xs of None \<Rightarrow> (if P x then Some x else None) | Some y \<Rightarrow> Some y)"
  by (induction xs) auto

lemma gather_first_missing:
  "\<forall>n \<in> checked. container_exists env n Storage_corpus \<Longrightarrow>
   find (\<lambda>c. \<not> container_exists env (tc_name c) Storage_corpus) cs = Some c \<Longrightarrow>
   check_containers_gather env cs checked d
     = Inl (TaskConfigError (MissingContainer (tc_name c)))"
proof (induction cs arbitrary: checked d)
  case Nil
  then show ?case by simp
next
  case (Cons x cs)
  show ?case
  proof (cases "container_exists env (tc_name x) Storage_corpus")
    case True
    have a: "\<forall>n \<in> insert (tc_name x) checked. container_exists env n Storage_corpus"
      using True Cons.prems(1) by simp
    have f: "find (\<lambda>c. \<not> container_exists env (tc_name c) Storage_corpus) cs = Some c"
      using True Cons.prems(2) by simp
    show ?thesis
      using True Cons.IH[OF a f] Cons.IH[OF Cons.prems(1) f] by simp
  next
    case False
    then have "tc_name x \<notin> checked" using Cons.prems(1) by auto
    moreover have "c = x" using False Cons.prems(2) by simp
    ultimately show ?thesis using False by simp
  qed
qed

lemma check_containers_first_missing:
  assumes "find (\<lambda>c. \<not> container_exists env (tc_name c) Storage_corpus)
             (cfg_containers config) = Some c"
  shows "check_containers env defn config
     = Inl (TaskConfigError (MissingContainer (tc_name c)))"
  using gather_first_missing[of "{}" env "cfg_containers config" c "[]"] assms
  by (simp add: check_containers_def)

lemma dict_append_keys:
  "map fst (dict_append d k v)
     = (if k \<in> fst ` set d then map fst d else map fst d @ [k])"
  by (induction d k v rule: dict_append.induct) auto

lemma find_dict_append:
  "find P (map fst (dict_append d k v)) =
     (case find P (map fst d) of
        None \<Rightarrow> (if P k then Some k else None)
      | Some x \<Rightarrow> Some x)"
proof (cases "k \<in> fst ` set d")
  case True
  then have "find P (map fst d) \<noteq> None" if "P k"
    using that by (auto simp: find_None_iff)
  then show ?thesis using True by (auto simp: dict_append_keys split: option.splits)
next
  case False
  then show ?thesis by (simp add: dict_append_keys find_snoc)
qed

lemma gather_keys_find:
  "check_containers_gather env cs checked d = Inr d' \<Longrightarrow>
   find P (map fst d') =
     (case find P (map fst d) of
        None \<Rightarrow> map_option tc_type (find (\<lambda>c. P (tc_type c)) cs)
      | Some k \<Rightarrow> Some k)"
proof (induction cs arbitrary: checked d)
  case Nil
  then show ?case by (simp split: option.splits)
next
  case (Cons c cs)
  from Cons.prems obtain checked' where
    "check_containers_gather env cs checked' (dict_append d (tc_type c) (tc_name c)) = Inr d'"
    by (auto split: if_splits)
  from Cons.IH[OF this] show ?case
    by (simp add: find_dict_append split: option.splits)
qed

lemma check_containers_unsupported:
  assumes "list_all (\<lambda>c. container_exists env (tc_name c) Storage_corpus)
             (cfg_containers config)"
    and "list_all (\<lambda>cd. check_val (cd_compare cd) (cd_value cd)
                        (int (length (filter (\<lambda>c. tc_type c = cd_type cd)
                                        (cfg_containers config)))))
          (td_containers defn)"
    and "find (\<lambda>c. tc_type c \<notin> set (map cd_type (td_containers defn)))
           (cfg_containers config) = Some c"
  shows "check_containers env defn config
     = Inl (TaskConfigError (UnsupportedContainerType (tc_type c)))"
proof -
  from check_containers_gathered[OF assms(1)] obtain d where
    d: "check_containers_gather env (cfg_containers config) {} [] = Inr d"
    and g: "\<forall>k. dict_get d k
           = map tc_name (filter (\<lambda>c. tc_type c = k) (cfg_containers config))"
    by (elim exE conjE)
  have dl: "check_containers_defs (td_containers defn) d = Inr ()"
    using assms(2) by (simp add: defs_ok_iff g)
  have "find (\<lambda>k. k \<notin> set (map cd_type (td_containers defn))) (map fst d)
      = Some (tc_type c)"
    using gather_keys_find[OF d, of "\<lambda>k. k \<notin> set (map cd_type (td_containers defn))"]
      assms(3)
    by simp
  then have "check_containers_types defn (map fst d)
      = Inl (TaskConfigError (UnsupportedContainerType (tc_type c)))"
    unfolding types_find by simp
  then show ?thesis by (simp add: check_containers_def d dl)
qed

lemma check_containers_monitor:
  assumes "list_all (\<lambda>c. container_exists env (tc_name c) Storage_corpus)
             (cfg_containers config)"
    and "list_all (\<lambda>cd. check_val (cd_compare cd) (cd_value cd)
                        (int (length (filter (\<lambda>c. tc_type c = cd_type cd)
                                        (cfg_containers config)))))
          (td_containers defn)"
    and "list_all (\<lambda>c. tc_type c \<in> set (map cd_type (td_containers defn)))
          (cfg_containers config)"
    and "td_monitor_queue defn = Some m"
    and "m \<notin> set (map cd_type (td_containers defn))"
  shows "check_containers env defn config = Inl (TaskConfigError (MonitorNotUsed m))"
proof -
  from check_containers_gathered[OF assms(1)] obtain d where
    d: "check_containers_gather env (cfg_containers config) {} [] = Inr d"
    and g: "\<forall>k. dict_get d k
           = map tc_name (filter (\<lambda>c. tc_type c = k) (cfg_containers config))"
    and k: "fst ` set d = tc_type ` set (cfg_containers config)"
    by (elim exE conjE)
  have dl: "check_containers_defs (td_containers defn) d = Inr ()"
    using assms(2) by (simp add: defs_ok_iff g)
  have "list_all (\<lambda>k. k \<in> set (map cd_type (td_containers defn))) (map fst d)"
    using k assms(3) unfolding list_all_iff by auto
  then have tl: "check_containers_types defn (map fst d) = Inr ()"
    by (simp only: types_ok_iff)
  show ?thesis using assms(4,5) by (simp add: check_containers_def d dl tl)
qed

text \<open>
  \<open>check_config\<close> when a check of \<open>check_containers\<close> fails, and when they all
  pass.
\<close>

lemma check_config_containers_error:
  assumes "TASK_DEFINITIONS env (task_type (cfg_task config)) = Some defn"
    and "\<not> (cfg_vm config \<noteq> None \<and> cfg_pool config \<noteq> None)"
    and "check_containers env defn config = Inl e"
  shows "check_config env config = ([], Inl e)"
proof -
  have b: "(cfg_vm config \<noteq> None \<and> cfg_pool config \<noteq> None) = False"
    using assms(2) by simp
  show ?thesis
    unfolding check_config_def
    by (simp only: assms(1) assms(3) b option.case sum.case if_False)
qed

lemma check_config_containers_pass:
  assumes "TASK_DEFINITIONS env (task_type (cfg_task config)) = Some defn"
    and "\<not> (cfg_vm config \<noteq> None \<and> cfg_pool config \<noteq> None)"
    and "list_all (\<lambda>c. container_exists env (tc_name c) Storage_corpus)
             (cfg_containers config)"
    and "list_all (\<lambda>cd. check_val (cd_compare cd) (cd_value cd)
                        (int (length (filter (\<lambda>c. tc_type c = cd_type cd)
                                        (cfg_containers config)))))
          (td_containers defn)"
    and "list_all (\<lambda>c. tc_type c \<in> set (map cd_type (td_containers defn)))
          (cfg_containers config)"
    and "case td_monitor_queue defn of
           None \<Rightarrow> True
         | Some m \<Rightarrow> m \<in> set (map cd_type (td_containers defn))"
  shows "check_config env config =
     (if supervisor_exe \<in> set (td_features defn)
         \<and> py_not_str (task_supervisor_exe (cfg_task config))
      then ([LogError MissingSupervisorExe], Inl (TaskConfigError MissingSupervisorExe))
      else if target_must_use_input \<in> set (td_features defn) \<and> \<not> target_uses_input config
      then ([], Inl (TaskConfigError InputMustBeUsed))
      else if cfg_vm config \<noteq> None
      then ([], Inl (TaskConfigError VmNoLongerSupported))
      else
        (case cfg_pool config of
           None \<Rightarrow> ([], Inl (TaskConfigError PoolMustBeSpecified))
         | Some pool \<Rightarrow>
             if \<not> check_val (vd_compare (td_vm defn)) (vd_value (td_vm defn))
                      (tp_count pool)
             then
               ([LogError (InvalidVmCount (vd_compare (td_vm defn))
                             (vd_value (td_vm defn)) (tp_count pool))],
                Inl (TaskConfigError
                       (InvalidVmCount (vd_compare (td_vm defn))
                          (vd_value (td_vm defn)) (tp_count pool))))
             else if \<not> Pool_get_by_name env (tp_pool_name pool)
             then ([], Inl (TaskConfigError (InvalidPool (tp_pool_name pool))))
             else
               (case check_target_exe env config defn of
                  (log1, Inl e) \<Rightarrow> (log1, Inl e)
                | (log1, Inr _) \<Rightarrow>
                    (case check_config_generator_exe env config defn of
                       (log2, Inl e) \<Rightarrow> (log1 @ log2, Inl e)
                     | (log2, Inr _) \<Rightarrow>
                         (case check_config_stats_file config defn of
                            (log3, r) \<Rightarrow> (log1 @ log2 @ log3, r))))))"
proof -
  have b: "(cfg_vm config \<noteq> None \<and> cfg_pool config \<noteq> None) = False"
    using assms(2) by simp
  have c: "check_containers env defn config = Inr ()"
    unfolding check_containers_ok_iff using assms(3-6) by simp
  show ?thesis
    unfolding check_config_def
    by (simp only: assms(1) b c option.case sum.case if_False)
qed

text \<open>
  Claim C2, as amended. \<open>check_config\<close> stops at the first failing check in the order
  of the code, and each line of the statement is one check, reached only when the
  checks above it have passed: the task type is registered; the legacy VM spec and
  the pool are not both set; every submitted container exists (the first that does
  not is reported); every container definition accepts the number of containers
  submitted for its role (the first that does not is reported); every submitted
  container has a role of the definition; the monitor role is a role of the
  definition; the supervisor executable is given where the feature requires it;
  \<open>{input}\<close> is used where the feature requires it; the legacy VM spec is not set;
  the pool is set; the pool's count satisfies the VM rule; the pool is known; and a
  configuration that passes them all gets the outcome of the checks of
  \<open>target_exe\<close>, of \<open>generator_exe\<close> and of \<open>stats_file\<close>, in this order. So a
  configuration of a registered type that sets both the VM spec and the pool is
  rejected before any container check, and one that sets the VM spec alone is
  always rejected with a \<open>TaskConfigError\<close>, but only after the container checks and
  the two feature-conditional checks: their error is the one raised when one of them
  fails.
\<close>

theorem check_config_order:
  "(TASK_DEFINITIONS env (task_type (cfg_task config)) = None
      \<longrightarrow> check_config env config =
            ([], Inl (TaskConfigError (UnsupportedTaskType (task_type (cfg_task config))))))
   \<and> (TASK_DEFINITIONS env (task_type (cfg_task config)) = Some defn
    \<longrightarrow>
      (cfg_vm config \<noteq> None \<and> cfg_pool config \<noteq> None
        \<longrightarrow> check_config env config = ([], Inl (TaskConfigError VmAndPool)))
      \<and> (\<not> (cfg_vm config \<noteq> None \<and> cfg_pool config \<noteq> None)
        \<longrightarrow> (find (\<lambda>c. \<not> container_exists env (tc_name c) Storage_corpus) (cfg_containers config)
                  = Some c
          \<longrightarrow> check_config env config = ([], Inl (TaskConfigError (MissingContainer (tc_name c)))))
        \<and> (list_all (\<lambda>c. container_exists env (tc_name c) Storage_corpus) (cfg_containers config)
          \<longrightarrow> (find (\<lambda>cd. \<not> check_val (cd_compare cd) (cd_value cd)
                             (int (length (filter (\<lambda>c. tc_type c = cd_type cd)
                                             (cfg_containers config)))))
                    (td_containers defn) = Some cd
            \<longrightarrow> check_config env config = ([], Inl (TaskConfigError (ContainerCount (cd_type cd) (cd_compare cd) (cd_value cd)
                           (length (filter (\<lambda>c. tc_type c = cd_type cd) (cfg_containers config)))))))
          \<and> (list_all (\<lambda>cd. check_val (cd_compare cd) (cd_value cd)
                           (int (length (filter (\<lambda>c. tc_type c = cd_type cd)
                                           (cfg_containers config)))))
                  (td_containers defn)
            \<longrightarrow> (find (\<lambda>c. tc_type c \<notin> set (map cd_type (td_containers defn)))
                      (cfg_containers config) = Some c'
              \<longrightarrow> check_config env config = ([], Inl (TaskConfigError (UnsupportedContainerType (tc_type c')))))
            \<and> (list_all (\<lambda>c. tc_type c \<in> set (map cd_type (td_containers defn)))
                    (cfg_containers config)
              \<longrightarrow> (td_monitor_queue defn = Some m \<and> m \<notin> set (map cd_type (td_containers defn))
                \<longrightarrow> check_config env config = ([], Inl (TaskConfigError (MonitorNotUsed m))))
              \<and> ((case td_monitor_queue defn of
                       None \<Rightarrow> True
                     | Some m \<Rightarrow> m \<in> set (map cd_type (td_containers defn)))
                \<longrightarrow> (supervisor_exe \<in> set (td_features defn)
                        \<and> py_not_str (task_supervisor_exe (cfg_task config))
                  \<longrightarrow> check_config env config = ([LogError MissingSupervisorExe], Inl (TaskConfigError MissingSupervisorExe)))
                \<and> (\<not> (supervisor_exe \<in> set (td_features defn)
                        \<and> py_not_str (task_supervisor_exe (cfg_task config)))
                  \<longrightarrow> (target_must_use_input \<in> set (td_features defn) \<and> \<not> target_uses_input config
                    \<longrightarrow> check_config env config = ([], Inl (TaskConfigError InputMustBeUsed)))
                  \<and> (\<not> (target_must_use_input \<in> set (td_features defn) \<and> \<not> target_uses_input config)
                    \<longrightarrow> (cfg_vm config \<noteq> None
                      \<longrightarrow> check_config env config = ([], Inl (TaskConfigError VmNoLongerSupported)))
                    \<and> (cfg_vm config = None
                      \<longrightarrow> (cfg_pool config = None
                        \<longrightarrow> check_config env config = ([], Inl (TaskConfigError PoolMustBeSpecified)))
                      \<and> (cfg_pool config = Some pool
                        \<longrightarrow> (\<not> check_val (vd_compare (td_vm defn)) (vd_value (td_vm defn)) (tp_count pool)
                          \<longrightarrow> check_config env config = ([LogError (InvalidVmCount (vd_compare (td_vm defn)) (vd_value (td_vm defn)) (tp_count pool))], Inl (TaskConfigError (InvalidVmCount (vd_compare (td_vm defn)) (vd_value (td_vm defn)) (tp_count pool)))))
                        \<and> (check_val (vd_compare (td_vm defn)) (vd_value (td_vm defn)) (tp_count pool)
                          \<longrightarrow> (\<not> Pool_get_by_name env (tp_pool_name pool)
                            \<longrightarrow> check_config env config = ([], Inl (TaskConfigError (InvalidPool (tp_pool_name pool)))))
                          \<and> (Pool_get_by_name env (tp_pool_name pool)
                            \<longrightarrow> check_config env config = 
                              (case check_target_exe env config defn of
                                           (log1, Inl e) \<Rightarrow> (log1, Inl e)
                                         | (log1, Inr _) \<Rightarrow>
                                             (case check_config_generator_exe env config defn of
                                                (log2, Inl e) \<Rightarrow> (log1 @ log2, Inl e)
                                              | (log2, Inr _) \<Rightarrow>
                                                  (case check_config_stats_file config defn of
                                                     (log3, r) \<Rightarrow> (log1 @ log2 @ log3, r))))))))))))))))
   \<and> (TASK_DEFINITIONS env (task_type (cfg_task config)) = Some defn \<and> cfg_vm config \<noteq> None
      \<longrightarrow> (\<exists>m. snd (check_config env config) = Inl (TaskConfigError m)))"
  apply (intro conjI impI)
  subgoal by (rule check_config_unregistered)
  subgoal premises p
    using check_config_vm_and_pool[OF p(1)] p(2) by simp
  subgoal premises p
    by (rule check_config_containers_error[OF p(1,2) check_containers_first_missing[OF p(3)]])
  subgoal premises p
    by (rule check_config_containers_error[OF p(1,2) check_containers_count[OF p(3,4)]])
  subgoal premises p
    by (rule check_config_containers_error[OF p(1,2) check_containers_unsupported[OF p(3,4,5)]])
  subgoal premises p
    using check_config_containers_error[OF p(1,2), of "TaskConfigError (MonitorNotUsed m)"]
      check_containers_monitor[OF p(3,4,5), of m] p(6)
    by simp
  subgoal premises p
    using check_config_containers_pass[OF p(1-6)] p(7) by simp
  subgoal premises p
    using check_config_containers_pass[OF p(1-6)] p(7,8) by (auto split: if_splits)
  subgoal premises p
    using check_config_containers_pass[OF p(1-6)] p(7,8,9) by (auto split: if_splits)
  subgoal premises p
    using check_config_containers_pass[OF p(1-6)] p(7,8,9,10) by (auto split: if_splits)
  subgoal premises p
    using check_config_containers_pass[OF p(1-6)] p(7,8,9,10,11) by (auto split: if_splits)
  subgoal premises p
    using check_config_containers_pass[OF p(1-6)] p(7,8,9,10,11,12) by (auto split: if_splits)
  subgoal premises p
    using check_config_containers_pass[OF p(1-6)] p(7,8,9,10,11,12)
    by (auto split: if_splits)
  subgoal premises p
    using check_config_vm_rejected[of env config defn] p by simp
  done

text \<open>
  A configuration that sets both the VM spec and the pool; one that sets the VM spec
  alone and is otherwise in order; and one with a pool and no VM spec, of a task type
  that requires a supervisor executable, which it does not give.
\<close>

theorem check_config_order_witness:
  "check_config
     (ex_env (ex_definition []
        [\<lparr>cd_type = ContainerType ''setup'', cd_compare = Equal, cd_value = 1,
          cd_permissions = [Read, ListP]\<rparr>]))
     ((ex_config [] (task_details (TaskType ''example'')))\<lparr>cfg_vm := Some TaskVm\<rparr>)
     = ([], Inl (TaskConfigError VmAndPool))
   \<and> check_config
     (ex_env (ex_definition []
        [\<lparr>cd_type = ContainerType ''setup'', cd_compare = Equal, cd_value = 1,
          cd_permissions = [Read, ListP]\<rparr>]))
     ((ex_config [\<lparr>tc_type = ContainerType ''setup'', tc_name = ''s''\<rparr>]
         (task_details (TaskType ''example'')))\<lparr>cfg_vm := Some TaskVm, cfg_pool := None\<rparr>)
     = ([], Inl (TaskConfigError VmNoLongerSupported))
   \<and> check_config
     (ex_env (ex_definition [supervisor_exe]
        [\<lparr>cd_type = ContainerType ''setup'', cd_compare = Equal, cd_value = 1,
          cd_permissions = [Read, ListP]\<rparr>]))
     (ex_config [\<lparr>tc_type = ContainerType ''setup'', tc_name = ''s''\<rparr>]
         (task_details (TaskType ''example'')))
     = ([LogError MissingSupervisorExe], Inl (TaskConfigError MissingSupervisorExe))"
proof -
  define defn where "defn = ex_definition []
        [\<lparr>cd_type = ContainerType ''setup'', cd_compare = Equal, cd_value = 1,
          cd_permissions = [Read, ListP]\<rparr>]"
  define defn' where "defn' = ex_definition [supervisor_exe]
        [\<lparr>cd_type = ContainerType ''setup'', cd_compare = Equal, cd_value = 1,
          cd_permissions = [Read, ListP]\<rparr>]"
  have both: "check_config (ex_env defn)
     ((ex_config [] (task_details (TaskType ''example'')))\<lparr>cfg_vm := Some TaskVm\<rparr>)
     = ([], Inl (TaskConfigError VmAndPool))"
    using check_config_order[where env = "ex_env defn" and defn = defn and config =
        "(ex_config [] (task_details (TaskType ''example'')))\<lparr>cfg_vm := Some TaskVm\<rparr>"]
    by (simp add: ex_env_def ex_config_def task_details_def)
  have alone: "check_config (ex_env defn)
     ((ex_config [\<lparr>tc_type = ContainerType ''setup'', tc_name = ''s''\<rparr>]
         (task_details (TaskType ''example'')))\<lparr>cfg_vm := Some TaskVm, cfg_pool := None\<rparr>)
     = ([], Inl (TaskConfigError VmNoLongerSupported))"
    using check_config_order[where env = "ex_env defn" and defn = defn and config =
        "(ex_config [\<lparr>tc_type = ContainerType ''setup'', tc_name = ''s''\<rparr>]
           (task_details (TaskType ''example'')))\<lparr>cfg_vm := Some TaskVm, cfg_pool := None\<rparr>",
        THEN conjunct2, THEN conjunct1]
    by (simp add: ex_env_def ex_config_def task_details_def defn_def ex_definition_def)
  have supervisor: "check_config (ex_env defn')
     (ex_config [\<lparr>tc_type = ContainerType ''setup'', tc_name = ''s''\<rparr>]
         (task_details (TaskType ''example'')))
     = ([LogError MissingSupervisorExe], Inl (TaskConfigError MissingSupervisorExe))"
    using check_config_order[where env = "ex_env defn'" and defn = defn' and config =
        "ex_config [\<lparr>tc_type = ContainerType ''setup'', tc_name = ''s''\<rparr>]
           (task_details (TaskType ''example''))",
        THEN conjunct2, THEN conjunct1]
    by (simp add: ex_env_def ex_config_def task_details_def defn'_def ex_definition_def
        py_not_str_def)
  from both alone supervisor show ?thesis unfolding defn_def defn'_def by (intro conjI)
qed

text \<open>
  Claim C2, as stated, fails here: the configuration sets the VM spec alone and
  names a container that does not exist. The claim has it rejected for its VM spec
  before any container check; the code rejects it for the missing container.
\<close>

theorem check_config_vm_alone_counterexample:
  "cfg_vm ((ex_config [\<lparr>tc_type = ContainerType ''setup'', tc_name = ''absent''\<rparr>]
         (task_details (TaskType ''example'')))\<lparr>cfg_vm := Some TaskVm, cfg_pool := None\<rparr>)
     = Some TaskVm
   \<and> cfg_pool ((ex_config [\<lparr>tc_type = ContainerType ''setup'', tc_name = ''absent''\<rparr>]
         (task_details (TaskType ''example'')))\<lparr>cfg_vm := Some TaskVm, cfg_pool := None\<rparr>)
     = None
   \<and> check_config
     (ex_env (ex_definition []
        [\<lparr>cd_type = ContainerType ''setup'', cd_compare = Equal, cd_value = 1,
          cd_permissions = [Read, ListP]\<rparr>]))
     ((ex_config [\<lparr>tc_type = ContainerType ''setup'', tc_name = ''absent''\<rparr>]
         (task_details (TaskType ''example'')))\<lparr>cfg_vm := Some TaskVm, cfg_pool := None\<rparr>)
     = ([], Inl (TaskConfigError (MissingContainer ''absent'')))"
  by (simp add: check_config_def ex_env_def ex_config_def task_details_def
      ex_definition_def check_containers_def)

section \<open>The target executable and the generator executable\<close>

text \<open>
  When every check before \<open>check_target_exe\<close> passes, \<open>check_config\<close> is the
  sequence of \<open>check_target_exe\<close>, the generator block and the statistics block.
\<close>

lemma check_config_reach:
  assumes "TASK_DEFINITIONS env (task_type (cfg_task config)) = Some defn"
    and "cfg_vm config = None"
    and "cfg_pool config = Some pool"
    and "check_containers env defn config = Inr ()"
    and "\<not> (supervisor_exe \<in> set (td_features defn)
             \<and> py_not_str (task_supervisor_exe (cfg_task config)))"
    and "\<not> (target_must_use_input \<in> set (td_features defn) \<and> \<not> target_uses_input config)"
    and "check_val (vd_compare (td_vm defn)) (vd_value (td_vm defn)) (tp_count pool)"
    and "Pool_get_by_name env (tp_pool_name pool)"
  shows "check_config env config =
     (case check_target_exe env config defn of
        (log1, Inl e) \<Rightarrow> (log1, Inl e)
      | (log1, Inr _) \<Rightarrow>
          (case check_config_generator_exe env config defn of
             (log2, Inl e) \<Rightarrow> (log1 @ log2, Inl e)
           | (log2, Inr _) \<Rightarrow>
               (case check_config_stats_file config defn of
                  (log3, r) \<Rightarrow> (log1 @ log2 @ log3, r))))"
proof -
  have s: "(supervisor_exe \<in> set (td_features defn)
             \<and> py_not_str (task_supervisor_exe (cfg_task config))) = False"
    using assms(5) by simp
  have i: "(target_must_use_input \<in> set (td_features defn)
             \<and> \<not> target_uses_input config) = False"
    using assms(6) by simp
  have v: "(cfg_vm config \<noteq> None \<and> cfg_pool config \<noteq> None) = False"
    "(cfg_vm config \<noteq> None) = False"
    using assms(2) by simp_all
  have c: "(\<not> check_val (vd_compare (td_vm defn)) (vd_value (td_vm defn)) (tp_count pool))
      = False" "(\<not> Pool_get_by_name env (tp_pool_name pool)) = False"
    using assms(7,8) by simp_all
  show ?thesis
    unfolding check_config_def
    by (simp only: assms(1) assms(3) assms(4) s i v c option.case sum.case if_False simp_thms)
qed

lemma check_target_exe_Inl:
  "snd (check_target_exe env config defn) = Inl e \<Longrightarrow>
     (\<exists>m. e = TaskConfigError m)
     \<or> (e = IndexError \<and> task_target_exe (cfg_task config) \<noteq> None
         \<and> filter (\<lambda>x. tc_type x = ContainerType ''setup'') (cfg_containers config) = [])"
  by (auto simp: check_target_exe_def split: option.splits if_splits list.splits)

lemma stats_file_Inl:
  "snd (check_config_stats_file config defn) = Inl e \<Longrightarrow> \<exists>m. e = TaskConfigError m"
  by (auto simp: check_config_stats_file_def split: if_splits)

lemma check_config_missing_target_exe:
  assumes "TASK_DEFINITIONS env (task_type (cfg_task config)) = Some defn"
    and "target_exe \<in> set (td_features defn)"
    and "task_target_exe (cfg_task config) = None"
  shows "\<exists>m. snd (check_config env config) = Inl (TaskConfigError m)"
proof -
  have t: "snd (check_target_exe env config defn) = Inl (TaskConfigError MissingTargetExe)"
    using assms(2,3) by (simp add: check_target_exe_def)
  show ?thesis
  proof (cases "check_containers env defn config")
    case (Inl e)
    then show ?thesis using check_config_containers_fail[OF assms(1)] by blast
  next
    case (Inr u)
    show ?thesis
      unfolding check_config_stages[OF assms(1)] Inr t
      by (simp split: option.splits)
  qed
qed

text \<open>
  Claim C9. With the feature \<open>target_exe\<close> declared and no \<open>target_exe\<close> given,
  \<open>check_target_exe\<close> raises \<open>TaskConfigError\<close> with the message
  \<open>missing target_exe\<close>, and so does \<open>check_config\<close> when the checks before it
  pass (it raises a \<open>TaskConfigError\<close> in any case). With a \<open>target_exe\<close> given, a
  name the blob-name validator rejects is an error; a valid name that is missing from
  the first submitted setup container only adds a warning to the log, and the function
  returns normally. \<open>check_config\<close> then goes on to its next checks with that log.
\<close>

theorem check_target_exe_outcomes:
  "(target_exe \<in> set (td_features defn) \<and> task_target_exe (cfg_task config) = None
      \<longrightarrow> check_target_exe env config defn = ([], Inl (TaskConfigError MissingTargetExe)))
   \<and> (task_target_exe (cfg_task config) = Some exe \<and> \<not> is_valid_blob_name exe
      \<longrightarrow> check_target_exe env config defn
            = ([], Inl (TaskConfigError TargetExeNotCanonical)))
   \<and> (task_target_exe (cfg_task config) = Some exe \<and> is_valid_blob_name exe
        \<and> filter (\<lambda>x. tc_type x = ContainerType ''setup'') (cfg_containers config)
            = container # others
      \<longrightarrow> check_target_exe env config defn =
            (if blob_exists env (tc_name container) exe Storage_corpus then []
             else [LogWarningTargetExe exe (tc_name container)], Inr ()))
   \<and> (TASK_DEFINITIONS env (task_type (cfg_task config)) = Some defn
        \<and> cfg_vm config = None \<and> cfg_pool config = Some pool
        \<and> check_containers env defn config = Inr ()
        \<and> \<not> (supervisor_exe \<in> set (td_features defn)
                \<and> py_not_str (task_supervisor_exe (cfg_task config)))
        \<and> \<not> (target_must_use_input \<in> set (td_features defn)
                \<and> \<not> target_uses_input config)
        \<and> check_val (vd_compare (td_vm defn)) (vd_value (td_vm defn)) (tp_count pool)
        \<and> Pool_get_by_name env (tp_pool_name pool)
      \<longrightarrow> check_config env config =
            (case check_target_exe env config defn of
               (log1, Inl e) \<Rightarrow> (log1, Inl e)
             | (log1, Inr _) \<Rightarrow>
                 (case check_config_generator_exe env config defn of
                    (log2, Inl e) \<Rightarrow> (log1 @ log2, Inl e)
                  | (log2, Inr _) \<Rightarrow>
                      (case check_config_stats_file config defn of
                         (log3, r) \<Rightarrow> (log1 @ log2 @ log3, r)))))
   \<and> (TASK_DEFINITIONS env (task_type (cfg_task config)) = Some defn
        \<and> target_exe \<in> set (td_features defn)
        \<and> task_target_exe (cfg_task config) = None
      \<longrightarrow> (\<exists>m. snd (check_config env config) = Inl (TaskConfigError m)))"
proof (intro conjI impI; (elim conjE)?)
  assume "target_exe \<in> set (td_features defn)" "task_target_exe (cfg_task config) = None"
  then show "check_target_exe env config defn = ([], Inl (TaskConfigError MissingTargetExe))"
    by (simp add: check_target_exe_def)
next
  assume "task_target_exe (cfg_task config) = Some exe" "\<not> is_valid_blob_name exe"
  then show "check_target_exe env config defn
      = ([], Inl (TaskConfigError TargetExeNotCanonical))"
    by (simp add: check_target_exe_def)
next
  assume "task_target_exe (cfg_task config) = Some exe" "is_valid_blob_name exe"
    "filter (\<lambda>x. tc_type x = ContainerType ''setup'') (cfg_containers config)
       = container # others"
  then show "check_target_exe env config defn =
      (if blob_exists env (tc_name container) exe Storage_corpus then []
       else [LogWarningTargetExe exe (tc_name container)], Inr ())"
    by (simp add: check_target_exe_def)
next
  assume "TASK_DEFINITIONS env (task_type (cfg_task config)) = Some defn"
    "cfg_vm config = None" "cfg_pool config = Some pool"
    "check_containers env defn config = Inr ()"
    "\<not> (supervisor_exe \<in> set (td_features defn)
        \<and> py_not_str (task_supervisor_exe (cfg_task config)))"
    "\<not> (target_must_use_input \<in> set (td_features defn) \<and> \<not> target_uses_input config)"
    "check_val (vd_compare (td_vm defn)) (vd_value (td_vm defn)) (tp_count pool)"
    "Pool_get_by_name env (tp_pool_name pool)"
  then show "check_config env config =
            (case check_target_exe env config defn of
               (log1, Inl e) \<Rightarrow> (log1, Inl e)
             | (log1, Inr _) \<Rightarrow>
                 (case check_config_generator_exe env config defn of
                    (log2, Inl e) \<Rightarrow> (log1 @ log2, Inl e)
                  | (log2, Inr _) \<Rightarrow>
                      (case check_config_stats_file config defn of
                         (log3, r) \<Rightarrow> (log1 @ log2 @ log3, r))))"
    by (rule check_config_reach)
next
  assume "TASK_DEFINITIONS env (task_type (cfg_task config)) = Some defn"
    "target_exe \<in> set (td_features defn)" "task_target_exe (cfg_task config) = None"
  then show "\<exists>m. snd (check_config env config) = Inl (TaskConfigError m)"
    by (rule check_config_missing_target_exe)
qed

text \<open>
  A task type with the feature \<open>target_exe\<close> and exactly one setup container:
  without a \<open>target_exe\<close> the configuration is rejected for it; \<open>./fuzz.exe\<close> is
  rejected as not canonical; \<open>other.exe\<close>, which the setup container does not hold,
  is accepted with a warning.
\<close>

theorem check_target_exe_outcomes_witness:
  "check_config
     (ex_env (ex_definition [target_exe]
        [\<lparr>cd_type = ContainerType ''setup'', cd_compare = Equal, cd_value = 1,
          cd_permissions = [Read, ListP]\<rparr>]))
     (ex_config [\<lparr>tc_type = ContainerType ''setup'', tc_name = ''s''\<rparr>]
        (task_details (TaskType ''example'')))
     = ([], Inl (TaskConfigError MissingTargetExe))
   \<and> check_target_exe
     (ex_env (ex_definition [target_exe]
        [\<lparr>cd_type = ContainerType ''setup'', cd_compare = Equal, cd_value = 1,
          cd_permissions = [Read, ListP]\<rparr>]))
     (ex_config [\<lparr>tc_type = ContainerType ''setup'', tc_name = ''s''\<rparr>]
        ((task_details (TaskType ''example''))\<lparr>task_target_exe := Some ''./fuzz.exe''\<rparr>))
     (ex_definition [target_exe]
        [\<lparr>cd_type = ContainerType ''setup'', cd_compare = Equal, cd_value = 1,
          cd_permissions = [Read, ListP]\<rparr>])
     = ([], Inl (TaskConfigError TargetExeNotCanonical))
   \<and> check_target_exe
     (ex_env (ex_definition [target_exe]
        [\<lparr>cd_type = ContainerType ''setup'', cd_compare = Equal, cd_value = 1,
          cd_permissions = [Read, ListP]\<rparr>]))
     (ex_config [\<lparr>tc_type = ContainerType ''setup'', tc_name = ''s''\<rparr>]
        ((task_details (TaskType ''example''))\<lparr>task_target_exe := Some ''other.exe''\<rparr>))
     (ex_definition [target_exe]
        [\<lparr>cd_type = ContainerType ''setup'', cd_compare = Equal, cd_value = 1,
          cd_permissions = [Read, ListP]\<rparr>])
     = ([LogWarningTargetExe ''other.exe'' ''s''], Inr ())"
proof -
  define defn where "defn = ex_definition [target_exe]
        [\<lparr>cd_type = ContainerType ''setup'', cd_compare = Equal, cd_value = 1,
          cd_permissions = [Read, ListP]\<rparr>]"
  define cs where "cs = [\<lparr>tc_type = ContainerType ''setup'', tc_name = ''s''\<rparr>]"
  define t where "t = task_details (TaskType ''example'')"
  have valid: "is_valid_blob_name ''other.exe''" "\<not> is_valid_blob_name ''./fuzz.exe''"
    by (simp_all add: is_valid_blob_name_def py_strip_def py_isspace_def MIN_LENGTH_def
      MAX_LENGTH_def MAX_PATH_SEGMENTS_def PurePosixPath_def splitroot_def parts_def
      is_absolute_def as_posix_def endswith_def)
  have cont: "check_containers (ex_env defn) defn (ex_config cs t) = Inr ()"
    by (simp add: check_containers_def check_container_def dict_get_def defn_def cs_def
        ex_definition_def ex_config_def ex_env_def)
  have missing: "check_config (ex_env defn) (ex_config cs t)
      = ([], Inl (TaskConfigError MissingTargetExe))"
    using check_target_exe_outcomes[of defn "ex_config cs t" "ex_env defn" _ _ _
        "\<lparr>tp_count = 1, tp_pool_name = ''pool''\<rparr>"] cont
    by (simp add: ex_env_def ex_config_def t_def task_details_def defn_def
        ex_definition_def)
  have bad: "check_target_exe (ex_env defn)
      (ex_config cs (t\<lparr>task_target_exe := Some ''./fuzz.exe''\<rparr>)) defn
      = ([], Inl (TaskConfigError TargetExeNotCanonical))"
    using check_target_exe_outcomes[of defn
        "ex_config cs (t\<lparr>task_target_exe := Some ''./fuzz.exe''\<rparr>)" "ex_env defn"
        "''./fuzz.exe''"] valid
    by (simp add: ex_config_def)
  have warn: "check_target_exe (ex_env defn)
      (ex_config cs (t\<lparr>task_target_exe := Some ''other.exe''\<rparr>)) defn
      = ([LogWarningTargetExe ''other.exe'' ''s''], Inr ())"
    using check_target_exe_outcomes[of defn
        "ex_config cs (t\<lparr>task_target_exe := Some ''other.exe''\<rparr>)" "ex_env defn"
        "''other.exe''" "\<lparr>tc_type = ContainerType ''setup'', tc_name = ''s''\<rparr>" "[]"] valid
    by (simp add: ex_config_def cs_def ex_env_def)
  from missing bad warn show ?thesis
    unfolding defn_def cs_def t_def by (intro conjI)
qed

lemma tools_paths_loop_ok:
  "(check_config_tools_paths env cname g ps = ([], Inr ()))
     = list_all (\<lambda>p. startswith g p
                      \<longrightarrow> blob_exists env cname (py_replace p [] g) Storage_corpus) ps"
  by (induction ps) (auto simp: Let_def)

lemma tools_paths_loop_fail:
  "\<not> list_all (\<lambda>p. startswith g p
                   \<longrightarrow> blob_exists env cname (py_replace p [] g) Storage_corpus) ps \<Longrightarrow>
   check_config_tools_paths env cname g ps =
     ([LogError (GeneratorExeMissing g cname)],
      Inl (TaskConfigError (GeneratorExeMissing g cname)))"
  by (induction ps) (auto simp: Let_def)

lemma generator_exe_Inl:
  "snd (check_config_generator_exe env config defn) = Inl e \<Longrightarrow>
     (\<exists>m. e = TaskConfigError m)
     \<or> (e = IndexError
         \<and> filter (\<lambda>x. tc_type x = ContainerType ''tools'') (cfg_containers config) = [])"
proof (cases "list_all (\<lambda>p. startswith (the (task_generator_exe (cfg_task config))) p
          \<longrightarrow> blob_exists env
                (tc_name (hd (filter (\<lambda>x. tc_type x = ContainerType ''tools'')
                                (cfg_containers config))))
                (py_replace p [] (the (task_generator_exe (cfg_task config))))
                Storage_corpus) tools_paths")
  case True
  assume "snd (check_config_generator_exe env config defn) = Inl e"
  then show ?thesis
    using True tools_paths_loop_ok[of env _ _ tools_paths, THEN iffD2, OF True]
    by (auto simp: check_config_generator_exe_def split: if_splits list.splits)
next
  case False
  assume "snd (check_config_generator_exe env config defn) = Inl e"
  then show ?thesis
    using tools_paths_loop_fail[OF False]
    by (auto simp: check_config_generator_exe_def split: if_splits list.splits)
qed

lemma check_config_Inl:
  assumes "snd (check_config env config) = Inl e"
  shows "(\<exists>m. e = TaskConfigError m)
     \<or> (e = IndexError
        \<and> ((task_target_exe (cfg_task config) \<noteq> None
             \<and> filter (\<lambda>x. tc_type x = ContainerType ''setup'') (cfg_containers config) = [])
           \<or> filter (\<lambda>x. tc_type x = ContainerType ''tools'') (cfg_containers config) = []))"
proof (cases "TASK_DEFINITIONS env (task_type (cfg_task config))")
  case None
  with assms show ?thesis by (auto simp: check_config_def)
next
  case (Some defn)
  consider (a) "check_containers env defn config = Inl e"
    | (b) "snd (check_target_exe env config defn) = Inl e"
    | (c) "snd (check_config_generator_exe env config defn) = Inl e"
    | (d) "snd (check_config_stats_file config defn) = Inl e"
    | (e) "\<exists>m. e = TaskConfigError m"
    using assms unfolding check_config_stages[OF Some]
    by (auto split: if_splits sum.splits option.splits)
  then show ?thesis
  proof cases
    case a
    then show ?thesis using check_containers_Inl by blast
  next
    case b
    then show ?thesis using check_target_exe_Inl by blast
  next
    case c
    then show ?thesis using generator_exe_Inl by blast
  next
    case d
    then show ?thesis using stats_file_Inl by blast
  next
    case e
    then show ?thesis by blast
  qed
qed

lemma check_config_ok_generator:
  assumes "TASK_DEFINITIONS env (task_type (cfg_task config)) = Some defn"
    and "snd (check_config env config) = Inr ()"
  shows "snd (check_config_generator_exe env config defn) = Inr ()"
  using assms(2) unfolding check_config_stages[OF assms(1)]
  by (auto split: sum.splits option.splits if_splits)

lemma generator_exe_unset:
  assumes "generator_exe \<in> set (td_features defn)"
    and "py_not_str (task_generator_exe (cfg_task config))"
  shows "snd (check_config_generator_exe env config defn) \<noteq> Inr ()"
  using assms by (auto simp: check_config_generator_exe_def split: list.splits)

lemma generator_exe_ok:
  assumes "generator_exe \<in> set (td_features defn)"
    and "snd (check_config_generator_exe env config defn) = Inr ()"
  shows "\<exists>gen container others.
      task_generator_exe (cfg_task config) = Some gen \<and> gen \<noteq> []
      \<and> filter (\<lambda>x. tc_type x = ContainerType ''tools'') (cfg_containers config)
          = container # others
      \<and> list_all (\<lambda>p. startswith gen p
             \<longrightarrow> blob_exists env (tc_name container) (py_replace p [] gen) Storage_corpus)
           tools_paths"
proof (cases "filter (\<lambda>x. tc_type x = ContainerType ''tools'') (cfg_containers config)")
  case Nil
  with assms show ?thesis by (simp add: check_config_generator_exe_def)
next
  case (Cons container others)
  from assms Cons obtain gen where
    g: "task_generator_exe (cfg_task config) = Some gen" "gen \<noteq> []"
    by (cases "task_generator_exe (cfg_task config)")
      (auto simp: check_config_generator_exe_def py_not_str_def split: if_splits)
  have "list_all (\<lambda>p. startswith gen p
             \<longrightarrow> blob_exists env (tc_name container) (py_replace p [] gen) Storage_corpus)
           tools_paths"
  proof (rule ccontr)
    assume "\<not> ?thesis"
    from tools_paths_loop_fail[OF this] assms Cons g show False
      by (simp add: check_config_generator_exe_def py_not_str_def)
  qed
  with g Cons show ?thesis by simp
qed

text \<open>
  Removing a placeholder that occurs only at the start of a string leaves the rest of
  the string.
\<close>

lemma py_replace_absent:
  "old \<noteq> [] \<Longrightarrow> \<not> py_contains old s \<Longrightarrow> py_replace old [] s = s"
proof (induction s)
  case Nil
  then show ?case by (simp add: py_replace.simps)
next
  case (Cons c cs)
  then show ?case by (simp add: py_replace.simps[of old "[]" "c # cs"])
qed

lemma py_replace_prefix:
  assumes "old \<noteq> []" and "startswith s old"
    and "\<not> py_contains old (drop (length old) s)"
  shows "py_replace old [] s = drop (length old) s"
proof -
  have "s \<noteq> []" using assms(1,2) by (auto simp: startswith_def)
  then have "py_replace old [] s = py_replace old [] (drop (length old) s)"
    using assms(1,2) by (simp add: py_replace.simps[of old "[]" s])
  then show ?thesis using py_replace_absent[OF assms(1,3)] by simp
qed

text \<open>
  A container definition that rejects the count zero has a submitted container of its
  role in every configuration that passes \<open>check_containers\<close>.
\<close>

lemma required_submitted:
  assumes "check_containers env defn config = Inr ()"
    and "cd \<in> set (td_containers defn)"
    and "\<not> check_val (cd_compare cd) (cd_value cd) 0"
  shows "filter (\<lambda>c. tc_type c = cd_type cd) (cfg_containers config) \<noteq> []"
proof
  assume e: "filter (\<lambda>c. tc_type c = cd_type cd) (cfg_containers config) = []"
  from assms(1) have "list_all (\<lambda>cd. check_val (cd_compare cd) (cd_value cd)
                        (int (length (filter (\<lambda>c. tc_type c = cd_type cd)
                                        (cfg_containers config)))))
          (td_containers defn)"
    unfolding check_containers_ok_iff by simp
  with assms(2) have "check_val (cd_compare cd) (cd_value cd)
      (int (length (filter (\<lambda>c. tc_type c = cd_type cd) (cfg_containers config))))"
    unfolding list_all_iff by blast
  with e assms(3) show False by simp
qed

text \<open>
  A failure of \<open>check_config\<close> is a \<open>TaskConfigError\<close> when a tools container is
  submitted or required by the definition and, where a \<open>target_exe\<close> is given, a
  setup container is submitted or required by the definition.
\<close>

lemma check_config_fails_with_TaskConfigError:
  assumes "TASK_DEFINITIONS env (task_type (cfg_task config)) = Some defn"
    and "snd (check_config env config) \<noteq> Inr ()"
    and "filter (\<lambda>x. tc_type x = ContainerType ''tools'') (cfg_containers config) \<noteq> []
         \<or> (\<exists>cd \<in> set (td_containers defn). cd_type cd = ContainerType ''tools''
               \<and> \<not> check_val (cd_compare cd) (cd_value cd) 0)"
    and "task_target_exe (cfg_task config) = None
         \<or> filter (\<lambda>x. tc_type x = ContainerType ''setup'') (cfg_containers config) \<noteq> []
         \<or> (\<exists>cd \<in> set (td_containers defn). cd_type cd = ContainerType ''setup''
               \<and> \<not> check_val (cd_compare cd) (cd_value cd) 0)"
  shows "\<exists>m. snd (check_config env config) = Inl (TaskConfigError m)"
proof (cases "check_containers env defn config")
  case (Inl e)
  then show ?thesis by (rule check_config_containers_fail[OF assms(1)])
next
  case (Inr u)
  then have ok: "check_containers env defn config = Inr ()" by simp
  have req: "filter (\<lambda>x. tc_type x = k) (cfg_containers config) \<noteq> []"
    if "\<exists>cd \<in> set (td_containers defn). cd_type cd = k
          \<and> \<not> check_val (cd_compare cd) (cd_value cd) 0" for k
  proof -
    from that obtain cd where cd: "cd \<in> set (td_containers defn)" "cd_type cd = k"
      "\<not> check_val (cd_compare cd) (cd_value cd) 0"
      by blast
    from required_submitted[OF ok cd(1) cd(3)] show ?thesis unfolding cd(2) .
  qed
  have tools: "filter (\<lambda>x. tc_type x = ContainerType ''tools'') (cfg_containers config) \<noteq> []"
    using assms(3) req[of "ContainerType ''tools''"] by blast
  have stp: "task_target_exe (cfg_task config) = None
         \<or> filter (\<lambda>x. tc_type x = ContainerType ''setup'') (cfg_containers config) \<noteq> []"
    using assms(4) req[of "ContainerType ''setup''"] by blast
  from assms(2) obtain e where e: "snd (check_config env config) = Inl e"
    by (cases "snd (check_config env config)") auto
  from check_config_Inl[OF e] tools stp have "\<exists>m. e = TaskConfigError m" by auto
  with e show ?thesis by blast
qed

lemma generator_exe_blob_missing:
  assumes "generator_exe \<in> set (td_features defn)"
    and "filter (\<lambda>x. tc_type x = ContainerType ''tools'') (cfg_containers config)
           = container # others"
    and "task_generator_exe (cfg_task config) = Some gen"
    and "p \<in> set tools_paths" and "startswith gen p"
    and "\<not> blob_exists env (tc_name container) (py_replace p [] gen) Storage_corpus"
  shows "snd (check_config_generator_exe env config defn) \<noteq> Inr ()"
proof
  assume "snd (check_config_generator_exe env config defn) = Inr ()"
  from generator_exe_ok[OF assms(1) this] assms(2,3) have
    "list_all (\<lambda>p. startswith gen p
         \<longrightarrow> blob_exists env (tc_name container) (py_replace p [] gen) Storage_corpus)
       tools_paths"
    by auto
  with assms(4,5,6) show False unfolding list_all_iff by blast
qed

text \<open>
  Claim C8. Let the feature \<open>generator_exe\<close> be declared. \<open>check_config\<close> never
  succeeds with \<open>generator_exe\<close> unset or empty, nor with a \<open>generator_exe\<close> that
  starts with one of the two placeholders when the first submitted tools container
  lacks the blob named by \<open>generator_exe\<close> with the placeholder removed
  (\<open>str.replace\<close>: the rest of the string, when the placeholder occurs only at its
  start). In both cases the failure is a \<open>TaskConfigError\<close>, for a task type whose
  definition requires a tools container or a configuration that submits one (and,
  where a \<open>target_exe\<close> is given, likewise for the setup container). The block of
  \<open>check_config\<close> itself, on the first submitted tools container: an unset
  \<open>generator_exe\<close> is the error \<open>generator_exe is not defined\<close>; otherwise the
  block passes when the blob is there for each placeholder that \<open>generator_exe\<close>
  starts with, and logs and raises its error when not. When \<open>check_config\<close>
  succeeds, \<open>generator_exe\<close> is set and the blobs are there.
\<close>

theorem check_config_generator_exe_outcomes:
  "(TASK_DEFINITIONS env (task_type (cfg_task config)) = Some defn
        \<and> generator_exe \<in> set (td_features defn)
        \<and> py_not_str (task_generator_exe (cfg_task config))
      \<longrightarrow> snd (check_config env config) \<noteq> Inr ())
   \<and> (TASK_DEFINITIONS env (task_type (cfg_task config)) = Some defn
        \<and> generator_exe \<in> set (td_features defn)
        \<and> py_not_str (task_generator_exe (cfg_task config))
        \<and> (filter (\<lambda>x. tc_type x = ContainerType ''tools'') (cfg_containers config) \<noteq> []
            \<or> (\<exists>cd \<in> set (td_containers defn). cd_type cd = ContainerType ''tools''
                  \<and> \<not> check_val (cd_compare cd) (cd_value cd) 0))
        \<and> (task_target_exe (cfg_task config) = None
            \<or> filter (\<lambda>x. tc_type x = ContainerType ''setup'') (cfg_containers config)
                 \<noteq> []
            \<or> (\<exists>cd \<in> set (td_containers defn). cd_type cd = ContainerType ''setup''
                  \<and> \<not> check_val (cd_compare cd) (cd_value cd) 0))
      \<longrightarrow> (\<exists>m. snd (check_config env config) = Inl (TaskConfigError m)))
   \<and> (TASK_DEFINITIONS env (task_type (cfg_task config)) = Some defn
        \<and> generator_exe \<in> set (td_features defn)
        \<and> filter (\<lambda>x. tc_type x = ContainerType ''tools'') (cfg_containers config)
            = container # others
        \<and> task_generator_exe (cfg_task config) = Some gen
        \<and> p \<in> set tools_paths \<and> startswith gen p
        \<and> \<not> blob_exists env (tc_name container) (py_replace p [] gen) Storage_corpus
        \<and> (task_target_exe (cfg_task config) = None
            \<or> filter (\<lambda>x. tc_type x = ContainerType ''setup'') (cfg_containers config)
                 \<noteq> []
            \<or> (\<exists>cd \<in> set (td_containers defn). cd_type cd = ContainerType ''setup''
                  \<and> \<not> check_val (cd_compare cd) (cd_value cd) 0))
      \<longrightarrow> (\<exists>m. snd (check_config env config) = Inl (TaskConfigError m)))
   \<and> (p \<in> set tools_paths \<and> startswith gen p \<and> \<not> py_contains p (drop (length p) gen)
      \<longrightarrow> py_replace p [] gen = drop (length p) gen)
   \<and> (generator_exe \<in> set (td_features defn)
        \<and> filter (\<lambda>x. tc_type x = ContainerType ''tools'') (cfg_containers config)
            = container # others
        \<and> py_not_str (task_generator_exe (cfg_task config))
      \<longrightarrow> check_config_generator_exe env config defn
            = ([], Inl (TaskConfigError GeneratorExeNotDefined)))
   \<and> (generator_exe \<in> set (td_features defn)
        \<and> filter (\<lambda>x. tc_type x = ContainerType ''tools'') (cfg_containers config)
            = container # others
        \<and> task_generator_exe (cfg_task config) = Some gen \<and> gen \<noteq> []
      \<longrightarrow> check_config_generator_exe env config defn =
            (if list_all (\<lambda>p. startswith gen p
                   \<longrightarrow> blob_exists env (tc_name container) (py_replace p [] gen)
                         Storage_corpus) tools_paths
             then ([], Inr ())
             else ([LogError (GeneratorExeMissing gen (tc_name container))],
                   Inl (TaskConfigError (GeneratorExeMissing gen (tc_name container))))))
   \<and> (TASK_DEFINITIONS env (task_type (cfg_task config)) = Some defn
        \<and> generator_exe \<in> set (td_features defn)
        \<and> snd (check_config env config) = Inr ()
      \<longrightarrow> (\<exists>g c cs. task_generator_exe (cfg_task config) = Some g \<and> g \<noteq> []
             \<and> filter (\<lambda>x. tc_type x = ContainerType ''tools'') (cfg_containers config)
                 = c # cs
             \<and> list_all (\<lambda>p. startswith g p
                    \<longrightarrow> blob_exists env (tc_name c) (py_replace p [] g) Storage_corpus)
                  tools_paths))"
proof (intro conjI impI; (elim conjE)?)
  assume a: "TASK_DEFINITIONS env (task_type (cfg_task config)) = Some defn"
    "generator_exe \<in> set (td_features defn)"
    "py_not_str (task_generator_exe (cfg_task config))"
  show "snd (check_config env config) \<noteq> Inr ()"
    using check_config_ok_generator[OF a(1)] generator_exe_unset[OF a(2,3)] by blast
next
  assume a: "TASK_DEFINITIONS env (task_type (cfg_task config)) = Some defn"
    "generator_exe \<in> set (td_features defn)"
    "py_not_str (task_generator_exe (cfg_task config))"
    "filter (\<lambda>x. tc_type x = ContainerType ''tools'') (cfg_containers config) \<noteq> []
       \<or> (\<exists>cd \<in> set (td_containers defn). cd_type cd = ContainerType ''tools''
             \<and> \<not> check_val (cd_compare cd) (cd_value cd) 0)"
    "task_target_exe (cfg_task config) = None
       \<or> filter (\<lambda>x. tc_type x = ContainerType ''setup'') (cfg_containers config) \<noteq> []
       \<or> (\<exists>cd \<in> set (td_containers defn). cd_type cd = ContainerType ''setup''
             \<and> \<not> check_val (cd_compare cd) (cd_value cd) 0)"
  have "snd (check_config env config) \<noteq> Inr ()"
    using check_config_ok_generator[OF a(1)] generator_exe_unset[OF a(2,3)] by blast
  then show "\<exists>m. snd (check_config env config) = Inl (TaskConfigError m)"
    using a(4,5) by (rule check_config_fails_with_TaskConfigError[OF a(1)])
next
  assume a: "TASK_DEFINITIONS env (task_type (cfg_task config)) = Some defn"
    "generator_exe \<in> set (td_features defn)"
    "filter (\<lambda>x. tc_type x = ContainerType ''tools'') (cfg_containers config)
       = container # others"
    "task_generator_exe (cfg_task config) = Some gen"
    "p \<in> set tools_paths" "startswith gen p"
    "\<not> blob_exists env (tc_name container) (py_replace p [] gen) Storage_corpus"
    "task_target_exe (cfg_task config) = None
       \<or> filter (\<lambda>x. tc_type x = ContainerType ''setup'') (cfg_containers config) \<noteq> []
       \<or> (\<exists>cd \<in> set (td_containers defn). cd_type cd = ContainerType ''setup''
             \<and> \<not> check_val (cd_compare cd) (cd_value cd) 0)"
  have n: "snd (check_config env config) \<noteq> Inr ()"
    using check_config_ok_generator[OF a(1)] generator_exe_blob_missing[OF a(2-7)] by blast
  have t: "filter (\<lambda>x. tc_type x = ContainerType ''tools'') (cfg_containers config) \<noteq> []
       \<or> (\<exists>cd \<in> set (td_containers defn). cd_type cd = ContainerType ''tools''
             \<and> \<not> check_val (cd_compare cd) (cd_value cd) 0)"
    using a(3) by simp
  show "\<exists>m. snd (check_config env config) = Inl (TaskConfigError m)"
    using n t a(8) by (rule check_config_fails_with_TaskConfigError[OF a(1)])
next
  assume "p \<in> set tools_paths" "startswith gen p"
    "\<not> py_contains p (drop (length p) gen)"
  then show "py_replace p [] gen = drop (length p) gen"
    using py_replace_prefix[of p gen] by (auto simp: tools_paths_def)
next
  assume "generator_exe \<in> set (td_features defn)"
    "filter (\<lambda>x. tc_type x = ContainerType ''tools'') (cfg_containers config)
       = container # others"
    "py_not_str (task_generator_exe (cfg_task config))"
  then show "check_config_generator_exe env config defn
      = ([], Inl (TaskConfigError GeneratorExeNotDefined))"
    by (simp add: check_config_generator_exe_def)
next
  assume a: "generator_exe \<in> set (td_features defn)"
    "filter (\<lambda>x. tc_type x = ContainerType ''tools'') (cfg_containers config)
       = container # others"
    "task_generator_exe (cfg_task config) = Some gen" "gen \<noteq> []"
  show "check_config_generator_exe env config defn =
      (if list_all (\<lambda>p. startswith gen p
             \<longrightarrow> blob_exists env (tc_name container) (py_replace p [] gen)
                   Storage_corpus) tools_paths
       then ([], Inr ())
       else ([LogError (GeneratorExeMissing gen (tc_name container))],
             Inl (TaskConfigError (GeneratorExeMissing gen (tc_name container)))))"
  proof (cases "list_all (\<lambda>p. startswith gen p
             \<longrightarrow> blob_exists env (tc_name container) (py_replace p [] gen)
                   Storage_corpus) tools_paths")
    case True
    then show ?thesis
      using a tools_paths_loop_ok[of env "tc_name container" gen tools_paths]
      by (simp add: check_config_generator_exe_def py_not_str_def)
  next
    case False
    then show ?thesis
      using a tools_paths_loop_fail[OF False]
      by (simp add: check_config_generator_exe_def py_not_str_def)
  qed
next
  assume a: "TASK_DEFINITIONS env (task_type (cfg_task config)) = Some defn"
    "generator_exe \<in> set (td_features defn)"
    "snd (check_config env config) = Inr ()"
  show "\<exists>g c cs. task_generator_exe (cfg_task config) = Some g \<and> g \<noteq> []
             \<and> filter (\<lambda>x. tc_type x = ContainerType ''tools'') (cfg_containers config)
                 = c # cs
             \<and> list_all (\<lambda>p. startswith g p
                    \<longrightarrow> blob_exists env (tc_name c) (py_replace p [] g) Storage_corpus)
                  tools_paths"
    using generator_exe_ok[OF a(2) check_config_ok_generator[OF a(1,3)]] .
qed

text \<open>
  A task type with the feature \<open>generator_exe\<close> and exactly one tools container,
  and a configuration with the tools container \<open>t\<close>: without a \<open>generator_exe\<close>
  the block raises its error; \<open>{tools_dir}/gen.exe\<close> passes, the blob \<open>gen.exe\<close>
  being there; \<open>{tools_dir}/nogen.exe\<close> is logged and rejected. \<open>check_config\<close>
  rejects the configuration without \<open>generator_exe\<close> with a \<open>TaskConfigError\<close>,
  and so it does when the tools container is not submitted either.
\<close>

theorem check_config_generator_exe_outcomes_witness:
  "check_config_generator_exe
     (ex_env (ex_definition [generator_exe]
        [\<lparr>cd_type = ContainerType ''tools'', cd_compare = Equal, cd_value = 1,
          cd_permissions = [Read, ListP]\<rparr>]))
     (ex_config [\<lparr>tc_type = ContainerType ''tools'', tc_name = ''t''\<rparr>]
        (task_details (TaskType ''example'')))
     (ex_definition [generator_exe]
        [\<lparr>cd_type = ContainerType ''tools'', cd_compare = Equal, cd_value = 1,
          cd_permissions = [Read, ListP]\<rparr>])
     = ([], Inl (TaskConfigError GeneratorExeNotDefined))
   \<and> check_config_generator_exe
     (ex_env (ex_definition [generator_exe]
        [\<lparr>cd_type = ContainerType ''tools'', cd_compare = Equal, cd_value = 1,
          cd_permissions = [Read, ListP]\<rparr>]))
     (ex_config [\<lparr>tc_type = ContainerType ''tools'', tc_name = ''t''\<rparr>]
        ((task_details (TaskType ''example''))
           \<lparr>task_generator_exe := Some ''{tools_dir}/gen.exe''\<rparr>))
     (ex_definition [generator_exe]
        [\<lparr>cd_type = ContainerType ''tools'', cd_compare = Equal, cd_value = 1,
          cd_permissions = [Read, ListP]\<rparr>])
     = ([], Inr ())
   \<and> check_config_generator_exe
     (ex_env (ex_definition [generator_exe]
        [\<lparr>cd_type = ContainerType ''tools'', cd_compare = Equal, cd_value = 1,
          cd_permissions = [Read, ListP]\<rparr>]))
     (ex_config [\<lparr>tc_type = ContainerType ''tools'', tc_name = ''t''\<rparr>]
        ((task_details (TaskType ''example''))
           \<lparr>task_generator_exe := Some ''{tools_dir}/nogen.exe''\<rparr>))
     (ex_definition [generator_exe]
        [\<lparr>cd_type = ContainerType ''tools'', cd_compare = Equal, cd_value = 1,
          cd_permissions = [Read, ListP]\<rparr>])
     = ([LogError (GeneratorExeMissing ''{tools_dir}/nogen.exe'' ''t'')],
        Inl (TaskConfigError (GeneratorExeMissing ''{tools_dir}/nogen.exe'' ''t'')))
   \<and> (\<exists>m. snd (check_config
     (ex_env (ex_definition [generator_exe]
        [\<lparr>cd_type = ContainerType ''tools'', cd_compare = Equal, cd_value = 1,
          cd_permissions = [Read, ListP]\<rparr>]))
     (ex_config [\<lparr>tc_type = ContainerType ''tools'', tc_name = ''t''\<rparr>]
        (task_details (TaskType ''example''))))
     = Inl (TaskConfigError m))
   \<and> (\<exists>m. snd (check_config
     (ex_env (ex_definition [generator_exe]
        [\<lparr>cd_type = ContainerType ''tools'', cd_compare = Equal, cd_value = 1,
          cd_permissions = [Read, ListP]\<rparr>]))
     (ex_config [] (task_details (TaskType ''example''))))
     = Inl (TaskConfigError m))"
proof -
  define defn where "defn = ex_definition [generator_exe]
        [\<lparr>cd_type = ContainerType ''tools'', cd_compare = Equal, cd_value = 1,
          cd_permissions = [Read, ListP]\<rparr>]"
  define cs where "cs = [\<lparr>tc_type = ContainerType ''tools'', tc_name = ''t''\<rparr>]"
  define t where "t = task_details (TaskType ''example'')"
  have f: "generator_exe \<in> set (td_features defn)"
    by (simp add: defn_def ex_definition_def)
  have r1: "py_replace ''{tools_dir}/'' [] ''{tools_dir}/gen.exe'' = ''gen.exe''"
    using check_config_generator_exe_outcomes[where gen = "''{tools_dir}/gen.exe''"
        and p = "''{tools_dir}/''"]
    by (simp add: tools_paths_def startswith_def)
  have r2: "py_replace ''{tools_dir}/'' [] ''{tools_dir}/nogen.exe'' = ''nogen.exe''"
    using check_config_generator_exe_outcomes[where gen = "''{tools_dir}/nogen.exe''"
        and p = "''{tools_dir}/''"]
    by (simp add: tools_paths_def startswith_def)
  have unset: "check_config_generator_exe (ex_env defn) (ex_config cs t) defn
      = ([], Inl (TaskConfigError GeneratorExeNotDefined))"
    using check_config_generator_exe_outcomes[where defn = defn
        and config = "ex_config cs t" and env = "ex_env defn"
        and container = "\<lparr>tc_type = ContainerType ''tools'', tc_name = ''t''\<rparr>"
        and others = "[]"] f
    by (simp add: ex_config_def cs_def t_def task_details_def py_not_str_def)
  have good: "check_config_generator_exe (ex_env defn)
      (ex_config cs (t\<lparr>task_generator_exe := Some ''{tools_dir}/gen.exe''\<rparr>)) defn
      = ([], Inr ())"
    using check_config_generator_exe_outcomes[where defn = defn
        and config = "ex_config cs (t\<lparr>task_generator_exe := Some ''{tools_dir}/gen.exe''\<rparr>)"
        and env = "ex_env defn"
        and container = "\<lparr>tc_type = ContainerType ''tools'', tc_name = ''t''\<rparr>"
        and others = "[]" and gen = "''{tools_dir}/gen.exe''"] f
    by (simp add: ex_config_def cs_def tools_paths_def startswith_def r1 ex_env_def)
  have bad: "check_config_generator_exe (ex_env defn)
      (ex_config cs (t\<lparr>task_generator_exe := Some ''{tools_dir}/nogen.exe''\<rparr>)) defn
      = ([LogError (GeneratorExeMissing ''{tools_dir}/nogen.exe'' ''t'')],
         Inl (TaskConfigError (GeneratorExeMissing ''{tools_dir}/nogen.exe'' ''t'')))"
    using check_config_generator_exe_outcomes[where defn = defn
        and config = "ex_config cs (t\<lparr>task_generator_exe := Some ''{tools_dir}/nogen.exe''\<rparr>)"
        and env = "ex_env defn"
        and container = "\<lparr>tc_type = ContainerType ''tools'', tc_name = ''t''\<rparr>"
        and others = "[]" and gen = "''{tools_dir}/nogen.exe''"] f
    by (simp add: ex_config_def cs_def tools_paths_def startswith_def r2 ex_env_def)
  have reg: "TASK_DEFINITIONS (ex_env defn) (task_type (cfg_task (ex_config cs' t)))
      = Some defn" for cs'
    by (simp add: ex_env_def ex_config_def t_def task_details_def)
  have req: "\<exists>cd \<in> set (td_containers defn). cd_type cd = ContainerType ''tools''
      \<and> \<not> check_val (cd_compare cd) (cd_value cd) 0"
    by (simp add: defn_def ex_definition_def)
  have none: "task_generator_exe (cfg_task (ex_config cs' t)) = None"
    "task_target_exe (cfg_task (ex_config cs' t)) = None" for cs'
    by (simp_all add: ex_config_def t_def task_details_def)
  have rejected: "\<exists>m. snd (check_config (ex_env defn) (ex_config cs t))
      = Inl (TaskConfigError m)"
    using check_config_generator_exe_outcomes[where defn = defn
        and config = "ex_config cs t" and env = "ex_env defn",
        THEN conjunct2, THEN conjunct1] reg[of cs] f req none[of cs]
    by (simp add: py_not_str_def)
  have required: "\<exists>m. snd (check_config (ex_env defn) (ex_config [] t))
      = Inl (TaskConfigError m)"
    using check_config_generator_exe_outcomes[where defn = defn
        and config = "ex_config [] t" and env = "ex_env defn",
        THEN conjunct2, THEN conjunct1] reg[of "[]"] f req none[of "[]"]
    by (simp add: py_not_str_def)
  from unset good bad rejected required show ?thesis
    unfolding defn_def cs_def t_def by (intro conjI)
qed

section \<open>Network rules\<close>

lemma NsgRule_init_cases:
  "NsgRule_init lib v =
     (case v of
        JStr s \<Rightarrow>
          if py_strip s = [] then Inl InvalidRule
          else Inr \<lparr>rule = s,
                    is_tag = (s \<noteq> ''*'' \<and> \<not> ip_address_parses lib s
                              \<and> \<not> ip_network_parses lib s)\<rparr>
      | _ \<Rightarrow> Inl InvalidRule)"
  by (cases v) (auto simp: NsgRule_init_def check_rule_def)

lemma parse_rules_loop_find:
  "parse_rules_loop lib wrap rs acc =
     (case find (\<lambda>r. isl (NsgRule_init lib r)) rs of
        Some r \<Rightarrow> Inl (wrap r)
      | None \<Rightarrow> Inr (acc @ map (\<lambda>r. projr (NsgRule_init lib r)) rs))"
  by (induction rs arbitrary: acc) (auto split: sum.splits option.splits)

lemma parse_rules_wildcard:
  "JStr ''*'' \<in> set (allowed_ips c) \<Longrightarrow>
   parse_rules lib c = Inr [\<lparr>rule = ''*'', is_tag = False\<rparr>]"
  by (simp add: parse_rules_def NsgRule_init_cases py_strip_def py_isspace_def)

lemma parse_rules_classify:
  assumes "JStr ''*'' \<notin> set (allowed_ips c)"
    and "\<not> (allowed_ips c = [] \<and> allowed_service_tags c = [])"
  shows "parse_rules lib c =
     (case find (\<lambda>r. isl (NsgRule_init lib r)) (allowed_ips c) of
        Some r \<Rightarrow> Inl (InvalidIps r)
      | None \<Rightarrow>
          (case find (\<lambda>r. isl (NsgRule_init lib r)) (allowed_service_tags c) of
             Some r \<Rightarrow> Inl (InvalidTags r)
           | None \<Rightarrow>
               Inr (map (\<lambda>r. projr (NsgRule_init lib r))
                      (allowed_ips c @ allowed_service_tags c))))"
  using assms
  by (auto simp: parse_rules_def parse_rules_loop_find split: option.splits)

text \<open>
  Claim C4. With \<open>*\<close> among the allowed addresses, \<open>parse_rules\<close> returns the one
  wildcard rule, whatever else the two lists hold. Otherwise, with both lists empty it
  returns no rule. Otherwise it classifies the entries of the addresses and then of
  the tags, in order: the first entry of the addresses that fails is reported as an
  invalid address, else the first entry of the tags that fails as an invalid tag, else
  the result is the rule of every entry. \<open>NsgRule\<close> fails on a string that is empty
  or white space only (and on a value that is not a string); on any other string it
  keeps the string, as a tag exactly when the string is not \<open>*\<close> and parses neither
  as an address nor as a network.
\<close>

theorem parse_rules_outcomes:
  "(JStr ''*'' \<in> set (allowed_ips c)
      \<longrightarrow> parse_rules lib c = Inr [\<lparr>rule = ''*'', is_tag = False\<rparr>])
   \<and> (JStr ''*'' \<notin> set (allowed_ips c) \<and> allowed_ips c = []
        \<and> allowed_service_tags c = []
      \<longrightarrow> parse_rules lib c = Inr [])
   \<and> (JStr ''*'' \<notin> set (allowed_ips c)
        \<and> \<not> (allowed_ips c = [] \<and> allowed_service_tags c = [])
      \<longrightarrow> parse_rules lib c =
            (case find (\<lambda>r. isl (NsgRule_init lib r)) (allowed_ips c) of
               Some r \<Rightarrow> Inl (InvalidIps r)
             | None \<Rightarrow>
                 (case find (\<lambda>r. isl (NsgRule_init lib r)) (allowed_service_tags c) of
                    Some r \<Rightarrow> Inl (InvalidTags r)
                  | None \<Rightarrow>
                      Inr (map (\<lambda>r. projr (NsgRule_init lib r))
                             (allowed_ips c @ allowed_service_tags c)))))
   \<and> NsgRule_init lib v =
       (case v of
          JStr s \<Rightarrow>
            if py_strip s = [] then Inl InvalidRule
            else Inr \<lparr>rule = s,
                      is_tag = (s \<noteq> ''*'' \<and> \<not> ip_address_parses lib s
                                \<and> \<not> ip_network_parses lib s)\<rparr>
        | _ \<Rightarrow> Inl InvalidRule)
   \<and> (ip_network_parses lib ''10.0.0.0/24''
        \<and> \<not> ip_address_parses lib ''Internet'' \<and> \<not> ip_network_parses lib ''Internet''
        \<and> allowed_ips c = [JStr ''10.0.0.0/24'']
        \<and> allowed_service_tags c = [JStr ''Internet'']
      \<longrightarrow> parse_rules lib c =
            Inr [\<lparr>rule = ''10.0.0.0/24'', is_tag = False\<rparr>,
                 \<lparr>rule = ''Internet'', is_tag = True\<rparr>])"
proof (intro conjI impI; (elim conjE)?)
  assume "JStr ''*'' \<in> set (allowed_ips c)"
  then show "parse_rules lib c = Inr [\<lparr>rule = ''*'', is_tag = False\<rparr>]"
    by (rule parse_rules_wildcard)
next
  assume "JStr ''*'' \<notin> set (allowed_ips c)" "allowed_ips c = []"
    "allowed_service_tags c = []"
  then show "parse_rules lib c = Inr []"
    by (simp add: parse_rules_def)
next
  assume "JStr ''*'' \<notin> set (allowed_ips c)"
    "\<not> (allowed_ips c = [] \<and> allowed_service_tags c = [])"
  then show "parse_rules lib c =
            (case find (\<lambda>r. isl (NsgRule_init lib r)) (allowed_ips c) of
               Some r \<Rightarrow> Inl (InvalidIps r)
             | None \<Rightarrow>
                 (case find (\<lambda>r. isl (NsgRule_init lib r)) (allowed_service_tags c) of
                    Some r \<Rightarrow> Inl (InvalidTags r)
                  | None \<Rightarrow>
                      Inr (map (\<lambda>r. projr (NsgRule_init lib r))
                             (allowed_ips c @ allowed_service_tags c))))"
    by (rule parse_rules_classify)
next
  show "NsgRule_init lib v =
       (case v of
          JStr s \<Rightarrow>
            if py_strip s = [] then Inl InvalidRule
            else Inr \<lparr>rule = s,
                      is_tag = (s \<noteq> ''*'' \<and> \<not> ip_address_parses lib s
                                \<and> \<not> ip_network_parses lib s)\<rparr>
        | _ \<Rightarrow> Inl InvalidRule)"
    by (rule NsgRule_init_cases)
next
  assume a: "ip_network_parses lib ''10.0.0.0/24''"
    "\<not> ip_address_parses lib ''Internet''" "\<not> ip_network_parses lib ''Internet''"
    "allowed_ips c = [JStr ''10.0.0.0/24'']"
    "allowed_service_tags c = [JStr ''Internet'']"
  have "JStr ''*'' \<notin> set (allowed_ips c)"
    "\<not> (allowed_ips c = [] \<and> allowed_service_tags c = [])"
    using a(4) by simp_all
  from parse_rules_classify[OF this, of lib]
  show "parse_rules lib c =
            Inr [\<lparr>rule = ''10.0.0.0/24'', is_tag = False\<rparr>,
                 \<lparr>rule = ''Internet'', is_tag = True\<rparr>]"
    using a by (simp add: NsgRule_init_cases py_strip_def py_isspace_def)
qed

text \<open>
  With the stand-in parsers: the example of the specification; a list of addresses
  with \<open>*\<close> in it, next to entries that would fail; a blank address; an empty tag.
\<close>

theorem parse_rules_outcomes_witness:
  "parse_rules ex_pylib
     \<lparr>cli_client_id = ''id'', tenant_id = ''t'', tenant_domain = ''d'',
      multi_tenant_domain = '''', allowed_ips = [JStr ''10.0.0.0/24''],
      allowed_service_tags = [JStr ''Internet'']\<rparr>
     = Inr [\<lparr>rule = ''10.0.0.0/24'', is_tag = False\<rparr>,
            \<lparr>rule = ''Internet'', is_tag = True\<rparr>]
   \<and> parse_rules ex_pylib
     \<lparr>cli_client_id = ''id'', tenant_id = ''t'', tenant_domain = ''d'',
      multi_tenant_domain = '''', allowed_ips = [JStr '' '', JStr ''*''],
      allowed_service_tags = [JNum 3]\<rparr>
     = Inr [\<lparr>rule = ''*'', is_tag = False\<rparr>]
   \<and> parse_rules ex_pylib
     \<lparr>cli_client_id = ''id'', tenant_id = ''t'', tenant_domain = ''d'',
      multi_tenant_domain = '''', allowed_ips = [JStr ''10.0.0.1'', JStr '' ''],
      allowed_service_tags = [JStr '''']\<rparr>
     = Inl (InvalidIps (JStr '' ''))
   \<and> parse_rules ex_pylib
     \<lparr>cli_client_id = ''id'', tenant_id = ''t'', tenant_domain = ''d'',
      multi_tenant_domain = '''', allowed_ips = [JStr ''10.0.0.1''],
      allowed_service_tags = [JStr '''']\<rparr>
     = Inl (InvalidTags (JStr ''''))"
proof (intro conjI)
  show "parse_rules ex_pylib
     \<lparr>cli_client_id = ''id'', tenant_id = ''t'', tenant_domain = ''d'',
      multi_tenant_domain = '''', allowed_ips = [JStr ''10.0.0.0/24''],
      allowed_service_tags = [JStr ''Internet'']\<rparr>
     = Inr [\<lparr>rule = ''10.0.0.0/24'', is_tag = False\<rparr>,
            \<lparr>rule = ''Internet'', is_tag = True\<rparr>]"
    using parse_rules_outcomes[where lib = ex_pylib and c =
        "\<lparr>cli_client_id = ''id'', tenant_id = ''t'', tenant_domain = ''d'',
          multi_tenant_domain = '''', allowed_ips = [JStr ''10.0.0.0/24''],
          allowed_service_tags = [JStr ''Internet'']\<rparr>" and v = JNull,
        THEN conjunct2, THEN conjunct2, THEN conjunct2, THEN conjunct2]
    by (simp add: ex_pylib_def)
  show "parse_rules ex_pylib
     \<lparr>cli_client_id = ''id'', tenant_id = ''t'', tenant_domain = ''d'',
      multi_tenant_domain = '''', allowed_ips = [JStr '' '', JStr ''*''],
      allowed_service_tags = [JNum 3]\<rparr>
     = Inr [\<lparr>rule = ''*'', is_tag = False\<rparr>]"
    using parse_rules_outcomes[where lib = ex_pylib and c =
        "\<lparr>cli_client_id = ''id'', tenant_id = ''t'', tenant_domain = ''d'',
          multi_tenant_domain = '''', allowed_ips = [JStr '' '', JStr ''*''],
          allowed_service_tags = [JNum 3]\<rparr>" and v = JNull,
        THEN conjunct1]
    by simp
  show "parse_rules ex_pylib
     \<lparr>cli_client_id = ''id'', tenant_id = ''t'', tenant_domain = ''d'',
      multi_tenant_domain = '''', allowed_ips = [JStr ''10.0.0.1'', JStr '' ''],
      allowed_service_tags = [JStr '''']\<rparr>
     = Inl (InvalidIps (JStr '' ''))"
    using parse_rules_outcomes[where lib = ex_pylib and c =
        "\<lparr>cli_client_id = ''id'', tenant_id = ''t'', tenant_domain = ''d'',
          multi_tenant_domain = '''', allowed_ips = [JStr ''10.0.0.1'', JStr '' ''],
          allowed_service_tags = [JStr '''']\<rparr>" and v = JNull,
        THEN conjunct2, THEN conjunct2, THEN conjunct1]
    by (simp add: NsgRule_init_cases py_strip_def py_isspace_def)
  show "parse_rules ex_pylib
     \<lparr>cli_client_id = ''id'', tenant_id = ''t'', tenant_domain = ''d'',
      multi_tenant_domain = '''', allowed_ips = [JStr ''10.0.0.1''],
      allowed_service_tags = [JStr '''']\<rparr>
     = Inl (InvalidTags (JStr ''''))"
    using parse_rules_outcomes[where lib = ex_pylib and c =
        "\<lparr>cli_client_id = ''id'', tenant_id = ''t'', tenant_domain = ''d'',
          multi_tenant_domain = '''', allowed_ips = [JStr ''10.0.0.1''],
          allowed_service_tags = [JStr '''']\<rparr>" and v = JNull,
        THEN conjunct2, THEN conjunct2, THEN conjunct1]
    by (simp add: NsgRule_init_cases py_strip_def py_isspace_def)
qed

section \<open>The instance configuration\<close>

text \<open>
  What \<open>parse_nsg_json\<close> accepts. The element test on the tags is guarded by the
  length of the addresses, so with no address the tags may hold anything.
\<close>

lemma parse_nsg_json_accepts:
  "parse_nsg_json config = Inr (ips, tags) \<longleftrightarrow>
     (\<exists>items proxy_config.
        config = JDict items \<and> items \<noteq> []
        \<and> map_of items ''proxy_nsg_config'' = Some (JDict proxy_config)
        \<and> proxy_config \<noteq> []
        \<and> map_of proxy_config ''allowed_ips'' = Some (JList ips)
        \<and> map_of proxy_config ''allowed_service_tags'' = Some (JList tags)
        \<and> (ips = [] \<or> (list_all isinstance_str ips \<and> list_all isinstance_str tags)))"
  unfolding parse_nsg_json_def
  by (auto split: json.splits option.splits if_splits)

text \<open>The rejections and the acceptance the specification lists for \<open>Config\<close>.\<close>

lemma Config_init_rejects:
  "Config_init lib (JDict []) = Inl EmptyConfiguration"
  "Config_init lib (JList xs) = Inl NotADictionary"
  "Config_init lib (JStr s) = Inl NotADictionary"
  "Config_init lib (JDict [(''proxy_nsg_config'', JDict [])]) = Inl EmptyInnerConfiguration"
  "Config_init lib (JDict [(''proxy_nsg_config'', JList [])]) = Inl InnerNotADictionary"
  "Config_init lib (JDict [(''cli_client_id'', JStr s)]) = Inl NoProxyNsgConfig"
  by (simp_all add: Config_init_def parse_nsg_json_def)

lemma Config_init_client_id:
  assumes "parse_nsg_json (JDict items) = Inr (ips, tags)"
  shows "map_of items ''cli_client_id'' = None
      \<Longrightarrow> Config_init lib (JDict items) = Inl NoCliClientId"
    and "map_of items ''cli_client_id'' = Some (JStr [])
      \<Longrightarrow> Config_init lib (JDict items) = Inl ClientIdNotAString"
    and "map_of items ''cli_client_id'' = Some (JStr s) \<Longrightarrow> s \<noteq> [] \<Longrightarrow> \<not> uuid_parses lib s
      \<Longrightarrow> Config_init lib (JDict items) = Inl ClientIdNotAUuid"
  using assms by (simp_all add: Config_init_def parse_endpoint_json_def)

text \<open>
  Claim C5. The specification has the construction fail whenever the list of service
  tags is non-empty and holds an element that is not a string, whether or not the
  list of addresses is empty. This configuration has no address and the number 1 as
  its one tag, and is in order otherwise (its \<open>multi_tenant_domain\<close> is empty, which
  is allowed); the construction succeeds and the object holds the number among its
  tags.
\<close>

theorem Config_init_accepts_non_string_tag:
  "uuid_parses lib ''72f988bf-86f1-41af-91ab-2d7cd011db47'' \<Longrightarrow>
   Config_init lib
     (JDict [(''proxy_nsg_config'',
                JDict [(''allowed_ips'', JList []),
                       (''allowed_service_tags'', JList [JNum 1])]),
             (''cli_client_id'', JStr ''72f988bf-86f1-41af-91ab-2d7cd011db47''),
             (''tenant_id'', JStr ''tenant''),
             (''tenant_domain'', JStr ''example.com''),
             (''multi_tenant_domain'', JStr '''')])
   = Inr \<lparr>cli_client_id = ''72f988bf-86f1-41af-91ab-2d7cd011db47'',
          tenant_id = ''tenant'', tenant_domain = ''example.com'',
          multi_tenant_domain = '''', allowed_ips = [],
          allowed_service_tags = [JNum 1]\<rparr>"
  by (simp add: Config_init_def parse_nsg_json_def parse_endpoint_json_def)

theorem Config_init_accepts_non_string_tag_witness:
  "allowed_service_tags (projr (Config_init ex_pylib
     (JDict [(''proxy_nsg_config'',
                JDict [(''allowed_ips'', JList []),
                       (''allowed_service_tags'', JList [JNum 1])]),
             (''cli_client_id'', JStr ''72f988bf-86f1-41af-91ab-2d7cd011db47''),
             (''tenant_id'', JStr ''tenant''),
             (''tenant_domain'', JStr ''example.com''),
             (''multi_tenant_domain'', JStr '''')]))) = [JNum 1]
   \<and> \<not> list_all isinstance_str [JNum 1]"
  using Config_init_accepts_non_string_tag[of ex_pylib]
  by (simp add: ex_pylib_def isinstance_str_def)

section \<open>The unit configuration: containers\<close>

lemma enumerate_filter_snd:
  "map snd (filter (\<lambda>(i, c). P c) (enumerate n xs)) = filter P xs"
  by (induction xs arbitrary: n) auto

lemma enumerate_filter_fst:
  "map fst (filter (\<lambda>(i, c). P c) (enumerate n xs))
     = map (\<lambda>i. i + n) (filter (\<lambda>i. P (xs ! i)) [0..<length xs])"
proof (induction xs arbitrary: n)
  case Nil
  then show ?case by simp
next
  case (Cons x xs)
  have u: "[0..<length (x # xs)] = 0 # map Suc [0..<length xs]"
    by (simp add: upt_conv_Cons map_Suc_upt del: upt_Suc)
  show ?case
    unfolding u using Cons.IH[of "Suc n"]
    by (simp add: filter_map comp_def)
qed

lemma entries_urls:
  "map ce_url (build_task_config_entries env cd submitted) =
     map (\<lambda>c. get_container_sas_url env (tc_name c) Storage_corpus
                (Read \<in> set (cd_permissions cd)) (Write \<in> set (cd_permissions cd))
                (Delete \<in> set (cd_permissions cd)) (ListP \<in> set (cd_permissions cd)))
       (filter (\<lambda>c. tc_type c = cd_type cd) submitted)"
proof -
  have "map ce_url (build_task_config_entries env cd submitted) =
     map (\<lambda>c. get_container_sas_url env (tc_name c) Storage_corpus
                (Read \<in> set (cd_permissions cd)) (Write \<in> set (cd_permissions cd))
                (Delete \<in> set (cd_permissions cd)) (ListP \<in> set (cd_permissions cd)))
       (map snd (filter (\<lambda>(i, c). tc_type c = cd_type cd) (enumerate 0 submitted)))"
    by (simp add: build_task_config_entries_def case_prod_beta comp_def)
  then show ?thesis by (simp only: enumerate_filter_snd)
qed

lemma entries_paths:
  "map ce_path (build_task_config_entries env cd submitted) =
     map (\<lambda>i. ''task_'' @ ct_name (cd_type cd) @ ''_'' @ py_str_nat i)
       (filter (\<lambda>i. tc_type (submitted ! i) = cd_type cd) [0..<length submitted])"
proof -
  have "map ce_path (build_task_config_entries env cd submitted) =
     map (\<lambda>i. ''task_'' @ ct_name (cd_type cd) @ ''_'' @ py_str_nat i)
       (map fst (filter (\<lambda>(i, c). tc_type c = cd_type cd) (enumerate 0 submitted)))"
    by (simp add: build_task_config_entries_def case_prod_beta comp_def)
  then show ?thesis by (simp only: enumerate_filter_fst) simp
qed

lemma entries_length:
  "length (build_task_config_entries env cd submitted)
     = length (filter (\<lambda>c. tc_type c = cd_type cd) submitted)"
  using arg_cong[OF entries_urls[of env cd submitted], of length] by simp

lemma entries_empty:
  "(build_task_config_entries env cd submitted = [])
     = (filter (\<lambda>c. tc_type c = cd_type cd) submitted = [])"
  using entries_length[of env cd submitted] by (metis length_0_conv)

text \<open>
  The attribute under a name, after the loop over the definition's containers: the
  last container definition of that name that is not the setup role and has a
  submitted container decides it; with no such definition the attribute is as before
  the loop.
\<close>

lemma containers_loop:
  "build_task_config_containers env defs submitted config name =
     (case find (\<lambda>cd. ct_name (cd_type cd) = name \<and> cd_type cd \<noteq> ContainerType ''setup''
                       \<and> build_task_config_entries env cd submitted \<noteq> []) (rev defs) of
        None \<Rightarrow> config name
      | Some cd \<Rightarrow>
          Some (if cd_compare cd \<in> set [Equal, AtMost] \<and> cd_value cd = 1
                then AEntry (hd (build_task_config_entries env cd submitted))
                else AEntries (build_task_config_entries env cd submitted)))"
proof (induction defs arbitrary: config)
  case Nil
  then show ?case by simp
next
  case (Cons cd defs)
  show ?case
    by (cases "find (\<lambda>cd. ct_name (cd_type cd) = name
                 \<and> cd_type cd \<noteq> ContainerType ''setup''
                 \<and> build_task_config_entries env cd submitted \<noteq> []) (rev defs)")
      (simp_all add: Cons.IH find_snoc Let_def)
qed

lemma ct_name_inj: "(ct_name a = ct_name b) = (a = b)"
  by (cases a; cases b) simp

lemma find_role:
  "find (\<lambda>cd. ct_name (cd_type cd) = ct_name k \<and> cd_type cd \<noteq> ContainerType ''setup''
               \<and> build_task_config_entries env cd submitted \<noteq> []) defs =
     (if k = ContainerType ''setup'' \<or> filter (\<lambda>c. tc_type c = k) submitted = [] then None
      else find (\<lambda>cd. cd_type cd = k) defs)"
proof -
  have "(\<lambda>cd. ct_name (cd_type cd) = ct_name k \<and> cd_type cd \<noteq> ContainerType ''setup''
               \<and> build_task_config_entries env cd submitted \<noteq> [])
      = (\<lambda>cd. cd_type cd = k \<and> k \<noteq> ContainerType ''setup''
               \<and> filter (\<lambda>c. tc_type c = k) submitted \<noteq> [])"
    by (auto simp: fun_eq_iff entries_empty ct_name_inj)
  then show ?thesis by (induction defs) auto
qed

text \<open>
  The loop, for a role \<open>k\<close>: the definition's last container definition of the role
  decides the attribute named after it, and the loop leaves the attribute as it was
  when the definition has none, when the role is setup, or when no submitted
  container has the role.
\<close>

lemma containers_role:
  "build_task_config_containers env defs submitted config (ct_name k) =
     (case find (\<lambda>cd. cd_type cd = k) (rev defs) of
        None \<Rightarrow> config (ct_name k)
      | Some cd \<Rightarrow>
          if k = ContainerType ''setup'' \<or> filter (\<lambda>c. tc_type c = k) submitted = []
          then config (ct_name k)
          else if cd_compare cd \<in> set [Equal, AtMost] \<and> cd_value cd = 1
          then Some (AEntry (hd (build_task_config_entries env cd submitted)))
          else Some (AEntries (build_task_config_entries env cd submitted)))"
  unfolding containers_loop find_role by (simp split: option.splits)

text \<open>
  The statements after the loop: an attribute that is none of theirs is as the loop
  left it. The statements before the loop: an attribute that is none of theirs is
  unset.
\<close>

lemma assign_if_apply:
  "assign_if c name v config m = (if m = name \<and> c then v else config m)"
  by (simp add: assign_if_def)

lemma features_other:
  "name \<notin> set feature_fields \<Longrightarrow> build_task_config_features defn t config name = config name"
  by (simp add: build_task_config_features_def feature_fields_def Let_def assign_if_apply)

lemma base_other:
  "name \<notin> set base_fields \<Longrightarrow> build_task_config_base env job task defn name = None"
  by (simp add: build_task_config_base_def base_fields_def Let_def)

lemma base_logs:
  "build_task_config_base env job task defn ''logs'' =
     (if py_not_str (jc_logs (job_config job)) then None
      else Some (AStr (add_container_sas_url env (the (jc_logs (job_config job))))))"
  by (simp add: build_task_config_base_def Let_def)

lemma build_task_config_Inr:
  assumes "TASK_DEFINITIONS env (task_type (cfg_task (task_config task))) = Some defn"
    and "snd (build_task_config env job task) = Inr u"
  shows "u = build_task_config_features defn (cfg_task (task_config task))
               (build_task_config_containers env (td_containers defn)
                  (cfg_containers (task_config task))
                  (build_task_config_base env job task defn))"
proof -
  have "projr (snd (build_task_config env job task)) =
      build_task_config_features defn (cfg_task (task_config task))
               (build_task_config_containers env (td_containers defn)
                  (cfg_containers (task_config task))
                  (build_task_config_base env job task defn))"
    by (simp add: build_task_config_def assms(1) Let_def)
  then show ?thesis by (simp add: assms(2))
qed

text \<open>
  Claim C7. For a role \<open>k\<close> whose name is not the name of an attribute that a
  statement after the loop assigns, the attribute named after the role is decided by
  the definition's (last) container definition of that role. The loop skips the role
  when the definition has no container definition of it, when the role is setup, or
  when no submitted container has the role: the attribute is then as the statements
  before the loop left it, which is unset unless the name is one of theirs (such as
  \<open>logs\<close>). Otherwise the attribute is the first entry when the comparator is
  \<open>Equal\<close> or \<open>AtMost\<close> with value 1, and the list of the entries otherwise.
  There is one entry for each submitted container of the role, in order: its URL is
  issued for that container with the read, write, delete and list flags set as the
  definition's permissions hold them, and its path is \<open>task_\<close>, the role's name,
  \<open>_\<close> and the index of the container among all submitted containers.
\<close>

theorem build_task_config_containers_projection:
  assumes "TASK_DEFINITIONS env (task_type (cfg_task (task_config task))) = Some defn"
    and "snd (build_task_config env job task) = Inr u"
    and "ct_name k \<notin> set feature_fields"
  shows "(ct_name k \<notin> set base_fields \<longrightarrow>
       u (ct_name k) =
         (case find (\<lambda>cd. cd_type cd = k) (rev (td_containers defn)) of
            None \<Rightarrow> None
          | Some cd \<Rightarrow>
              if k = ContainerType ''setup''
                 \<or> filter (\<lambda>c. tc_type c = k) (cfg_containers (task_config task)) = []
              then None
              else if cd_compare cd \<in> set [Equal, AtMost] \<and> cd_value cd = 1
              then Some (AEntry (hd (build_task_config_entries env cd
                                       (cfg_containers (task_config task)))))
              else Some (AEntries (build_task_config_entries env cd
                                     (cfg_containers (task_config task))))))
     \<and> u (ct_name k) =
         (case find (\<lambda>cd. cd_type cd = k) (rev (td_containers defn)) of
            None \<Rightarrow> build_task_config_base env job task defn (ct_name k)
          | Some cd \<Rightarrow>
              if k = ContainerType ''setup''
                 \<or> filter (\<lambda>c. tc_type c = k) (cfg_containers (task_config task)) = []
              then build_task_config_base env job task defn (ct_name k)
              else if cd_compare cd \<in> set [Equal, AtMost] \<and> cd_value cd = 1
              then Some (AEntry (hd (build_task_config_entries env cd
                                       (cfg_containers (task_config task)))))
              else Some (AEntries (build_task_config_entries env cd
                                     (cfg_containers (task_config task)))))
     \<and> build_task_config_base env job task defn ''logs'' =
         (if py_not_str (jc_logs (job_config job)) then None
          else Some (AStr (add_container_sas_url env (the (jc_logs (job_config job))))))
     \<and> length (build_task_config_entries env cd (cfg_containers (task_config task)))
         = length (filter (\<lambda>c. tc_type c = cd_type cd) (cfg_containers (task_config task)))
     \<and> map ce_url (build_task_config_entries env cd (cfg_containers (task_config task))) =
         map (\<lambda>c. get_container_sas_url env (tc_name c) Storage_corpus
                (Read \<in> set (cd_permissions cd)) (Write \<in> set (cd_permissions cd))
                (Delete \<in> set (cd_permissions cd)) (ListP \<in> set (cd_permissions cd)))
           (filter (\<lambda>c. tc_type c = cd_type cd) (cfg_containers (task_config task)))
     \<and> map ce_path (build_task_config_entries env cd (cfg_containers (task_config task))) =
         map (\<lambda>i. ''task_'' @ ct_name (cd_type cd) @ ''_'' @ py_str_nat i)
           (filter (\<lambda>i. tc_type (cfg_containers (task_config task) ! i) = cd_type cd)
              [0..<length (cfg_containers (task_config task))])"
proof -
  have u: "u (ct_name k) =
      build_task_config_containers env (td_containers defn)
        (cfg_containers (task_config task))
        (build_task_config_base env job task defn) (ct_name k)"
    unfolding build_task_config_Inr[OF assms(1,2)]
    by (rule features_other[OF assms(3)])
  have general: "u (ct_name k) =
         (case find (\<lambda>cd. cd_type cd = k) (rev (td_containers defn)) of
            None \<Rightarrow> build_task_config_base env job task defn (ct_name k)
          | Some cd \<Rightarrow>
              if k = ContainerType ''setup''
                 \<or> filter (\<lambda>c. tc_type c = k) (cfg_containers (task_config task)) = []
              then build_task_config_base env job task defn (ct_name k)
              else if cd_compare cd \<in> set [Equal, AtMost] \<and> cd_value cd = 1
              then Some (AEntry (hd (build_task_config_entries env cd
                                       (cfg_containers (task_config task)))))
              else Some (AEntries (build_task_config_entries env cd
                                     (cfg_containers (task_config task)))))"
    unfolding u by (rule containers_role)
  show ?thesis
  proof (intro conjI impI)
    assume "ct_name k \<notin> set base_fields"
    then have "build_task_config_base env job task defn (ct_name k) = None"
      by (rule base_other)
    with general show "u (ct_name k) =
         (case find (\<lambda>cd. cd_type cd = k) (rev (td_containers defn)) of
            None \<Rightarrow> None
          | Some cd \<Rightarrow>
              if k = ContainerType ''setup''
                 \<or> filter (\<lambda>c. tc_type c = k) (cfg_containers (task_config task)) = []
              then None
              else if cd_compare cd \<in> set [Equal, AtMost] \<and> cd_value cd = 1
              then Some (AEntry (hd (build_task_config_entries env cd
                                       (cfg_containers (task_config task)))))
              else Some (AEntries (build_task_config_entries env cd
                                     (cfg_containers (task_config task)))))"
      by (simp split: option.splits)
  next
    show "u (ct_name k) =
         (case find (\<lambda>cd. cd_type cd = k) (rev (td_containers defn)) of
            None \<Rightarrow> build_task_config_base env job task defn (ct_name k)
          | Some cd \<Rightarrow>
              if k = ContainerType ''setup''
                 \<or> filter (\<lambda>c. tc_type c = k) (cfg_containers (task_config task)) = []
              then build_task_config_base env job task defn (ct_name k)
              else if cd_compare cd \<in> set [Equal, AtMost] \<and> cd_value cd = 1
              then Some (AEntry (hd (build_task_config_entries env cd
                                       (cfg_containers (task_config task)))))
              else Some (AEntries (build_task_config_entries env cd
                                     (cfg_containers (task_config task)))))"
      by (rule general)
  next
    show "build_task_config_base env job task defn ''logs'' =
         (if py_not_str (jc_logs (job_config job)) then None
          else Some (AStr (add_container_sas_url env (the (jc_logs (job_config job))))))"
      by (rule base_logs)
  next
    show "length (build_task_config_entries env cd (cfg_containers (task_config task)))
         = length (filter (\<lambda>c. tc_type c = cd_type cd) (cfg_containers (task_config task)))"
      by (rule entries_length)
  next
    show "map ce_url (build_task_config_entries env cd (cfg_containers (task_config task))) =
         map (\<lambda>c. get_container_sas_url env (tc_name c) Storage_corpus
                (Read \<in> set (cd_permissions cd)) (Write \<in> set (cd_permissions cd))
                (Delete \<in> set (cd_permissions cd)) (ListP \<in> set (cd_permissions cd)))
           (filter (\<lambda>c. tc_type c = cd_type cd) (cfg_containers (task_config task)))"
      by (rule entries_urls)
  next
    show "map ce_path (build_task_config_entries env cd (cfg_containers (task_config task))) =
         map (\<lambda>i. ''task_'' @ ct_name (cd_type cd) @ ''_'' @ py_str_nat i)
           (filter (\<lambda>i. tc_type (cfg_containers (task_config task) ! i) = cd_type cd)
              [0..<length (cfg_containers (task_config task))])"
      by (rule entries_paths)
  qed
qed

text \<open>
  A task type with one setup container, exactly one crashes container (write) and at
  least one inputs container (read and list), a job with the log container \<open>l\<close>,
  and the submission setup, inputs, crashes, inputs: the crashes attribute is the one
  entry of the container at index 2; the inputs attribute is the list of the entries
  of the containers at indices 1 and 3; no attribute is set for the setup role nor
  for the role tools, which the definition does not name; and the attribute \<open>logs\<close>,
  whose name no container definition bears, holds the URL of the job's log container.
\<close>

theorem build_task_config_containers_projection_witness:
  "projr (snd (build_task_config
     (ex_env (ex_definition []
        [\<lparr>cd_type = ContainerType ''setup'', cd_compare = Equal, cd_value = 1,
          cd_permissions = [Read, ListP]\<rparr>,
         \<lparr>cd_type = ContainerType ''crashes'', cd_compare = Equal, cd_value = 1,
          cd_permissions = [Write]\<rparr>,
         \<lparr>cd_type = ContainerType ''inputs'', cd_compare = AtLeast, cd_value = 1,
          cd_permissions = [Read, ListP]\<rparr>]))
     \<lparr>job_id = ''job'', job_config = \<lparr>jc_logs = Some ''l''\<rparr>\<rparr>
     \<lparr>task_id = ''task'', task_config =
        ex_config [\<lparr>tc_type = ContainerType ''setup'', tc_name = ''s''\<rparr>,
                   \<lparr>tc_type = ContainerType ''inputs'', tc_name = ''i1''\<rparr>,
                   \<lparr>tc_type = ContainerType ''crashes'', tc_name = ''c''\<rparr>,
                   \<lparr>tc_type = ContainerType ''inputs'', tc_name = ''i2''\<rparr>]
          (task_details (TaskType ''example''))\<rparr>)) ''crashes''
     = Some (AEntry \<lparr>ce_path = ''task_crashes_2'', ce_url = ''url:c:w''\<rparr>)
   \<and> projr (snd (build_task_config
     (ex_env (ex_definition []
        [\<lparr>cd_type = ContainerType ''setup'', cd_compare = Equal, cd_value = 1,
          cd_permissions = [Read, ListP]\<rparr>,
         \<lparr>cd_type = ContainerType ''crashes'', cd_compare = Equal, cd_value = 1,
          cd_permissions = [Write]\<rparr>,
         \<lparr>cd_type = ContainerType ''inputs'', cd_compare = AtLeast, cd_value = 1,
          cd_permissions = [Read, ListP]\<rparr>]))
     \<lparr>job_id = ''job'', job_config = \<lparr>jc_logs = Some ''l''\<rparr>\<rparr>
     \<lparr>task_id = ''task'', task_config =
        ex_config [\<lparr>tc_type = ContainerType ''setup'', tc_name = ''s''\<rparr>,
                   \<lparr>tc_type = ContainerType ''inputs'', tc_name = ''i1''\<rparr>,
                   \<lparr>tc_type = ContainerType ''crashes'', tc_name = ''c''\<rparr>,
                   \<lparr>tc_type = ContainerType ''inputs'', tc_name = ''i2''\<rparr>]
          (task_details (TaskType ''example''))\<rparr>)) ''inputs''
     = Some (AEntries [\<lparr>ce_path = ''task_inputs_1'', ce_url = ''url:i1:rl''\<rparr>,
                       \<lparr>ce_path = ''task_inputs_3'', ce_url = ''url:i2:rl''\<rparr>])
   \<and> projr (snd (build_task_config
     (ex_env (ex_definition []
        [\<lparr>cd_type = ContainerType ''setup'', cd_compare = Equal, cd_value = 1,
          cd_permissions = [Read, ListP]\<rparr>,
         \<lparr>cd_type = ContainerType ''crashes'', cd_compare = Equal, cd_value = 1,
          cd_permissions = [Write]\<rparr>,
         \<lparr>cd_type = ContainerType ''inputs'', cd_compare = AtLeast, cd_value = 1,
          cd_permissions = [Read, ListP]\<rparr>]))
     \<lparr>job_id = ''job'', job_config = \<lparr>jc_logs = Some ''l''\<rparr>\<rparr>
     \<lparr>task_id = ''task'', task_config =
        ex_config [\<lparr>tc_type = ContainerType ''setup'', tc_name = ''s''\<rparr>,
                   \<lparr>tc_type = ContainerType ''inputs'', tc_name = ''i1''\<rparr>,
                   \<lparr>tc_type = ContainerType ''crashes'', tc_name = ''c''\<rparr>,
                   \<lparr>tc_type = ContainerType ''inputs'', tc_name = ''i2''\<rparr>]
          (task_details (TaskType ''example''))\<rparr>)) ''setup''
     = None
   \<and> projr (snd (build_task_config
     (ex_env (ex_definition []
        [\<lparr>cd_type = ContainerType ''setup'', cd_compare = Equal, cd_value = 1,
          cd_permissions = [Read, ListP]\<rparr>,
         \<lparr>cd_type = ContainerType ''crashes'', cd_compare = Equal, cd_value = 1,
          cd_permissions = [Write]\<rparr>,
         \<lparr>cd_type = ContainerType ''inputs'', cd_compare = AtLeast, cd_value = 1,
          cd_permissions = [Read, ListP]\<rparr>]))
     \<lparr>job_id = ''job'', job_config = \<lparr>jc_logs = Some ''l''\<rparr>\<rparr>
     \<lparr>task_id = ''task'', task_config =
        ex_config [\<lparr>tc_type = ContainerType ''setup'', tc_name = ''s''\<rparr>,
                   \<lparr>tc_type = ContainerType ''inputs'', tc_name = ''i1''\<rparr>,
                   \<lparr>tc_type = ContainerType ''crashes'', tc_name = ''c''\<rparr>,
                   \<lparr>tc_type = ContainerType ''inputs'', tc_name = ''i2''\<rparr>]
          (task_details (TaskType ''example''))\<rparr>)) ''tools''
     = None
   \<and> projr (snd (build_task_config
     (ex_env (ex_definition []
        [\<lparr>cd_type = ContainerType ''setup'', cd_compare = Equal, cd_value = 1,
          cd_permissions = [Read, ListP]\<rparr>,
         \<lparr>cd_type = ContainerType ''crashes'', cd_compare = Equal, cd_value = 1,
          cd_permissions = [Write]\<rparr>,
         \<lparr>cd_type = ContainerType ''inputs'', cd_compare = AtLeast, cd_value = 1,
          cd_permissions = [Read, ListP]\<rparr>]))
     \<lparr>job_id = ''job'', job_config = \<lparr>jc_logs = Some ''l''\<rparr>\<rparr>
     \<lparr>task_id = ''task'', task_config =
        ex_config [\<lparr>tc_type = ContainerType ''setup'', tc_name = ''s''\<rparr>,
                   \<lparr>tc_type = ContainerType ''inputs'', tc_name = ''i1''\<rparr>,
                   \<lparr>tc_type = ContainerType ''crashes'', tc_name = ''c''\<rparr>,
                   \<lparr>tc_type = ContainerType ''inputs'', tc_name = ''i2''\<rparr>]
          (task_details (TaskType ''example''))\<rparr>)) ''logs''
     = Some (AStr ''url:l'')"
proof -
  define defn where "defn = ex_definition []
        [\<lparr>cd_type = ContainerType ''setup'', cd_compare = Equal, cd_value = 1,
          cd_permissions = [Read, ListP]\<rparr>,
         \<lparr>cd_type = ContainerType ''crashes'', cd_compare = Equal, cd_value = 1,
          cd_permissions = [Write]\<rparr>,
         \<lparr>cd_type = ContainerType ''inputs'', cd_compare = AtLeast, cd_value = 1,
          cd_permissions = [Read, ListP]\<rparr>]"
  define cs where "cs = [\<lparr>tc_type = ContainerType ''setup'', tc_name = ''s''\<rparr>,
                   \<lparr>tc_type = ContainerType ''inputs'', tc_name = ''i1''\<rparr>,
                   \<lparr>tc_type = ContainerType ''crashes'', tc_name = ''c''\<rparr>,
                   \<lparr>tc_type = ContainerType ''inputs'', tc_name = ''i2''\<rparr>]"
  define job where "job = \<lparr>job_id = ''job'', job_config = \<lparr>jc_logs = Some ''l''\<rparr>\<rparr>"
  define task where "task = \<lparr>task_id = ''task'', task_config =
        ex_config cs (task_details (TaskType ''example''))\<rparr>"
  define u where "u = projr (snd (build_task_config (ex_env defn) job task))"
  have reg: "TASK_DEFINITIONS (ex_env defn) (task_type (cfg_task (task_config task)))
      = Some defn"
    by (simp add: ex_env_def task_def ex_config_def task_details_def)
  have res: "snd (build_task_config (ex_env defn) job task) = Inr u"
    unfolding u_def by (simp add: build_task_config_def reg Let_def)
  have sub: "cfg_containers (task_config task) = cs"
    by (simp add: task_def ex_config_def)
  have tds: "td_containers defn =
        [\<lparr>cd_type = ContainerType ''setup'', cd_compare = Equal, cd_value = 1,
          cd_permissions = [Read, ListP]\<rparr>,
         \<lparr>cd_type = ContainerType ''crashes'', cd_compare = Equal, cd_value = 1,
          cd_permissions = [Write]\<rparr>,
         \<lparr>cd_type = ContainerType ''inputs'', cd_compare = AtLeast, cd_value = 1,
          cd_permissions = [Read, ListP]\<rparr>]"
    by (simp add: defn_def ex_definition_def)
  have e: "get_container_sas_url (ex_env defn) =
        (\<lambda>name st r w d l.
           ''url:'' @ name @ '':'' @ (if r then ''r'' else []) @ (if w then ''w'' else [])
             @ (if d then ''d'' else []) @ (if l then ''l'' else []))"
    "add_container_sas_url (ex_env defn) = (\<lambda>name. ''url:'' @ name)"
    by (simp_all add: ex_env_def)
  have n: "py_str_nat (Suc 0) = ''1''" "py_str_nat (Suc (Suc 0)) = ''2''"
    "py_str_nat (Suc (Suc (Suc 0))) = ''3''"
    by (simp_all add: py_str_nat.simps)
  have names: "ct_name (ContainerType ''crashes'') \<notin> set feature_fields"
    "ct_name (ContainerType ''inputs'') \<notin> set feature_fields"
    "ct_name (ContainerType ''setup'') \<notin> set feature_fields"
    "ct_name (ContainerType ''tools'') \<notin> set feature_fields"
    "ct_name (ContainerType ''logs'') \<notin> set feature_fields"
    by (simp_all add: feature_fields_def)
  have crashes: "u ''crashes''
     = Some (AEntry \<lparr>ce_path = ''task_crashes_2'', ce_url = ''url:c:w''\<rparr>)"
    using build_task_config_containers_projection[OF reg res names(1), THEN conjunct1]
    by (simp add: sub tds cs_def build_task_config_entries_def e n base_fields_def)
  have inputs: "u ''inputs''
     = Some (AEntries [\<lparr>ce_path = ''task_inputs_1'', ce_url = ''url:i1:rl''\<rparr>,
                       \<lparr>ce_path = ''task_inputs_3'', ce_url = ''url:i2:rl''\<rparr>])"
    using build_task_config_containers_projection[OF reg res names(2), THEN conjunct1]
    by (simp add: sub tds cs_def build_task_config_entries_def e n base_fields_def)
  have unset: "u ''setup'' = None"
    using build_task_config_containers_projection[OF reg res names(3), THEN conjunct1]
    by (simp add: sub tds cs_def base_fields_def)
  have tools: "u ''tools'' = None"
    using build_task_config_containers_projection[OF reg res names(4), THEN conjunct1]
    by (simp add: sub tds cs_def base_fields_def)
  have logs: "u ''logs'' = Some (AStr ''url:l'')"
    using build_task_config_containers_projection[OF reg res names(5),
        THEN conjunct2, THEN conjunct1]
      build_task_config_containers_projection[OF reg res names(5),
        THEN conjunct2, THEN conjunct2, THEN conjunct1]
    by (simp add: sub tds cs_def job_def py_not_str_def e)
  from crashes inputs unset tools logs show ?thesis
    unfolding u_def defn_def cs_def job_def task_def by (intro conjI)
qed

section \<open>The unit configuration: features\<close>

lemma py_or_list: "py_or (\<lambda>v. v \<noteq> []) x [] = (case x of None \<Rightarrow> [] | Some v \<Rightarrow> v)"
  by (cases x) (auto simp: py_or_def)

lemma py_or_bool: "py_or (\<lambda>b. b) x False = (case x of None \<Rightarrow> False | Some b \<Rightarrow> b)"
  by (cases x) (auto simp: py_or_def)

lemma py_or_int: "py_or (\<lambda>n. n \<noteq> 0) x (0::int) = (case x of None \<Rightarrow> 0 | Some n \<Rightarrow> n)"
  by (cases x) (auto simp: py_or_def)

text \<open>
  The container loop leaves unset an attribute of the statements after it, when no
  container definition bears the name of such an attribute.
\<close>

lemma containers_unset:
  assumes "name \<in> set feature_fields"
    and "\<forall>cd \<in> set defs. ct_name (cd_type cd) \<notin> set feature_fields"
  shows "build_task_config_containers env defs submitted
           (build_task_config_base env job task defn) name = None"
proof -
  have "find (\<lambda>cd. ct_name (cd_type cd) = name \<and> cd_type cd \<noteq> ContainerType ''setup''
                       \<and> build_task_config_entries env cd submitted \<noteq> []) (rev defs) = None"
    using assms by (auto simp: find_None_iff)
  moreover have "name \<notin> set base_fields"
    using assms(1) by (auto simp: feature_fields_def base_fields_def)
  ultimately show ?thesis
    unfolding containers_loop by (simp add: base_other)
qed

text \<open>
  A configuration that \<open>check_config\<close> accepts has no empty \<open>target_exe\<close>: the
  empty string is not a valid blob name.
\<close>

lemma check_config_ok_target_exe:
  assumes "TASK_DEFINITIONS env (task_type (cfg_task config)) = Some defn"
    and "snd (check_config env config) = Inr ()"
  shows "task_target_exe (cfg_task config) \<noteq> Some []"
proof
  assume e: "task_target_exe (cfg_task config) = Some []"
  have "snd (check_target_exe env config defn) = Inl (TaskConfigError TargetExeNotCanonical)"
    by (simp add: check_target_exe_def e is_valid_blob_name_def MIN_LENGTH_def py_strip_def)
  with assms(2) show False
    unfolding check_config_stages[OF assms(1)]
    by (auto split: sum.splits option.splits if_splits)
qed

text \<open>
  The statements after the container loop, attribute by attribute: the attribute is
  what its statement assigns when the condition of the statement holds, and is as
  before otherwise.
\<close>

lemma assign_if_other: "m \<noteq> name \<Longrightarrow> assign_if c name v config m = config m"
  by (simp add: assign_if_def)

lemma assign_if_same: "assign_if c name v config name = (if c then v else config name)"
  by (simp add: assign_if_def)

lemma features_apply:
  "build_task_config_features defn t c ''supervisor_env'' =
     (if supervisor_env \<in> set (td_features defn)
      then Some (ADict (py_or (\<lambda>v. v \<noteq> []) (task_supervisor_env t) []))
      else c ''supervisor_env'')"
  "build_task_config_features defn t c ''supervisor_options'' =
     (if supervisor_options \<in> set (td_features defn)
      then Some (AStrs (py_or (\<lambda>v. v \<noteq> []) (task_supervisor_options t) []))
      else c ''supervisor_options'')"
  "build_task_config_features defn t c ''target_env'' =
     (if target_env \<in> set (td_features defn)
      then Some (ADict (py_or (\<lambda>v. v \<noteq> []) (task_target_env t) []))
      else c ''target_env'')"
  "build_task_config_features defn t c ''target_options'' =
     (if target_options \<in> set (td_features defn)
      then Some (AStrs (py_or (\<lambda>v. v \<noteq> []) (task_target_options t) []))
      else c ''target_options'')"
  "build_task_config_features defn t c ''generator_env'' =
     (if generator_env \<in> set (td_features defn)
      then Some (ADict (py_or (\<lambda>v. v \<noteq> []) (task_generator_env t) []))
      else c ''generator_env'')"
  "build_task_config_features defn t c ''generator_options'' =
     (if generator_options \<in> set (td_features defn)
      then Some (AStrs (py_or (\<lambda>v. v \<noteq> []) (task_generator_options t) []))
      else c ''generator_options'')"
  "build_task_config_features defn t c ''analyzer_options'' =
     (if analyzer_options \<in> set (td_features defn)
      then Some (AStrs (py_or (\<lambda>v. v \<noteq> []) (task_analyzer_options t) []))
      else c ''analyzer_options'')"
  "build_task_config_features defn t c ''analyzer_env'' =
     (if analyzer_env \<in> set (td_features defn)
      then Some (ADict (py_or (\<lambda>v. v \<noteq> []) (task_analyzer_env t) []))
      else c ''analyzer_env'')"
  "build_task_config_features defn t c ''target_options_merge'' =
     (if target_options_merge \<in> set (td_features defn)
      then Some (ABool (py_or (\<lambda>b. b) (task_target_options_merge t) False))
      else c ''target_options_merge'')"
  "build_task_config_features defn t c ''rename_output'' =
     (if rename_output \<in> set (td_features defn)
      then Some (ABool (py_or (\<lambda>b. b) (task_rename_output t) False))
      else c ''rename_output'')"
  "build_task_config_features defn t c ''check_retry_count'' =
     (if check_retry_count \<in> set (td_features defn)
      then Some (AInt (py_or (\<lambda>n. n \<noteq> 0) (task_check_retry_count t) 0))
      else c ''check_retry_count'')"
  "build_task_config_features defn t c ''check_fuzzer_help'' =
     (if check_fuzzer_help \<in> set (td_features defn)
      then Some (ABool (case task_check_fuzzer_help t of None \<Rightarrow> True | Some b \<Rightarrow> b))
      else c ''check_fuzzer_help'')"
  "build_task_config_features defn t c ''expect_crash_on_failure'' =
     (if expect_crash_on_failure \<in> set (td_features defn)
      then Some (ABool (case task_expect_crash_on_failure t of None \<Rightarrow> True | Some b \<Rightarrow> b))
      else c ''expect_crash_on_failure'')"
  "build_task_config_features defn t c ''supervisor_exe'' =
     (if supervisor_exe \<in> set (td_features defn)
      then map_option AStr (task_supervisor_exe t)
      else c ''supervisor_exe'')"
  "build_task_config_features defn t c ''supervisor_input_marker'' =
     (if supervisor_input_marker \<in> set (td_features defn)
      then map_option AStr (task_supervisor_input_marker t)
      else c ''supervisor_input_marker'')"
  "build_task_config_features defn t c ''target_workers'' =
     (if target_workers \<in> set (td_features defn)
      then map_option AInt (task_target_workers t)
      else c ''target_workers'')"
  "build_task_config_features defn t c ''generator_exe'' =
     (if generator_exe \<in> set (td_features defn)
      then map_option AStr (task_generator_exe t)
      else c ''generator_exe'')"
  "build_task_config_features defn t c ''analyzer_exe'' =
     (if analyzer_exe \<in> set (td_features defn)
      then map_option AStr (task_analyzer_exe t)
      else c ''analyzer_exe'')"
  "build_task_config_features defn t c ''stats_file'' =
     (if stats_file \<in> set (td_features defn)
      then map_option AStr (task_stats_file t)
      else c ''stats_file'')"
  "build_task_config_features defn t c ''target_timeout'' =
     (if target_timeout \<in> set (td_features defn)
      then map_option AInt (task_target_timeout t)
      else c ''target_timeout'')"
  "build_task_config_features defn t c ''check_asan_log'' =
     (if check_asan_log \<in> set (td_features defn)
      then map_option ABool (task_check_asan_log t)
      else c ''check_asan_log'')"
  "build_task_config_features defn t c ''check_debugger'' =
     (if check_debugger \<in> set (td_features defn)
      then map_option ABool (task_check_debugger t)
      else c ''check_debugger'')"
  "build_task_config_features defn t c ''ensemble_sync_delay'' =
     (if ensemble_sync_delay \<in> set (td_features defn)
      then map_option AInt (task_ensemble_sync_delay t)
      else c ''ensemble_sync_delay'')"
  "build_task_config_features defn t c ''report_list'' =
     (if report_list \<in> set (td_features defn)
      then map_option AStrs (task_report_list t)
      else c ''report_list'')"
  "build_task_config_features defn t c ''minimized_stack_depth'' =
     (if minimized_stack_depth \<in> set (td_features defn)
      then map_option AInt (task_minimized_stack_depth t)
      else c ''minimized_stack_depth'')"
  "build_task_config_features defn t c ''coverage_filter'' =
     (if coverage_filter \<in> set (td_features defn) \<and> task_coverage_filter t \<noteq> None
      then map_option AStr (task_coverage_filter t)
      else c ''coverage_filter'')"
  "build_task_config_features defn t c ''target_assembly'' =
     (if target_assembly \<in> set (td_features defn)
      then map_option AStr (task_target_assembly t)
      else c ''target_assembly'')"
  "build_task_config_features defn t c ''target_class'' =
     (if target_class \<in> set (td_features defn)
      then map_option AStr (task_target_class t)
      else c ''target_class'')"
  "build_task_config_features defn t c ''target_method'' =
     (if target_method \<in> set (td_features defn)
      then map_option AStr (task_target_method t)
      else c ''target_method'')"
  "build_task_config_features defn t c ''stats_format'' =
     (if stats_file \<in> set (td_features defn)
      then map_option AStr (task_stats_format t)
      else c ''stats_format'')"
  "build_task_config_features defn t c ''wait_for_files'' =
     (if wait_for_files \<in> set (td_features defn) \<and> task_wait_for_files t \<noteq> None
      then map_option (\<lambda>container_type. AStr (ct_name container_type)) (task_wait_for_files t)
      else c ''wait_for_files'')"
  "build_task_config_features defn t c ''target_exe'' =
     (if target_exe_optional \<in> set (td_features defn) \<and> \<not> py_not_str (task_target_exe t)
      then map_option AStr (task_target_exe t)
      else if target_exe \<in> set (td_features defn) then map_option AStr (task_target_exe t)
      else c ''target_exe'')"
  by (simp_all add: build_task_config_features_def Let_def assign_if_other assign_if_same
      cong del: if_weak_cong)

text \<open>
  Claim C6. For a task that \<open>check_config\<close> accepts, of a task type none of whose
  container roles bears the name of one of these attributes, every optional attribute
  of the unit configuration is decided by the features of the definition. Under its
  feature, an attribute with a default holds the user's value, or the default when
  the user gave none: the empty mapping for the four environments, the empty list for
  the four option lists, false for \<open>target_options_merge\<close> and \<open>rename_output\<close>,
  0 for \<open>check_retry_count\<close>, true for \<open>check_fuzzer_help\<close> and
  \<open>expect_crash_on_failure\<close>. Under its feature, an attribute without default is
  the user's field as it is (\<open>stats_format\<close> goes with \<open>stats_file\<close>,
  \<open>wait_for_files\<close> is the name of the container type, and \<open>target_exe\<close> is
  copied under \<open>target_exe\<close> and under \<open>target_exe_optional\<close>). An attribute
  whose feature is not declared is unset.
\<close>

theorem build_task_config_features:
  assumes "TASK_DEFINITIONS env (task_type (cfg_task (task_config task))) = Some defn"
    and "snd (build_task_config env job task) = Inr u"
    and "snd (check_config env (task_config task)) = Inr ()"
    and "\<forall>cd \<in> set (td_containers defn). ct_name (cd_type cd) \<notin> set feature_fields"
  shows "u ''supervisor_env'' =
       (if supervisor_env \<in> set (td_features defn)
        then Some (ADict (case task_supervisor_env (cfg_task (task_config task)) of None \<Rightarrow> [] | Some v \<Rightarrow> v))
        else None)
   \<and> u ''supervisor_options'' =
       (if supervisor_options \<in> set (td_features defn)
        then Some (AStrs (case task_supervisor_options (cfg_task (task_config task)) of None \<Rightarrow> [] | Some v \<Rightarrow> v))
        else None)
   \<and> u ''target_env'' =
       (if target_env \<in> set (td_features defn)
        then Some (ADict (case task_target_env (cfg_task (task_config task)) of None \<Rightarrow> [] | Some v \<Rightarrow> v))
        else None)
   \<and> u ''target_options'' =
       (if target_options \<in> set (td_features defn)
        then Some (AStrs (case task_target_options (cfg_task (task_config task)) of None \<Rightarrow> [] | Some v \<Rightarrow> v))
        else None)
   \<and> u ''generator_env'' =
       (if generator_env \<in> set (td_features defn)
        then Some (ADict (case task_generator_env (cfg_task (task_config task)) of None \<Rightarrow> [] | Some v \<Rightarrow> v))
        else None)
   \<and> u ''generator_options'' =
       (if generator_options \<in> set (td_features defn)
        then Some (AStrs (case task_generator_options (cfg_task (task_config task)) of None \<Rightarrow> [] | Some v \<Rightarrow> v))
        else None)
   \<and> u ''analyzer_options'' =
       (if analyzer_options \<in> set (td_features defn)
        then Some (AStrs (case task_analyzer_options (cfg_task (task_config task)) of None \<Rightarrow> [] | Some v \<Rightarrow> v))
        else None)
   \<and> u ''analyzer_env'' =
       (if analyzer_env \<in> set (td_features defn)
        then Some (ADict (case task_analyzer_env (cfg_task (task_config task)) of None \<Rightarrow> [] | Some v \<Rightarrow> v))
        else None)
   \<and> u ''target_options_merge'' =
       (if target_options_merge \<in> set (td_features defn)
        then Some (ABool (case task_target_options_merge (cfg_task (task_config task)) of None \<Rightarrow> False | Some b \<Rightarrow> b))
        else None)
   \<and> u ''rename_output'' =
       (if rename_output \<in> set (td_features defn)
        then Some (ABool (case task_rename_output (cfg_task (task_config task)) of None \<Rightarrow> False | Some b \<Rightarrow> b))
        else None)
   \<and> u ''check_retry_count'' =
       (if check_retry_count \<in> set (td_features defn)
        then Some (AInt (case task_check_retry_count (cfg_task (task_config task)) of None \<Rightarrow> 0 | Some n \<Rightarrow> n))
        else None)
   \<and> u ''check_fuzzer_help'' =
       (if check_fuzzer_help \<in> set (td_features defn)
        then Some (ABool (case task_check_fuzzer_help (cfg_task (task_config task)) of None \<Rightarrow> True | Some b \<Rightarrow> b))
        else None)
   \<and> u ''expect_crash_on_failure'' =
       (if expect_crash_on_failure \<in> set (td_features defn)
        then Some (ABool (case task_expect_crash_on_failure (cfg_task (task_config task)) of None \<Rightarrow> True | Some b \<Rightarrow> b))
        else None)
   \<and> u ''supervisor_exe'' =
       (if supervisor_exe \<in> set (td_features defn)
        then map_option AStr (task_supervisor_exe (cfg_task (task_config task)))
        else None)
   \<and> u ''supervisor_input_marker'' =
       (if supervisor_input_marker \<in> set (td_features defn)
        then map_option AStr (task_supervisor_input_marker (cfg_task (task_config task)))
        else None)
   \<and> u ''target_workers'' =
       (if target_workers \<in> set (td_features defn)
        then map_option AInt (task_target_workers (cfg_task (task_config task)))
        else None)
   \<and> u ''generator_exe'' =
       (if generator_exe \<in> set (td_features defn)
        then map_option AStr (task_generator_exe (cfg_task (task_config task)))
        else None)
   \<and> u ''analyzer_exe'' =
       (if analyzer_exe \<in> set (td_features defn)
        then map_option AStr (task_analyzer_exe (cfg_task (task_config task)))
        else None)
   \<and> u ''stats_file'' =
       (if stats_file \<in> set (td_features defn)
        then map_option AStr (task_stats_file (cfg_task (task_config task)))
        else None)
   \<and> u ''target_timeout'' =
       (if target_timeout \<in> set (td_features defn)
        then map_option AInt (task_target_timeout (cfg_task (task_config task)))
        else None)
   \<and> u ''check_asan_log'' =
       (if check_asan_log \<in> set (td_features defn)
        then map_option ABool (task_check_asan_log (cfg_task (task_config task)))
        else None)
   \<and> u ''check_debugger'' =
       (if check_debugger \<in> set (td_features defn)
        then map_option ABool (task_check_debugger (cfg_task (task_config task)))
        else None)
   \<and> u ''ensemble_sync_delay'' =
       (if ensemble_sync_delay \<in> set (td_features defn)
        then map_option AInt (task_ensemble_sync_delay (cfg_task (task_config task)))
        else None)
   \<and> u ''report_list'' =
       (if report_list \<in> set (td_features defn)
        then map_option AStrs (task_report_list (cfg_task (task_config task)))
        else None)
   \<and> u ''minimized_stack_depth'' =
       (if minimized_stack_depth \<in> set (td_features defn)
        then map_option AInt (task_minimized_stack_depth (cfg_task (task_config task)))
        else None)
   \<and> u ''coverage_filter'' =
       (if coverage_filter \<in> set (td_features defn)
        then map_option AStr (task_coverage_filter (cfg_task (task_config task)))
        else None)
   \<and> u ''target_assembly'' =
       (if target_assembly \<in> set (td_features defn)
        then map_option AStr (task_target_assembly (cfg_task (task_config task)))
        else None)
   \<and> u ''target_class'' =
       (if target_class \<in> set (td_features defn)
        then map_option AStr (task_target_class (cfg_task (task_config task)))
        else None)
   \<and> u ''target_method'' =
       (if target_method \<in> set (td_features defn)
        then map_option AStr (task_target_method (cfg_task (task_config task)))
        else None)
   \<and> u ''stats_format'' =
       (if stats_file \<in> set (td_features defn)
        then map_option AStr (task_stats_format (cfg_task (task_config task)))
        else None)
   \<and> u ''wait_for_files'' =
       (if wait_for_files \<in> set (td_features defn)
        then map_option (\<lambda>container_type. AStr (ct_name container_type))
               (task_wait_for_files (cfg_task (task_config task)))
        else None)
   \<and> u ''target_exe'' =
       (if target_exe \<in> set (td_features defn) \<or> target_exe_optional \<in> set (td_features defn)
        then map_option AStr (task_target_exe (cfg_task (task_config task)))
        else None)"
proof -
  define c where "c = build_task_config_containers env (td_containers defn)
      (cfg_containers (task_config task)) (build_task_config_base env job task defn)"
  have u: "u = build_task_config_features defn (cfg_task (task_config task)) c"
    unfolding c_def by (rule build_task_config_Inr[OF assms(1,2)])
  have unset: "c name = None" if "name \<in> set feature_fields" for name
    unfolding c_def using that assms(4) by (rule containers_unset)
  have exe: "task_target_exe (cfg_task (task_config task)) \<noteq> Some []"
    by (rule check_config_ok_target_exe[OF assms(1,3)])
  have f: "c ''supervisor_env'' = None" "c ''supervisor_options'' = None" "c ''target_env'' = None" "c ''target_options'' = None" "c ''generator_env'' = None" "c ''generator_options'' = None" "c ''analyzer_options'' = None" "c ''analyzer_env'' = None" "c ''target_options_merge'' = None" "c ''rename_output'' = None" "c ''check_retry_count'' = None" "c ''check_fuzzer_help'' = None" "c ''expect_crash_on_failure'' = None" "c ''supervisor_exe'' = None" "c ''supervisor_input_marker'' = None" "c ''target_workers'' = None" "c ''generator_exe'' = None" "c ''analyzer_exe'' = None" "c ''stats_file'' = None" "c ''target_timeout'' = None" "c ''check_asan_log'' = None" "c ''check_debugger'' = None" "c ''ensemble_sync_delay'' = None" "c ''report_list'' = None" "c ''minimized_stack_depth'' = None" "c ''coverage_filter'' = None" "c ''target_assembly'' = None" "c ''target_class'' = None" "c ''target_method'' = None" "c ''stats_format'' = None" "c ''wait_for_files'' = None" "c ''target_exe'' = None"
    by (rule unset, simp add: feature_fields_def)+
  show ?thesis
    unfolding u
    by (intro conjI;
        simp add: features_apply f exe py_or_list py_or_bool py_or_int py_not_str_def
          split: option.splits)
qed

text \<open>
  The examples of the specification: a task type that declares \<open>rename_output\<close>,
  \<open>check_fuzzer_help\<close>, \<open>target_env\<close> and \<open>target_exe_optional\<close> and
  requires one setup container, and a task that gives a target executable and a target
  environment. \<open>check_config\<close> accepts the task; \<open>rename_output\<close> is false,
  \<open>check_fuzzer_help\<close> is true, the environment and the executable are the
  user's, and \<open>target_options\<close>, whose feature is not declared, is unset.
\<close>

theorem build_task_config_features_witness:
  "snd (check_config
      (ex_env (ex_definition [rename_output, check_fuzzer_help, target_env, target_exe_optional]
        [\<lparr>cd_type = ContainerType ''setup'', cd_compare = Equal, cd_value = 1,
          cd_permissions = [Read, ListP]\<rparr>]))
      (ex_config [\<lparr>tc_type = ContainerType ''setup'', tc_name = ''s''\<rparr>]
           ((task_details (TaskType ''example''))
              \<lparr>task_target_exe := Some ''fuzz.exe'',
                 task_target_env := Some [(''A'', ''1'')]\<rparr>))) = Inr ()
   \<and> projr (snd (build_task_config
      (ex_env (ex_definition [rename_output, check_fuzzer_help, target_env, target_exe_optional]
        [\<lparr>cd_type = ContainerType ''setup'', cd_compare = Equal, cd_value = 1,
          cd_permissions = [Read, ListP]\<rparr>]))
      \<lparr>job_id = ''job'', job_config = \<lparr>jc_logs = None\<rparr>\<rparr>
      \<lparr>task_id = ''task'', task_config =
         ex_config [\<lparr>tc_type = ContainerType ''setup'', tc_name = ''s''\<rparr>]
           ((task_details (TaskType ''example''))
              \<lparr>task_target_exe := Some ''fuzz.exe'',
                 task_target_env := Some [(''A'', ''1'')]\<rparr>)\<rparr>)) ''rename_output''
     = Some (ABool False)
   \<and> projr (snd (build_task_config
      (ex_env (ex_definition [rename_output, check_fuzzer_help, target_env, target_exe_optional]
        [\<lparr>cd_type = ContainerType ''setup'', cd_compare = Equal, cd_value = 1,
          cd_permissions = [Read, ListP]\<rparr>]))
      \<lparr>job_id = ''job'', job_config = \<lparr>jc_logs = None\<rparr>\<rparr>
      \<lparr>task_id = ''task'', task_config =
         ex_config [\<lparr>tc_type = ContainerType ''setup'', tc_name = ''s''\<rparr>]
           ((task_details (TaskType ''example''))
              \<lparr>task_target_exe := Some ''fuzz.exe'',
                 task_target_env := Some [(''A'', ''1'')]\<rparr>)\<rparr>)) ''check_fuzzer_help''
     = Some (ABool True)
   \<and> projr (snd (build_task_config
      (ex_env (ex_definition [rename_output, check_fuzzer_help, target_env, target_exe_optional]
        [\<lparr>cd_type = ContainerType ''setup'', cd_compare = Equal, cd_value = 1,
          cd_permissions = [Read, ListP]\<rparr>]))
      \<lparr>job_id = ''job'', job_config = \<lparr>jc_logs = None\<rparr>\<rparr>
      \<lparr>task_id = ''task'', task_config =
         ex_config [\<lparr>tc_type = ContainerType ''setup'', tc_name = ''s''\<rparr>]
           ((task_details (TaskType ''example''))
              \<lparr>task_target_exe := Some ''fuzz.exe'',
                 task_target_env := Some [(''A'', ''1'')]\<rparr>)\<rparr>)) ''target_env''
     = Some (ADict [(''A'', ''1'')])
   \<and> projr (snd (build_task_config
      (ex_env (ex_definition [rename_output, check_fuzzer_help, target_env, target_exe_optional]
        [\<lparr>cd_type = ContainerType ''setup'', cd_compare = Equal, cd_value = 1,
          cd_permissions = [Read, ListP]\<rparr>]))
      \<lparr>job_id = ''job'', job_config = \<lparr>jc_logs = None\<rparr>\<rparr>
      \<lparr>task_id = ''task'', task_config =
         ex_config [\<lparr>tc_type = ContainerType ''setup'', tc_name = ''s''\<rparr>]
           ((task_details (TaskType ''example''))
              \<lparr>task_target_exe := Some ''fuzz.exe'',
                 task_target_env := Some [(''A'', ''1'')]\<rparr>)\<rparr>)) ''target_exe''
     = Some (AStr ''fuzz.exe'')
   \<and> projr (snd (build_task_config
      (ex_env (ex_definition [rename_output, check_fuzzer_help, target_env, target_exe_optional]
        [\<lparr>cd_type = ContainerType ''setup'', cd_compare = Equal, cd_value = 1,
          cd_permissions = [Read, ListP]\<rparr>]))
      \<lparr>job_id = ''job'', job_config = \<lparr>jc_logs = None\<rparr>\<rparr>
      \<lparr>task_id = ''task'', task_config =
         ex_config [\<lparr>tc_type = ContainerType ''setup'', tc_name = ''s''\<rparr>]
           ((task_details (TaskType ''example''))
              \<lparr>task_target_exe := Some ''fuzz.exe'',
                 task_target_env := Some [(''A'', ''1'')]\<rparr>)\<rparr>)) ''target_options''
     = None"
proof -
  define defn where "defn = ex_definition [rename_output, check_fuzzer_help, target_env, target_exe_optional]
        [\<lparr>cd_type = ContainerType ''setup'', cd_compare = Equal, cd_value = 1,
          cd_permissions = [Read, ListP]\<rparr>]"
  define job where "job = \<lparr>job_id = ''job'', job_config = \<lparr>jc_logs = None\<rparr>\<rparr>"
  define task where "task = \<lparr>task_id = ''task'', task_config =
         ex_config [\<lparr>tc_type = ContainerType ''setup'', tc_name = ''s''\<rparr>]
           ((task_details (TaskType ''example''))
              \<lparr>task_target_exe := Some ''fuzz.exe'',
                 task_target_env := Some [(''A'', ''1'')]\<rparr>)\<rparr>"
  define u where "u = projr (snd (build_task_config (ex_env defn) job task))"
  have reg: "TASK_DEFINITIONS (ex_env defn) (task_type (cfg_task (task_config task)))
      = Some defn"
    by (simp add: ex_env_def task_def ex_config_def task_details_def)
  have res: "snd (build_task_config (ex_env defn) job task) = Inr u"
    unfolding u_def by (simp add: build_task_config_def reg Let_def)
  have fs: "td_features defn
      = [rename_output, check_fuzzer_help, target_env, target_exe_optional]"
    by (simp add: defn_def ex_definition_def)
  have t: "cfg_task (task_config task) =
      ((task_details (TaskType ''example''))
              \<lparr>task_target_exe := Some ''fuzz.exe'',
                 task_target_env := Some [(''A'', ''1'')]\<rparr>)"
    by (simp add: task_def ex_config_def)
  have valid: "is_valid_blob_name ''fuzz.exe''"
    by (simp add: is_valid_blob_name_def py_strip_def py_isspace_def MIN_LENGTH_def
      MAX_LENGTH_def MAX_PATH_SEGMENTS_def PurePosixPath_def splitroot_def parts_def
      is_absolute_def as_posix_def endswith_def)
  have cont: "check_containers (ex_env defn) defn (task_config task) = Inr ()"
    by (simp add: check_containers_def check_container_def dict_get_def defn_def task_def
        ex_definition_def ex_config_def ex_env_def)
  have ok: "snd (check_config (ex_env defn) (task_config task)) = Inr ()"
    unfolding check_config_stages[OF reg] cont
    by (simp add: fs t valid check_target_exe_def check_config_generator_exe_def
        check_config_stats_file_def task_details_def task_def ex_config_def ex_env_def
        defn_def ex_definition_def)
  have names: "\<forall>cd \<in> set (td_containers defn). ct_name (cd_type cd) \<notin> set feature_fields"
    by (simp add: defn_def ex_definition_def feature_fields_def)
  note f = build_task_config_features[OF reg res ok names]
  have "snd (check_config (ex_env defn) (task_config task)) = Inr ()"
    by (rule ok)
  moreover have "u ''rename_output'' = Some (ABool False)"
    using f by (simp add: fs t task_details_def)
  moreover have "u ''check_fuzzer_help'' = Some (ABool True)"
    using f by (simp add: fs t task_details_def)
  moreover have "u ''target_env'' = Some (ADict [(''A'', ''1'')])"
    using f by (simp add: fs t task_details_def)
  moreover have "u ''target_exe'' = Some (AStr ''fuzz.exe'')"
    using f by (simp add: fs t task_details_def)
  moreover have "u ''target_options'' = None"
    using f by (simp add: fs t task_details_def)
  ultimately show ?thesis
    unfolding u_def defn_def job_def task_def by simp
qed

end
